theory Spec2Isabelle
  imports Complex_Main "HOL-Library.Char_ord" "HOL-Library.List_Lexorder"
begin

section \<open>Numbers and errors\<close>

text \<open>
  The tensors of \<^verbatim>\<open>plot_pr_curves.py\<close> hold floating-point numbers. An entry is modelled
  as a real number or one of the three special values of IEEE arithmetic, so that a
  division by zero is visible in the model: \<open>0 / 0\<close> is \<open>NaN\<close>, not a number.
  Arithmetic on finite entries is exact: rounding, overflow to infinity and the sign
  of zero are not modelled.
\<close>

datatype fnum = Fin real | PInf | NInf | NaN

datatype py_error =
    AttributeError string
  | KeyError string
  | IndexError
  | RuntimeError
  | ValueError
  | OverflowError

fun fneg :: "fnum \<Rightarrow> fnum" where
  "fneg (Fin a) = Fin (- a)"
| "fneg PInf = NInf"
| "fneg NInf = PInf"
| "fneg NaN = NaN"

fun fabs :: "fnum \<Rightarrow> fnum" where
  "fabs (Fin a) = Fin \<bar>a\<bar>"
| "fabs PInf = PInf"
| "fabs NInf = PInf"
| "fabs NaN = NaN"

fun fexp :: "fnum \<Rightarrow> fnum" where
  "fexp (Fin a) = Fin (exp a)"
| "fexp PInf = PInf"
| "fexp NInf = Fin 0"
| "fexp NaN = NaN"

fun fadd :: "fnum \<Rightarrow> fnum \<Rightarrow> fnum" where
  "fadd (Fin a) (Fin b) = Fin (a + b)"
| "fadd (Fin a) PInf = PInf"
| "fadd (Fin a) NInf = NInf"
| "fadd PInf (Fin b) = PInf"
| "fadd PInf PInf = PInf"
| "fadd PInf NInf = NaN"
| "fadd NInf (Fin b) = NInf"
| "fadd NInf PInf = NaN"
| "fadd NInf NInf = NInf"
| "fadd NaN y = NaN"
| "fadd x NaN = NaN"

definition fsub :: "fnum \<Rightarrow> fnum \<Rightarrow> fnum" where
  "fsub x y = fadd x (fneg y)"

fun fmul :: "fnum \<Rightarrow> fnum \<Rightarrow> fnum" where
  "fmul (Fin a) (Fin b) = Fin (a * b)"
| "fmul (Fin a) PInf = (if a = 0 then NaN else if 0 < a then PInf else NInf)"
| "fmul (Fin a) NInf = (if a = 0 then NaN else if 0 < a then NInf else PInf)"
| "fmul PInf (Fin b) = (if b = 0 then NaN else if 0 < b then PInf else NInf)"
| "fmul NInf (Fin b) = (if b = 0 then NaN else if 0 < b then NInf else PInf)"
| "fmul PInf PInf = PInf"
| "fmul PInf NInf = NInf"
| "fmul NInf PInf = NInf"
| "fmul NInf NInf = PInf"
| "fmul NaN y = NaN"
| "fmul x NaN = NaN"

fun fdiv :: "fnum \<Rightarrow> fnum \<Rightarrow> fnum" where
  "fdiv (Fin a) (Fin b) =
     (if b \<noteq> 0 then Fin (a / b)
      else if a = 0 then NaN else if 0 < a then PInf else NInf)"
| "fdiv (Fin a) PInf = Fin 0"
| "fdiv (Fin a) NInf = Fin 0"
| "fdiv PInf (Fin b) = (if 0 \<le> b then PInf else NInf)"
| "fdiv NInf (Fin b) = (if 0 \<le> b then NInf else PInf)"
| "fdiv PInf PInf = NaN"
| "fdiv PInf NInf = NaN"
| "fdiv NInf PInf = NaN"
| "fdiv NInf NInf = NaN"
| "fdiv NaN y = NaN"
| "fdiv x NaN = NaN"

text \<open>The reductions \<^verbatim>\<open>min\<close> and \<^verbatim>\<open>max\<close> of torch return NaN when an entry is NaN.\<close>

fun fmin :: "fnum \<Rightarrow> fnum \<Rightarrow> fnum" where
  "fmin (Fin a) (Fin b) = Fin (min a b)"
| "fmin (Fin a) PInf = Fin a"
| "fmin (Fin a) NInf = NInf"
| "fmin PInf (Fin b) = Fin b"
| "fmin PInf PInf = PInf"
| "fmin PInf NInf = NInf"
| "fmin NInf (Fin b) = NInf"
| "fmin NInf PInf = NInf"
| "fmin NInf NInf = NInf"
| "fmin NaN y = NaN"
| "fmin x NaN = NaN"

fun fmax :: "fnum \<Rightarrow> fnum \<Rightarrow> fnum" where
  "fmax (Fin a) (Fin b) = Fin (max a b)"
| "fmax (Fin a) PInf = PInf"
| "fmax (Fin a) NInf = Fin a"
| "fmax PInf (Fin b) = PInf"
| "fmax PInf PInf = PInf"
| "fmax PInf NInf = PInf"
| "fmax NInf (Fin b) = Fin b"
| "fmax NInf PInf = PInf"
| "fmax NInf NInf = NInf"
| "fmax NaN y = NaN"
| "fmax x NaN = NaN"

fun is_nan :: "fnum \<Rightarrow> bool" where
  "is_nan NaN = True"
| "is_nan x = False"

fun is_finite :: "fnum \<Rightarrow> bool" where
  "is_finite (Fin a) = True"
| "is_finite x = False"

section \<open>Tensors in a store\<close>

text \<open>
  The in-place operators \<^verbatim>\<open>-=\<close> and \<^verbatim>\<open>/=\<close> write into the storage of their left
  operand, and \<^verbatim>\<open>reshape(-1)\<close> of a contiguous tensor is a view of the same storage.
  A tensor is therefore a reference: the address of its storage, its shape and its
  device. The store maps addresses to the entries in row-major order; \<open>next_free\<close>
  is the address the next new tensor gets.
\<close>

datatype device = Cpu | Cuda

record tensor =
  storage :: nat
  shape :: "nat list"
  device :: device

record heap =
  cells :: "nat \<Rightarrow> fnum list"
  next_free :: nat

definition entries :: "tensor \<Rightarrow> heap \<Rightarrow> fnum list" where
  "entries t h = cells h (storage t)"

definition alloc :: "fnum list \<Rightarrow> heap \<Rightarrow> nat \<times> heap" where
  "alloc xs h =
     (next_free h, h\<lparr>cells := (cells h)(next_free h := xs), next_free := Suc (next_free h)\<rparr>)"

text \<open>\<^verbatim>\<open>t.min()\<close> and \<^verbatim>\<open>t.max()\<close>: torch raises RuntimeError on a tensor with no entry.\<close>

definition tensor_min :: "tensor \<Rightarrow> heap \<Rightarrow> py_error + fnum" where
  "tensor_min t h =
     (case entries t h of [] \<Rightarrow> Inl RuntimeError | x # xs \<Rightarrow> Inr (fold fmin xs x))"

definition tensor_max :: "tensor \<Rightarrow> heap \<Rightarrow> py_error + fnum" where
  "tensor_max t h =
     (case entries t h of [] \<Rightarrow> Inl RuntimeError | x # xs \<Rightarrow> Inr (fold fmax xs x))"

text \<open>\<^verbatim>\<open>t -= s\<close> and \<^verbatim>\<open>t /= s\<close> for a zero-dimensional \<open>s\<close>: every entry, in place.\<close>

definition isub_scalar :: "tensor \<Rightarrow> fnum \<Rightarrow> heap \<Rightarrow> heap" where
  "isub_scalar t s h =
     h\<lparr>cells := (cells h)(storage t := map (\<lambda>x. fsub x s) (entries t h))\<rparr>"

definition idiv_scalar :: "tensor \<Rightarrow> fnum \<Rightarrow> heap \<Rightarrow> heap" where
  "idiv_scalar t s h =
     h\<lparr>cells := (cells h)(storage t := map (\<lambda>x. fdiv x s) (entries t h))\<rparr>"

text \<open>\<^verbatim>\<open>t.reshape(-1)\<close>: a one-dimensional view of the same storage.\<close>

definition reshape_flat :: "tensor \<Rightarrow> tensor" where
  "reshape_flat t = t\<lparr>shape := [prod_list (shape t)]\<rparr>"

text \<open>\<^verbatim>\<open>t.cpu()\<close>: the tensor itself when it is on the CPU, a copy in new storage otherwise.\<close>

definition cpu :: "tensor \<Rightarrow> heap \<Rightarrow> tensor \<times> heap" where
  "cpu t h =
     (case device t of
        Cpu \<Rightarrow> (t, h)
      | Cuda \<Rightarrow> (let (a, h') = alloc (entries t h) h
                 in (t\<lparr>storage := a, device := Cpu\<rparr>, h')))"

section \<open>Min-max normalisation\<close>

text \<open>
  \<^verbatim>\<open>
  def prep_fd(fd):
      fd -= fd.min()
      fd /= fd.max()
      return fd.reshape(-1)
  \<close>
\<close>

definition prep_fd :: "tensor \<Rightarrow> heap \<Rightarrow> py_error + (tensor \<times> heap)" where
  "prep_fd fd h =
     (case tensor_min fd h of
        Inl e \<Rightarrow> Inl e
      | Inr lo \<Rightarrow>
          (let h1 = isub_scalar fd lo h in
           case tensor_max fd h1 of
             Inl e \<Rightarrow> Inl e
           | Inr hi \<Rightarrow>
               (let h2 = idiv_scalar fd hi h1 in Inr (reshape_flat fd, h2))))"

text \<open>A tensor is constant when all its entries are equal.\<close>

fun all_equal :: "'a list \<Rightarrow> bool" where
  "all_equal [] = True"
| "all_equal (x # xs) = list_all (\<lambda>y. y = x) xs"

text \<open>What the two in-place steps compute on a list of real numbers.\<close>

definition minmax :: "real list \<Rightarrow> real list" where
  "minmax xs =
     map (\<lambda>x. (x - Min (set xs)) / (Max (set xs) - Min (set xs))) xs"

text \<open>
  What the two in-place steps, the subtraction of the minimum and the division by the
  maximum of the result, leave in the storage of a tensor with entries \<open>xs\<close>.
\<close>

definition norm_entries :: "fnum list \<Rightarrow> fnum list" where
  "norm_entries xs =
     (let lo = fold fmin (tl xs) (hd xs);
          ys = map (\<lambda>x. fsub x lo) xs;
          hi = fold fmax (tl ys) (hd ys)
      in map (\<lambda>y. fdiv y hi) ys)"

section \<open>Precision-recall curves\<close>

text \<open>
  \<^verbatim>\<open>precision_recall_curve\<close> and \<^verbatim>\<open>average_precision_score\<close> belong to scikit-learn.
  They are parameters of the model: each takes the targets and the predictions and
  returns its result or raises.
\<close>

record sklearn =
  precision_recall_curve ::
    "fnum list \<Rightarrow> fnum list \<Rightarrow> py_error + (fnum list \<times> fnum list \<times> fnum list)"
  average_precision_score :: "fnum list \<Rightarrow> fnum list \<Rightarrow> py_error + fnum"

text \<open>One curve of the figure, as \<^verbatim>\<open>plt.plot(recalls, precisions, label=...)\<close> draws it.\<close>

record line =
  line_x :: "fnum list"
  line_y :: "fnum list"
  line_label :: string

text \<open>Python's \<^verbatim>\<open>int(x)\<close> of a float truncates towards zero and raises on NaN and infinity.\<close>

definition trunc :: "real \<Rightarrow> int" where
  "trunc r = (if 0 \<le> r then \<lfloor>r\<rfloor> else \<lceil>r\<rceil>)"

definition py_int :: "fnum \<Rightarrow> py_error + int" where
  "py_int x =
     (case x of
        Fin r \<Rightarrow> Inr (trunc r)
      | NaN \<Rightarrow> Inl ValueError
      | PInf \<Rightarrow> Inl OverflowError
      | NInf \<Rightarrow> Inl OverflowError)"

fun str_nat :: "nat \<Rightarrow> string" where
  "str_nat n =
     (if n < 10 then [char_of (48 + n)]
      else str_nat (n div 10) @ [char_of (48 + n mod 10)])"

definition str_int :: "int \<Rightarrow> string" where
  "str_int i = (if i < 0 then CHR ''-'' # str_nat (nat (- i)) else str_nat (nat i))"

text \<open>
  \<^verbatim>\<open>t.to(torch.int64)\<close> of a float tensor is a new tensor whose entries are truncated
  towards zero. torch leaves the conversion of NaN, of an infinity and of a number
  outside the 64-bit range undefined; the model takes \<open>-2^63\<close>, the value an x86
  processor gives.
\<close>

definition int64_of :: "fnum \<Rightarrow> fnum" where
  "int64_of x =
     (case x of
        Fin r \<Rightarrow>
          (if - (2 ^ 63) \<le> trunc r \<and> trunc r < 2 ^ 63 then Fin (of_int (trunc r))
           else Fin (- (2 ^ 63)))
      | _ \<Rightarrow> Fin (- (2 ^ 63)))"

definition to_int64 :: "tensor \<Rightarrow> heap \<Rightarrow> tensor \<times> heap" where
  "to_int64 t h =
     (let (a, h') = alloc (map int64_of (entries t h)) h in (t\<lparr>storage := a\<rparr>, h'))"

text \<open>
  The last three statements of \<^verbatim>\<open>plot_pr\<close>:
  \<^verbatim>\<open>
  precisions, recalls, _ = precision_recall_curve(targets, preds)
  average_precision = average_precision_score(targets, preds)
  plt.plot(recalls, precisions, label=f"AP={int(average_precision * 100)}% {name}")
  \<close>
\<close>

definition pr_line :: "sklearn \<Rightarrow> fnum list \<Rightarrow> fnum list \<Rightarrow> string \<Rightarrow> py_error + line" where
  "pr_line sk targets preds name =
     (case precision_recall_curve sk targets preds of
        Inl e \<Rightarrow> Inl e
      | Inr (precisions, recalls, thresholds) \<Rightarrow>
          (case average_precision_score sk targets preds of
             Inl e \<Rightarrow> Inl e
           | Inr average_precision \<Rightarrow>
               (case py_int (fmul average_precision (Fin 100)) of
                  Inl e \<Rightarrow> Inl e
                | Inr pct \<Rightarrow>
                    Inr \<lparr>line_x = recalls, line_y = precisions,
                         line_label = ''AP='' @ str_int pct @ ''% '' @ name\<rparr>)))"

text \<open>
  \<^verbatim>\<open>
  def plot_pr(preds, targets, name):
      preds = preds.cpu().reshape(-1)
      preds -= preds.min()
      preds /= preds.max()
      targets = targets.to(torch.int64).cpu().reshape(-1)
      ...
  \<close>
\<close>

definition plot_pr ::
  "sklearn \<Rightarrow> tensor \<Rightarrow> tensor \<Rightarrow> string \<Rightarrow> heap \<Rightarrow> py_error + (line \<times> heap)" where
  "plot_pr sk preds targets name h =
     (let (p0, h0) = cpu preds h; p = reshape_flat p0 in
      case tensor_min p h0 of
        Inl e \<Rightarrow> Inl e
      | Inr lo \<Rightarrow>
          (let h1 = isub_scalar p lo h0 in
           case tensor_max p h1 of
             Inl e \<Rightarrow> Inl e
           | Inr hi \<Rightarrow>
               (let h2 = idiv_scalar p hi h1;
                    (t0, h3) = to_int64 targets h2;
                    (t1, h4) = cpu t0 h3;
                    t = reshape_flat t1
                in case pr_line sk (entries t h4) (entries p h4) name of
                     Inl e \<Rightarrow> Inl e
                   | Inr l \<Rightarrow> Inr (l, h4))))"

section \<open>Tensor values\<close>

text \<open>
  An operator that returns a new tensor is modelled on values: the shape and the
  entries in row-major order. A zero-dimensional tensor is a number.
\<close>

record tval =
  dims :: "nat list"
  vals :: "fnum list"

definition wf_tval :: "tval \<Rightarrow> bool" where
  "wf_tval t \<longleftrightarrow> length (vals t) = prod_list (dims t)"

definition zeros :: "nat list \<Rightarrow> tval" where
  "zeros s = \<lparr>dims = s, vals = replicate (prod_list s) (Fin 0)\<rparr>"

text \<open>
  Broadcasting of torch: the shapes are aligned at the last dimension; two sizes go
  together when they are equal or one of them is 1; a tensor is repeated along a
  dimension where it has size 1. \<open>broadcast_shape\<close> takes the shapes reversed.
\<close>

fun broadcast_shape :: "nat list \<Rightarrow> nat list \<Rightarrow> nat list option" where
  "broadcast_shape [] ys = Some ys"
| "broadcast_shape xs [] = Some xs"
| "broadcast_shape (x # xs) (y # ys) =
     (if x = y \<or> y = 1 then map_option ((#) x) (broadcast_shape xs ys)
      else if x = 1 then map_option ((#) y) (broadcast_shape xs ys)
      else None)"

fun chunks :: "nat \<Rightarrow> nat \<Rightarrow> 'a list \<Rightarrow> 'a list list" where
  "chunks 0 m xs = []"
| "chunks (Suc k) m xs = take m xs # chunks k m (drop m xs)"

fun expand :: "nat list \<Rightarrow> nat list \<Rightarrow> 'a list \<Rightarrow> 'a list" where
  "expand (d # ds) (e # es) xs =
     (if d = e then concat (map (expand ds es) (chunks d (prod_list ds) xs))
      else concat (replicate e (expand ds es xs)))"
| "expand ds es xs = xs"

definition left_pad :: "nat list \<Rightarrow> nat list \<Rightarrow> nat list" where
  "left_pad r s = replicate (length r - length s) 1 @ s"

definition broadcast_op :: "(fnum \<Rightarrow> fnum \<Rightarrow> fnum) \<Rightarrow> tval \<Rightarrow> tval \<Rightarrow> py_error + tval" where
  "broadcast_op f a b =
     (case broadcast_shape (rev (dims a)) (rev (dims b)) of
        None \<Rightarrow> Inl RuntimeError
      | Some rr \<Rightarrow>
          (let r = rev rr in
           Inr \<lparr>dims = r,
                vals = map2 f (expand (left_pad r (dims a)) r (vals a))
                              (expand (left_pad r (dims b)) r (vals b))\<rparr>))"

definition map_tval :: "(fnum \<Rightarrow> fnum) \<Rightarrow> tval \<Rightarrow> tval" where
  "map_tval f t = t\<lparr>vals := map f (vals t)\<rparr>"

section \<open>The pairwise potential\<close>

text \<open>
  \<^verbatim>\<open>
  class CRFModule(torch.nn.Module):
      def __init__(self):
          self.w1 = torch.nn.Parameter(torch.tensor(10.0), requires_grad=True)
          self.w2 = torch.nn.Parameter(torch.tensor(3.0), requires_grad=True)
          self.shift = torch.nn.Parameter(torch.tensor(-0.3), requires_grad=True)
          self.alpha = torch.nn.Parameter(torch.tensor(0.5), requires_grad=True)
          self.beta = torch.nn.Parameter(torch.tensor(0.15), requires_grad=True)
          self.gamma = torch.nn.Parameter(torch.tensor(0.05), requires_grad=True)
  \<close>
\<close>

record CRFModule =
  w1 :: fnum
  w2 :: fnum
  shift :: fnum
  alpha :: fnum
  beta :: fnum
  gamma :: fnum

definition CRFModule_init :: CRFModule where
  "CRFModule_init =
     \<lparr>w1 = Fin 10, w2 = Fin 3, shift = Fin (- 3 / 10),
      alpha = Fin (1 / 2), beta = Fin (15 / 100), gamma = Fin (5 / 100)\<rparr>"

text \<open>
  \<^verbatim>\<open>
      def forward(self, coord_diff, img_diff):
          return (
              torch.abs(self.w1)
              * torch.exp(
                  -coord_diff / (2 * torch.exp(self.alpha))
                  - img_diff / (2 * torch.exp(self.beta))
              )
              + torch.abs(self.w2) * torch.exp(-coord_diff / (2 * torch.exp(self.gamma)))
              - self.shift
          )
  \<close>
\<close>

definition forward :: "CRFModule \<Rightarrow> tval \<Rightarrow> tval \<Rightarrow> py_error + tval" where
  "forward self coord_diff img_diff =
     (case broadcast_op fsub
             (map_tval (\<lambda>x. fdiv x (fmul (Fin 2) (fexp (alpha self)))) (map_tval fneg coord_diff))
             (map_tval (\<lambda>x. fdiv x (fmul (Fin 2) (fexp (beta self)))) img_diff) of
        Inl e \<Rightarrow> Inl e
      | Inr a \<Rightarrow>
          (case broadcast_op fadd
                  (map_tval (fmul (fabs (w1 self))) (map_tval fexp a))
                  (map_tval (fmul (fabs (w2 self)))
                     (map_tval fexp
                        (map_tval (\<lambda>x. fdiv x (fmul (Fin 2) (fexp (gamma self))))
                           (map_tval fneg coord_diff)))) of
             Inl e \<Rightarrow> Inl e
           | Inr b \<Rightarrow> Inr (map_tval (\<lambda>x. fsub x (shift self)) b)))"

text \<open>
  The potential of the specification, for one pair of positions:
  \<^verbatim>\<open>|w1| * exp(-coord_diff / (2*exp(alpha)) - img_diff / (2*exp(beta)))\<close>
  \<^verbatim>\<open>+ |w2| * exp(-coord_diff / (2*exp(gamma))) - shift\<close>.
\<close>

definition spec_potential :: "CRFModule \<Rightarrow> fnum \<Rightarrow> fnum \<Rightarrow> fnum" where
  "spec_potential m c i =
     fsub
       (fadd
          (fmul (fabs (w1 m))
             (fexp (fsub (fdiv (fneg c) (fmul (Fin 2) (fexp (alpha m))))
                         (fdiv i (fmul (Fin 2) (fexp (beta m)))))))
          (fmul (fabs (w2 m)) (fexp (fdiv (fneg c) (fmul (Fin 2) (fexp (gamma m)))))))
       (shift m)"

section \<open>The confusion matrix\<close>

text \<open>
  \<^verbatim>\<open>self.cm_metrics.histogram\<close> is the matrix of counts that the metrics object of
  \<^verbatim>\<open>utils.py\<close> keeps. A matrix is the list of its rows. The numeric part of
  \<^verbatim>\<open>plot_cm\<close> is
  \<^verbatim>\<open>
  hist = histogram.detach().cpu().to(torch.float32)
  hist /= torch.clamp_min(hist.sum(dim=0, keepdim=True), 1)
  sns.heatmap(hist.t(), ...)
  \<close>
  and the statements after it only draw.
\<close>

definition fsum :: "fnum list \<Rightarrow> fnum" where
  "fsum xs = foldr fadd xs (Fin 0)"

definition ncols :: "'a list list \<Rightarrow> nat" where
  "ncols rows = (case rows of [] \<Rightarrow> 0 | r # rs \<Rightarrow> length r)"

definition column :: "'a list list \<Rightarrow> nat \<Rightarrow> 'a list" where
  "column rows j = map (\<lambda>row. row ! j) rows"

text \<open>\<^verbatim>\<open>histogram.to(torch.float32)\<close>.\<close>

definition to_float32 :: "nat list list \<Rightarrow> fnum list list" where
  "to_float32 histogram = map (map (\<lambda>k. Fin (real k))) histogram"

text \<open>\<^verbatim>\<open>torch.clamp_min(hist.sum(dim=0, keepdim=True), 1)\<close>: one divisor for each column.\<close>

definition cm_divisor :: "fnum list list \<Rightarrow> fnum list" where
  "cm_divisor hist = map (\<lambda>j. fmax (fsum (column hist j)) (Fin 1)) [0..<ncols hist]"

text \<open>\<^verbatim>\<open>hist /= ...\<close>: the row of divisors is broadcast over the rows of \<open>hist\<close>.\<close>

definition cm_normalize :: "nat list list \<Rightarrow> fnum list list" where
  "cm_normalize histogram =
     (let hist = to_float32 histogram; divisor = cm_divisor hist
      in map (\<lambda>row. map2 fdiv row divisor) hist)"

text \<open>The matrix that \<^verbatim>\<open>plot_cm\<close> hands to \<^verbatim>\<open>sns.heatmap\<close>: \<^verbatim>\<open>hist.t()\<close>.\<close>

definition plot_cm :: "nat list list \<Rightarrow> fnum list list" where
  "plot_cm histogram =
     (let hist = cm_normalize histogram in map (column hist) [0..<ncols hist])"

definition rectangular :: "'a list list \<Rightarrow> bool" where
  "rectangular rows \<longleftrightarrow> list_all (\<lambda>row. length row = ncols rows) rows"

section \<open>The dataset split\<close>

text \<open>
  \<^verbatim>\<open>create-dataset.py\<close> is a script. What it reads from its environment is made
  explicit: the list that \<^verbatim>\<open>glob\<close> returns (in any order), the offset of the local
  time zone from UTC in seconds (\<^verbatim>\<open>datetime(2022, 12, 18, 18)\<close> has no time zone, and
  \<^verbatim>\<open>timestamp()\<close> reads it as local time), the shuffle of Python's \<^verbatim>\<open>Random\<close> as a
  function of the seed and the list, and SHA-256 as a function from a string to its
  hexadecimal digest. Its result is the list of hard links it creates in each of the
  three new directories, as pairs of the file and the path of the link.
\<close>

record py_env =
  utc_offset :: int
  random_shuffle :: "int \<Rightarrow> string list \<Rightarrow> string list"
  sha256_hexdigest :: "string \<Rightarrow> string"

definition dataset_name :: string where "dataset_name = ''true_color''"
definition dataset_size :: nat where "dataset_size = 30000"
definition train_percent :: nat where "train_percent = 50"
definition val_percent :: nat where "val_percent = 25"
definition test_percent :: nat where "test_percent = 25"

text \<open>
  \<^verbatim>\<open>date_seed.timestamp()\<close>: 2022-12-18 18:00 UTC is 1671386400 seconds after the epoch.
\<close>

definition date_seed_timestamp :: "py_env \<Rightarrow> int" where
  "date_seed_timestamp env = 1671386400 - utc_offset env"

definition subset_path :: string where
  "subset_path = ''/datadrive/'' @ dataset_name @ ''-30000-50-25-25-2022-12-18-18/imgs''"

definition train_path :: string where "train_path = subset_path @ ''/train''"
definition val_path :: string where "val_path = subset_path @ ''/val''"
definition test_path :: string where "test_path = subset_path @ ''/test''"

text \<open>\<^verbatim>\<open>int(x)\<close> of a float that is not negative.\<close>

definition train_end :: nat where
  "train_end = nat \<lfloor>real train_percent / 100 * real dataset_size\<rfloor>"

definition val_end :: nat where
  "val_end = nat \<lfloor>real val_percent / 100 * real dataset_size + real train_end\<rfloor>"

definition test_end :: nat where
  "test_end = nat \<lfloor>real test_percent / 100 * real dataset_size + real val_end\<rfloor>"

text \<open>\<^verbatim>\<open>xs[a:b]\<close> for \<open>0 \<le> a\<close> and \<open>0 \<le> b\<close>.\<close>

definition slice :: "'a list \<Rightarrow> nat \<Rightarrow> nat \<Rightarrow> 'a list" where
  "slice xs a b = take (b - a) (drop a xs)"

text \<open>
  \<^verbatim>\<open>Path(p).name\<close> is the last component of the path, and \<^verbatim>\<open>Path(p).stem\<close> is the
  name without its last suffix: the part before the last dot, when that dot is
  neither the first nor the last character of the name.
\<close>

definition path_name :: "string \<Rightarrow> string" where
  "path_name p =
     rev (takeWhile (\<lambda>c. c \<noteq> CHR ''/'') (dropWhile (\<lambda>c. c = CHR ''/'') (rev p)))"

definition path_stem :: "string \<Rightarrow> string" where
  "path_stem p =
     (let name = path_name p;
          ext = takeWhile (\<lambda>c. c \<noteq> CHR ''.'') (rev name)
      in if CHR ''.'' \<in> set name \<and> ext \<noteq> [] \<and> length ext + 1 < length name
         then take (length name - length ext - 1) name
         else name)"

text \<open>
  The body of each of the three loops:
  \<^verbatim>\<open>
  train_hash = sha256(Path(train_file).stem.encode('utf-8')).hexdigest()
  train_file_name = f'{train_hash}-{Path(train_file).name}'
  train_link_path = train_path / train_file_name
  link(train_file, train_link_path)
  \<close>
\<close>

definition make_link :: "py_env \<Rightarrow> string \<Rightarrow> string \<Rightarrow> string \<times> string" where
  "make_link env dir file =
     (let file_hash = sha256_hexdigest env (path_stem file);
          file_name = file_hash @ ''-'' @ path_name file
      in (file, dir @ ''/'' @ file_name))"

record dataset_split =
  train_links :: "(string \<times> string) list"
  val_links :: "(string \<times> string) list"
  test_links :: "(string \<times> string) list"

definition create_dataset :: "py_env \<Rightarrow> string list \<Rightarrow> dataset_split" where
  "create_dataset env glob_result =
     (let dataset_files = random_shuffle env (date_seed_timestamp env) (sort glob_result);
          train_files = slice dataset_files 0 train_end;
          val_files = slice dataset_files train_end val_end;
          test_files = slice dataset_files val_end test_end
      in \<lparr>train_links = map (make_link env train_path) train_files,
          val_links = map (make_link env val_path) val_files,
          test_links = map (make_link env test_path) test_files\<rparr>)"

section \<open>More operators on tensor values\<close>

definition and_then :: "'e + 'a \<Rightarrow> ('a \<Rightarrow> 'e + 'b) \<Rightarrow> 'e + 'b" where
  "and_then m f = (case m of Inl e \<Rightarrow> Inl e | Inr x \<Rightarrow> f x)"

fun fsqrt :: "fnum \<Rightarrow> fnum" where
  "fsqrt (Fin a) = (if 0 \<le> a then Fin (sqrt a) else NaN)"
| "fsqrt PInf = PInf"
| "fsqrt NInf = NaN"
| "fsqrt NaN = NaN"

text \<open>
  \<^verbatim>\<open>t.reshape(*new_shape)\<close>: the entries stay as they are; one size may be \<open>-1\<close> and
  is then what the number of entries leaves for it.
\<close>

definition reshape :: "tval \<Rightarrow> int list \<Rightarrow> py_error + tval" where
  "reshape t new_shape =
     (let n = prod_list (dims t);
          known = filter (\<lambda>d. d \<noteq> - 1) new_shape;
          k = nat (prod_list known)
      in if list_ex (\<lambda>d. d < 0) known \<or> 1 < length (filter (\<lambda>d. d = - 1) new_shape)
         then Inl RuntimeError
         else if length known = length new_shape
         then (if k = n then Inr (t\<lparr>dims := map nat new_shape\<rparr>) else Inl RuntimeError)
         else if k = 0 \<or> n mod k \<noteq> 0 then Inl RuntimeError
         else Inr (t\<lparr>dims := map (\<lambda>d. if d = - 1 then n div k else nat d) new_shape\<rparr>))"

text \<open>Row-major positions: from a position in the entries to an index and back.\<close>

fun unravel :: "nat list \<Rightarrow> nat \<Rightarrow> nat list" where
  "unravel [] k = []"
| "unravel (d # ds) k = (k div prod_list ds) # unravel ds (k mod prod_list ds)"

fun ravel :: "nat list \<Rightarrow> nat list \<Rightarrow> nat" where
  "ravel (d # ds) (i # idx) = i * prod_list ds + ravel ds idx"
| "ravel ds idx = 0"

definition index_of :: "'a list \<Rightarrow> 'a \<Rightarrow> nat" where
  "index_of xs a = length (takeWhile (\<lambda>x. x \<noteq> a) xs)"

text \<open>
  \<^verbatim>\<open>t.permute(*perm)\<close>: dimension \<open>i\<close> of the result is dimension \<open>perm ! i\<close> of \<open>t\<close>.
\<close>

definition permute :: "tval \<Rightarrow> nat list \<Rightarrow> py_error + tval" where
  "permute t perm =
     (if sort perm \<noteq> [0..<length (dims t)] then Inl RuntimeError
      else
        (let new_dims = map (\<lambda>a. dims t ! a) perm
         in Inr \<lparr>dims = new_dims,
                 vals = map (\<lambda>k. let idx = unravel new_dims k;
                                      old = map (\<lambda>a. idx ! index_of perm a) [0..<length perm]
                                  in vals t ! ravel (dims t) old)
                            [0..<prod_list new_dims]\<rparr>))"

text \<open>\<^verbatim>\<open>t.sum(-1)\<close> and \<^verbatim>\<open>t.square()\<close>.\<close>

definition sum_last :: "tval \<Rightarrow> tval" where
  "sum_last t =
     (case dims t of
        [] \<Rightarrow> t
      | d # ds \<Rightarrow>
          \<lparr>dims = butlast (dims t),
           vals = map fsum (chunks (prod_list (butlast (dims t))) (last (dims t)) (vals t))\<rparr>)"

definition square :: "tval \<Rightarrow> tval" where
  "square t = map_tval (\<lambda>x. fmul x x) t"

text \<open>A tensor of integers: the labels, and the result of \<^verbatim>\<open>argmax\<close>.\<close>

record ival =
  idims :: "nat list"
  ivals :: "int list"

text \<open>
  \<^verbatim>\<open>F.one_hot(label, num_classes).to(torch.float)\<close>: a last dimension of size
  \<open>num_classes\<close> is added; torch raises when a label is negative or not below
  \<open>num_classes\<close>.
\<close>

definition one_hot :: "ival \<Rightarrow> nat \<Rightarrow> py_error + tval" where
  "one_hot lab num_classes =
     (if list_all (\<lambda>v. 0 \<le> v \<and> v < int num_classes) (ivals lab)
      then Inr \<lparr>dims = idims lab @ [num_classes],
                vals = concat (map (\<lambda>v. map (\<lambda>c. if int c = v then Fin 1 else Fin 0)
                                                [0..<num_classes])
                                   (ivals lab))\<rparr>
      else Inl RuntimeError)"

text \<open>
  \<^verbatim>\<open>t.argmax(1)\<close>: the position of the greatest entry along dimension 1, the first one
  among equals; NaN counts as greater than every number.
\<close>

definition fgreater :: "fnum \<Rightarrow> fnum \<Rightarrow> bool" where
  "fgreater x y =
     (case y of
        NaN \<Rightarrow> False
      | PInf \<Rightarrow> is_nan x
      | Fin b \<Rightarrow> (case x of Fin a \<Rightarrow> b < a | PInf \<Rightarrow> True | NInf \<Rightarrow> False | NaN \<Rightarrow> True)
      | NInf \<Rightarrow> (case x of NInf \<Rightarrow> False | _ \<Rightarrow> True))"

definition argmax_list :: "fnum list \<Rightarrow> nat" where
  "argmax_list xs =
     fst (fold (\<lambda>x (best, bv, i). if fgreater x bv then (i, x, Suc i) else (best, bv, Suc i))
               (tl xs) (0, hd xs, 1))"

definition argmax1 :: "tval \<Rightarrow> py_error + ival" where
  "argmax1 t =
     (case dims t of
        n # c # rest \<Rightarrow>
          (if c = 0 then Inl IndexError
           else
             (let r = prod_list rest
              in Inr \<lparr>idims = n # rest,
                      ivals = concat (map (\<lambda>i. map (\<lambda>p. int (argmax_list
                                  (map (\<lambda>a. vals t ! ((i * c + a) * r + p)) [0..<c])))
                                [0..<r]) [0..<n])\<rparr>))
      | _ \<Rightarrow> Inl IndexError)"

section \<open>Sampled vectors and their correlation\<close>

text \<open>
  \<^verbatim>\<open>sample\<close>, \<^verbatim>\<open>norm\<close> and \<^verbatim>\<open>tensor_correlation\<close> are imported from \<^verbatim>\<open>modules\<close>, which
  is not among the sources. \<^verbatim>\<open>sample\<close>, the bilinear sampler, is a parameter of the
  model. The other two are modelled from the specification.

  A sampled set has shape \<open>(n, c, h, w)\<close>: for each of the \<open>n\<close> images and each of the
  \<open>h * w\<close> sampled positions a vector with \<open>c\<close> channels. \<open>vectors\<close> lists them.
\<close>

definition vectors :: "tval \<Rightarrow> fnum list list list" where
  "vectors t =
     (case dims t of
        [n, c, h, w] \<Rightarrow>
          map (\<lambda>i. map (\<lambda>p. map (\<lambda>a. vals t ! ((i * c + a) * (h * w) + p)) [0..<c])
                        [0..<h * w])
              [0..<n]
      | _ \<Rightarrow> [])"

definition dot :: "fnum list \<Rightarrow> fnum list \<Rightarrow> fnum" where
  "dot u v = fsum (map2 fmul u v)"

definition l2_norm :: "fnum list \<Rightarrow> fnum" where
  "l2_norm v = fsqrt (dot v v)"

definition unit_vector :: "fnum list \<Rightarrow> fnum list" where
  "unit_vector v = map (\<lambda>x. fdiv x (l2_norm v)) v"

text \<open>
  Modelled from the spec: \<^verbatim>\<open>norm\<close> of \<^verbatim>\<open>modules\<close>, whose source is not available. The
  specification says of the feature vectors that they are "normalized per-vector (unit
  L2 norm) before correlation": every entry is divided by the L2 norm of the vector it
  belongs to. The specification gives no rule for a vector of norm zero; the division
  then gives NaN.
\<close>

definition norm_t :: "tval \<Rightarrow> py_error + tval" where
  "norm_t t =
     (case dims t of
        [n, c, h, w] \<Rightarrow>
          Inr (t\<lparr>vals :=
            concat (map (\<lambda>i. concat (map (\<lambda>a. map (\<lambda>p. unit_vector (vectors t ! i ! p) ! a)
                                                    [0..<h * w])
                                          [0..<c]))
                        [0..<n])\<rparr>)
      | _ \<Rightarrow> Inl RuntimeError)"

text \<open>
  Modelled from the spec: \<^verbatim>\<open>tensor_correlation\<close> of \<^verbatim>\<open>modules\<close>, whose source is not
  available. The specification: "given two sampled vector sets A (n, k1, c) and B (n, k2, c)
  [...] compute the full pairwise dot-product tensor (n, k1, k2) and reshape to
  (n, h1, w1, h2, w2) where k1 = h1*w1, k2 = h2*w2"; two sets with different numbers of
  channels "fail immediately".
\<close>

definition pairwise_dots :: "fnum list list \<Rightarrow> fnum list list \<Rightarrow> fnum list" where
  "pairwise_dots A B = concat (map (\<lambda>u. map (\<lambda>v. dot u v) B) A)"

definition tensor_correlation :: "tval \<Rightarrow> tval \<Rightarrow> py_error + tval" where
  "tensor_correlation a b =
     (case (dims a, dims b) of
        ([n, c, ha, wa], [n', c', hb, wb]) \<Rightarrow>
          (if n = n' \<and> c = c'
           then Inr \<lparr>dims = [n, ha, wa, hb, wb],
                     vals = concat (map2 pairwise_dots (vectors a) (vectors b))\<rparr>
           else Inl RuntimeError)
      | _ \<Rightarrow> Inl RuntimeError)"

section \<open>The module\<close>

text \<open>
  A network takes the images and returns its features and its code, or raises.
  What \<^verbatim>\<open>plot_pr_curves.py\<close> imports from the rest of the repository is a parameter.
\<close>

type_synonym featurizer = "tval \<Rightarrow> py_error + (tval \<times> tval)"

record modules =
  sample :: "tval \<Rightarrow> tval \<Rightarrow> py_error + tval"
  FeaturePyramidNet :: "nat \<Rightarrow> bool \<Rightarrow> nat \<Rightarrow> bool \<Rightarrow> featurizer"
  create_cityscapes_colormap :: "nat list list"
  create_pascal_label_colormap :: "nat list list"

record UnsupervisedMetrics =
  histogram :: "nat list list"

record config =
  use_cuda :: bool
  continuous :: bool
  train_dim :: nat
  granularity :: nat
  feature_samples :: nat
  train_dataset_name :: string
  extra_clusters :: bool

text \<open>
  The attributes of a \<^verbatim>\<open>LitRecalibrator\<close>. An attribute that may not have been
  assigned is optional: reading it when it is \<open>None\<close> raises AttributeError.
\<close>

record LitRecalibrator =
  cfg :: config
  n_classes :: nat
  moco :: "featurizer option"
  dino :: "featurizer option"
  crf :: "CRFModule option"
  cm_metrics :: UnsupervisedMetrics
  automatic_optimization :: bool
  label_cmap :: "nat list list"

definition getattr :: "string \<Rightarrow> 'a option \<Rightarrow> py_error + 'a" where
  "getattr name v = (case v of None \<Rightarrow> Inl (AttributeError name) | Some x \<Rightarrow> Inr x)"

text \<open>
  \<^verbatim>\<open>
  def __init__(self, n_classes, cfg):
      super().__init__()
      self.cfg = cfg
      self.n_classes = n_classes
      if not cfg.train.continuous:
          dim = n_classes
      else:
          dim = cfg.train.dim
      data_dir = Path(cfg.output_root) / "data"
      if cfg.use_cuda:
          self.moco = FeaturePyramidNet(cfg.train.granularity,
              load_model("mocov2", data_dir).cuda(), dim, cfg.train.continuous)
      else:
          self.moco = FeaturePyramidNet(cfg.train.granularity,
              load_model("mocov2", data_dir), dim, cfg.train.continuous)
      # self.dino = DinoFeaturizer(dim, cfg)
      # self.dino = LitUnsupervisedSegmenter.load_from_checkpoint("../models/vit_base_cocostuff27.ckpt").net
      # self.crf = CRFModule()
      self.cm_metrics = UnsupervisedMetrics("confusion_matrix/", n_classes, 0, False)
      self.automatic_optimization = False
      if self.cfg.train.dataset_name.startswith("cityscapes"):
          self.label_cmap = create_cityscapes_colormap()
      else:
          self.label_cmap = create_pascal_label_colormap()
  \<close>
  The two assignments to \<^verbatim>\<open>self.dino\<close> and the one to \<^verbatim>\<open>self.crf\<close> are comments.
  The metrics object is the one its constructor, which is not among the sources,
  returns for \<open>n_classes\<close>.
\<close>

definition LitRecalibrator_init ::
  "modules \<Rightarrow> (nat \<Rightarrow> UnsupervisedMetrics) \<Rightarrow> nat \<Rightarrow> config \<Rightarrow> LitRecalibrator" where
  "LitRecalibrator_init ext new_metrics n cf =
     (let dim = (if \<not> continuous cf then n else train_dim cf)
      in \<lparr>cfg = cf,
          n_classes = n,
          moco = Some (FeaturePyramidNet ext (granularity cf) (use_cuda cf) dim (continuous cf)),
          dino = None,
          crf = None,
          cm_metrics = new_metrics n,
          automatic_optimization = False,
          label_cmap = (if take 10 (train_dataset_name cf) = ''cityscapes''
                        then create_cityscapes_colormap ext
                        else create_pascal_label_colormap ext)\<rparr>)"

text \<open>\<^verbatim>\<open>t.shape[0]\<close>.\<close>

definition shape0 :: "tval \<Rightarrow> py_error + nat" where
  "shape0 t = (case dims t of [] \<Rightarrow> Inl IndexError | n # ds \<Rightarrow> Inr n)"

text \<open>
  \<^verbatim>\<open>
  def get_crf_fd(self, img, coords1, coords2):
      with torch.no_grad():
          n = img.shape[0]
          [h1, w1, h2, w2] = [self.cfg.train.feature_samples] * 4
          img_samples_1 = (
              sample(img, coords1).permute(0, 2, 3, 1).reshape(n, -1, 1, 3)
          )
          img_samples_2 = (
              sample(img, coords2).permute(0, 2, 3, 1).reshape(n, 1, -1, 3)
          )
          coord_diff = (
              (coords1.reshape(n, -1, 1, 2) - coords2.reshape(n, 1, -1, 2))
              .square()
              .sum(-1)
              .reshape(n, h1, w1, h2, w2)
          )
          img_diff = (
              (img_samples_1 - img_samples_2)
              .square()
              .sum(-1)
              .reshape(n, h1, w1, h2, w2)
          )
          return self.crf(coord_diff, img_diff)
  \<close>
\<close>

definition get_crf_fd ::
  "modules \<Rightarrow> LitRecalibrator \<Rightarrow> tval \<Rightarrow> tval \<Rightarrow> tval \<Rightarrow> py_error + tval" where
  "get_crf_fd ext self img coords1 coords2 =
     and_then (shape0 img) (\<lambda>n.
     let fs = int (feature_samples (cfg self)) in
     and_then (sample ext img coords1) (\<lambda>s1.
     and_then (permute s1 [0, 2, 3, 1]) (\<lambda>p1.
     and_then (reshape p1 [int n, - 1, 1, 3]) (\<lambda>img_samples_1.
     and_then (sample ext img coords2) (\<lambda>s2.
     and_then (permute s2 [0, 2, 3, 1]) (\<lambda>p2.
     and_then (reshape p2 [int n, 1, - 1, 3]) (\<lambda>img_samples_2.
     and_then (reshape coords1 [int n, - 1, 1, 2]) (\<lambda>c1.
     and_then (reshape coords2 [int n, 1, - 1, 2]) (\<lambda>c2.
     and_then (broadcast_op fsub c1 c2) (\<lambda>cd.
     and_then (reshape (sum_last (square cd)) [int n, fs, fs, fs, fs]) (\<lambda>coord_diff.
     and_then (broadcast_op fsub img_samples_1 img_samples_2) (\<lambda>idf.
     and_then (reshape (sum_last (square idf)) [int n, fs, fs, fs, fs]) (\<lambda>img_diff.
     and_then (getattr ''crf'' (crf self)) (\<lambda>crf_module.
     forward crf_module coord_diff img_diff))))))))))))))"

text \<open>
  \<^verbatim>\<open>
  def get_net_fd(self, feats1, feats2, label1, label2, coords1, coords2):
      with torch.no_grad():
          feat_samples1 = sample(feats1, coords1)
          feat_samples2 = sample(feats2, coords2)
          label_samples1 = sample(
              F.one_hot(label1 + 1, self.n_classes + 1)
              .to(torch.float)
              .permute(0, 3, 1, 2),
              coords1,
          )
          label_samples2 = sample(
              F.one_hot(label2 + 1, self.n_classes + 1)
              .to(torch.float)
              .permute(0, 3, 1, 2),
              coords2,
          )
          fd = tensor_correlation(norm(feat_samples1), norm(feat_samples2))
          ld = tensor_correlation(label_samples1, label_samples2)
      return ld, fd, label_samples1.argmax(1), label_samples2.argmax(1)
  \<close>
\<close>

definition shift_labels :: "ival \<Rightarrow> ival" where
  "shift_labels lab = lab\<lparr>ivals := map (\<lambda>v. v + 1) (ivals lab)\<rparr>"

definition get_net_fd ::
  "modules \<Rightarrow> LitRecalibrator \<Rightarrow> tval \<Rightarrow> tval \<Rightarrow> ival \<Rightarrow> ival \<Rightarrow> tval \<Rightarrow> tval \<Rightarrow>
   py_error + (tval \<times> tval \<times> ival \<times> ival)" where
  "get_net_fd ext self feats1 feats2 label1 label2 coords1 coords2 =
     and_then (sample ext feats1 coords1) (\<lambda>feat_samples1.
     and_then (sample ext feats2 coords2) (\<lambda>feat_samples2.
     and_then (one_hot (shift_labels label1) (n_classes self + 1)) (\<lambda>oh1.
     and_then (permute oh1 [0, 3, 1, 2]) (\<lambda>lp1.
     and_then (sample ext lp1 coords1) (\<lambda>label_samples1.
     and_then (one_hot (shift_labels label2) (n_classes self + 1)) (\<lambda>oh2.
     and_then (permute oh2 [0, 3, 1, 2]) (\<lambda>lp2.
     and_then (sample ext lp2 coords2) (\<lambda>label_samples2.
     and_then (norm_t feat_samples1) (\<lambda>nf1.
     and_then (norm_t feat_samples2) (\<lambda>nf2.
     and_then (tensor_correlation nf1 nf2) (\<lambda>fd.
     and_then (tensor_correlation label_samples1 label_samples2) (\<lambda>ld.
     and_then (argmax1 label_samples1) (\<lambda>l1.
     and_then (argmax1 label_samples2) (\<lambda>l2.
     Inr (ld, fd, l1, l2)))))))))))))))"

text \<open>
  \<^verbatim>\<open>
  def validation_step(self, batch, batch_idx):
      with torch.no_grad():
          img = batch["img"]
          label = batch["label"]
          dino_feats, dino_code = self.dino(img)
          moco_feats, moco_code = self.moco(img)
          coord_shape = [img.shape[0], self.cfg.train.feature_samples,
                         self.cfg.train.feature_samples, 2]
          coords1 = torch.rand(coord_shape, device=img.device) * 2 - 1
          coords2 = torch.rand(coord_shape, device=img.device) * 2 - 1
          crf_fd = self.get_crf_fd(img, coords1, coords2)
          ld, stego_fd, l1, l2 = self.get_net_fd(
              dino_code, dino_code, label, label, coords1, coords2)
          ld, dino_fd, l1, l2 = self.get_net_fd(
              dino_feats, dino_feats, label, label, coords1, coords2)
          ld, moco_fd, l1, l2 = self.get_net_fd(
              moco_feats, moco_feats, label, label, coords1, coords2)
          return dict(dino_fd=dino_fd, stego_fd=stego_fd, moco_fd=moco_fd,
                      crf_fd=crf_fd, ld=ld)
  \<close>
  The batch of the data loader has an image tensor and a label tensor. The two draws
  of \<^verbatim>\<open>torch.rand\<close> are arguments: each gives, for a shape, a tensor of numbers between
  0 and 1.
\<close>

record batch =
  img :: tval
  label :: ival

definition rand_coords :: "(nat list \<Rightarrow> tval) \<Rightarrow> nat list \<Rightarrow> tval" where
  "rand_coords rand coord_shape =
     map_tval (\<lambda>x. fsub (fmul x (Fin 2)) (Fin 1)) (rand coord_shape)"

definition validation_step ::
  "modules \<Rightarrow> LitRecalibrator \<Rightarrow> batch \<Rightarrow> (nat list \<Rightarrow> tval) \<Rightarrow> (nat list \<Rightarrow> tval) \<Rightarrow>
   py_error + (string \<times> tval) list" where
  "validation_step ext self b rand1 rand2 =
     and_then (getattr ''dino'' (dino self)) (\<lambda>dino_net.
     and_then (dino_net (img b)) (\<lambda>(dino_feats, dino_code).
     and_then (getattr ''moco'' (moco self)) (\<lambda>moco_net.
     and_then (moco_net (img b)) (\<lambda>(moco_feats, moco_code).
     and_then (shape0 (img b)) (\<lambda>n.
     let coord_shape = [n, feature_samples (cfg self), feature_samples (cfg self), 2];
         coords1 = rand_coords rand1 coord_shape;
         coords2 = rand_coords rand2 coord_shape
     in
     and_then (get_crf_fd ext self (img b) coords1 coords2) (\<lambda>crf_fd.
     and_then (get_net_fd ext self dino_code dino_code (label b) (label b) coords1 coords2)
       (\<lambda>(ld, stego_fd, l1, l2).
     and_then (get_net_fd ext self dino_feats dino_feats (label b) (label b) coords1 coords2)
       (\<lambda>(ld, dino_fd, l1, l2).
     and_then (get_net_fd ext self moco_feats moco_feats (label b) (label b) coords1 coords2)
       (\<lambda>(ld, moco_fd, l1, l2).
     Inr [(''dino_fd'', dino_fd), (''stego_fd'', stego_fd), (''moco_fd'', moco_fd),
          (''crf_fd'', crf_fd), (''ld'', ld)])))))))))"

section \<open>The end of the validation epoch\<close>

text \<open>
  The trainer tells the module whether it runs in the process of rank zero and on
  which device its tensors are. The outputs of the steps are dictionaries from the
  name of a signal to a tensor value; a dictionary is the list of its items.
\<close>

record trainer =
  is_global_zero :: bool
  root_device :: device

definition dict_get :: "string \<Rightarrow> (string \<times> 'a) list \<Rightarrow> py_error + 'a" where
  "dict_get k d = (case map_of d k of None \<Rightarrow> Inl (KeyError k) | Some v \<Rightarrow> Inr v)"

text \<open>\<^verbatim>\<open>[o[k] for o in outputs]\<close>.\<close>

fun collect :: "string \<Rightarrow> (string \<times> tval) list list \<Rightarrow> py_error + tval list" where
  "collect k [] = Inr []"
| "collect k (o1 # os) =
     and_then (dict_get k o1) (\<lambda>t. and_then (collect k os) (\<lambda>ts. Inr (t # ts)))"

text \<open>
  \<^verbatim>\<open>torch.cat(ts, dim=0)\<close> returns a new tensor: the entries of the tensors one after
  the other. The sizes after the first must agree; torch leaves out the tensors of
  shape \<open>(0,)\<close> and raises on an empty list and on a zero-dimensional tensor.
\<close>

definition cat_vals :: "tval list \<Rightarrow> fnum list" where
  "cat_vals ts = concat (map vals (filter (\<lambda>t. dims t \<noteq> [0]) ts))"

definition torch_cat :: "device \<Rightarrow> tval list \<Rightarrow> heap \<Rightarrow> py_error + (tensor \<times> heap)" where
  "torch_cat dev ts h =
     (case filter (\<lambda>t. dims t \<noteq> [0]) ts of
        [] \<Rightarrow>
          (if ts = [] then Inl RuntimeError
           else (let (a, h') = alloc (cat_vals ts) h
                 in Inr (\<lparr>storage = a, shape = [0], device = dev\<rparr>, h')))
      | t # rest \<Rightarrow>
          (if dims t = [] \<or> list_ex (\<lambda>u. dims u = [] \<or> tl (dims u) \<noteq> tl (dims t)) rest
           then Inl RuntimeError
           else (let (a, h') = alloc (cat_vals ts) h
                 in Inr (\<lparr>storage = a,
                          shape = sum_list (map (\<lambda>u. hd (dims u)) (t # rest)) # tl (dims t),
                          device = dev\<rparr>, h'))))"

text \<open>
  \<^verbatim>\<open>
  all_outputs = {}
  for k in outputs[0].keys():
      t = torch.cat([o[k] for o in outputs], dim=0)
      all_outputs[k] = t
  \<close>
\<close>

fun cat_all ::
  "device \<Rightarrow> string list \<Rightarrow> (string \<times> tval) list list \<Rightarrow> heap \<Rightarrow>
   py_error + ((string \<times> tensor) list \<times> heap)" where
  "cat_all dev [] outputs h = Inr ([], h)"
| "cat_all dev (k # ks) outputs h =
     and_then (collect k outputs) (\<lambda>ts.
     and_then (torch_cat dev ts h) (\<lambda>(t, h1).
     and_then (cat_all dev ks outputs h1) (\<lambda>(d, h2).
     Inr ((k, t) # d, h2))))"

text \<open>One statement \<^verbatim>\<open>plot_pr(prep_fd(all_outputs[key]), ld, name)\<close>.\<close>

definition plot_signal ::
  "sklearn \<Rightarrow> (string \<times> tensor) list \<Rightarrow> tensor \<Rightarrow> string \<Rightarrow> string \<Rightarrow> heap \<Rightarrow>
   py_error + (line \<times> heap)" where
  "plot_signal sk all_out ld key name h =
     and_then (dict_get key all_out) (\<lambda>t.
     and_then (prep_fd t h) (\<lambda>(p, h1).
     plot_pr sk p ld name h1))"

text \<open>Statements of that form, one after the other.\<close>

fun plot_signals ::
  "sklearn \<Rightarrow> (string \<times> tensor) list \<Rightarrow> tensor \<Rightarrow> (string \<times> string) list \<Rightarrow> heap \<Rightarrow>
   py_error + (line list \<times> heap)" where
  "plot_signals sk all_out ld [] h = Inr ([], h)"
| "plot_signals sk all_out ld ((key, name) # rest) h =
     and_then (plot_signal sk all_out ld key name h) (\<lambda>(c, h1).
     and_then (plot_signals sk all_out ld rest h1) (\<lambda>(cs, h2).
     Inr (c # cs, h2)))"

text \<open>
  \<^verbatim>\<open>
  def validation_epoch_end(self, outputs) -> None:
      all_outputs = {}
      for k in outputs[0].keys():
          t = torch.cat([o[k] for o in outputs], dim=0)
          all_outputs[k] = t
      ...
      if self.trainer.is_global_zero:
          ...
          plot_cm()
          ...
          ld = all_outputs["ld"]
          plot_pr(prep_fd(all_outputs["stego_fd"]), ld, "STEGO (Ours)")
          plot_pr(prep_fd(all_outputs["dino_fd"]), ld, "DINO")
          plot_pr(prep_fd(all_outputs["moco_fd"]), ld, "MoCoV2")
          plot_pr(prep_fd(all_outputs["crf_fd"]), ld, "CRF")
          ...
      return None
  \<close>
  The function returns nothing. The model returns what it leaves behind: the
  dictionary \<open>all_outputs\<close>, the matrix of the heat map and the curves it has drawn,
  and the store.
\<close>

record epoch_result =
  all_outputs :: "(string \<times> tensor) list"
  heatmap :: "fnum list list option"
  curves :: "line list"

definition signals :: "(string \<times> string) list" where
  "signals = [(''stego_fd'', ''STEGO (Ours)''), (''dino_fd'', ''DINO''),
              (''moco_fd'', ''MoCoV2''), (''crf_fd'', ''CRF'')]"

definition validation_epoch_end ::
  "sklearn \<Rightarrow> trainer \<Rightarrow> LitRecalibrator \<Rightarrow> (string \<times> tval) list list \<Rightarrow> heap \<Rightarrow>
   py_error + (epoch_result \<times> heap)" where
  "validation_epoch_end sk tr self outputs h =
     (case outputs of
        [] \<Rightarrow> Inl IndexError
      | o0 # os \<Rightarrow>
          and_then (cat_all (root_device tr) (map fst o0) outputs h) (\<lambda>(all_out, h0).
          if is_global_zero tr then
            (let cm = plot_cm (histogram (cm_metrics self)) in
             and_then (dict_get ''ld'' all_out) (\<lambda>ld.
             and_then (plot_signals sk all_out ld signals h0) (\<lambda>(cs, h1).
             Inr (\<lparr>all_outputs = all_out, heatmap = Some cm, curves = cs\<rparr>, h1))))
          else Inr (\<lparr>all_outputs = all_out, heatmap = None, curves = []\<rparr>, h0)))"

text \<open>The entries that \<^verbatim>\<open>torch.cat\<close> gives the tensor of signal \<open>k\<close>.\<close>

definition cat_entries :: "string \<Rightarrow> (string \<times> tval) list list \<Rightarrow> fnum list" where
  "cat_entries k outputs =
     (case collect k outputs of Inl e \<Rightarrow> [] | Inr ts \<Rightarrow> cat_vals ts)"

text \<open>What the storage of a signal holds after \<^verbatim>\<open>prep_fd\<close> and \<^verbatim>\<open>plot_pr\<close>.\<close>

definition plotted_entries :: "device \<Rightarrow> fnum list \<Rightarrow> fnum list" where
  "plotted_entries dev xs =
     (case dev of Cpu \<Rightarrow> norm_entries (norm_entries xs) | Cuda \<Rightarrow> norm_entries xs)"

section \<open>The rounding of float32\<close>

text \<open>
  Where a property depends on the last bits of a number, the operations round as
  float32 does: the result of an operation is the nearest number with a significand
  of 24 bits, the even one of two that are equally near. The range of the exponent is
  not bounded here: overflow to infinity and subnormal numbers are not modelled.
\<close>

definition rne :: "real \<Rightarrow> int" where
  "rne r =
     (let f = \<lfloor>r\<rfloor>; d = r - of_int f
      in if d < 1 / 2 then f else if 1 / 2 < d then f + 1 else if even f then f else f + 1)"

definition round32 :: "real \<Rightarrow> real" where
  "round32 x =
     (if x = 0 then 0
      else (let u = 2 powr (of_int \<lfloor>log 2 \<bar>x\<bar>\<rfloor> - 23)
            in of_int (rne (x / u)) * u))"

fun fround :: "fnum \<Rightarrow> fnum" where
  "fround (Fin a) = Fin (round32 a)"
| "fround x = x"

definition fsub32 :: "fnum \<Rightarrow> fnum \<Rightarrow> fnum" where
  "fsub32 x y = fround (fsub x y)"

definition fdiv32 :: "fnum \<Rightarrow> fnum \<Rightarrow> fnum" where
  "fdiv32 x y = fround (fdiv x y)"

definition fmul32 :: "fnum \<Rightarrow> fnum \<Rightarrow> fnum" where
  "fmul32 x y = fround (fmul x y)"

definition isub_scalar32 :: "tensor \<Rightarrow> fnum \<Rightarrow> heap \<Rightarrow> heap" where
  "isub_scalar32 t s h =
     h\<lparr>cells := (cells h)(storage t := map (\<lambda>x. fsub32 x s) (entries t h))\<rparr>"

definition idiv_scalar32 :: "tensor \<Rightarrow> fnum \<Rightarrow> heap \<Rightarrow> heap" where
  "idiv_scalar32 t s h =
     h\<lparr>cells := (cells h)(storage t := map (\<lambda>x. fdiv32 x s) (entries t h))\<rparr>"

text \<open>\<^verbatim>\<open>plot_pr\<close> with the rounding of float32 in its two in-place operations.\<close>

definition plot_pr32 ::
  "sklearn \<Rightarrow> tensor \<Rightarrow> tensor \<Rightarrow> string \<Rightarrow> heap \<Rightarrow> py_error + (line \<times> heap)" where
  "plot_pr32 sk preds targets name h =
     (let (p0, h0) = cpu preds h; p = reshape_flat p0 in
      case tensor_min p h0 of
        Inl e \<Rightarrow> Inl e
      | Inr lo \<Rightarrow>
          (let h1 = isub_scalar32 p lo h0 in
           case tensor_max p h1 of
             Inl e \<Rightarrow> Inl e
           | Inr hi \<Rightarrow>
               (let h2 = idiv_scalar32 p hi h1;
                    (t0, h3) = to_int64 targets h2;
                    (t1, h4) = cpu t0 h3;
                    t = reshape_flat t1
                in case pr_line sk (entries t h4) (entries p h4) name of
                     Inl e \<Rightarrow> Inl e
                   | Inr l \<Rightarrow> Inr (l, h4))))"

text \<open>What these two operations leave in the storage of a tensor with entries \<open>xs\<close>.\<close>

definition norm_entries32 :: "fnum list \<Rightarrow> fnum list" where
  "norm_entries32 xs =
     (let lo = fold fmin (tl xs) (hd xs);
          ys = map (\<lambda>x. fsub32 x lo) xs;
          hi = fold fmax (tl ys) (hd ys)
      in map (\<lambda>y. fdiv32 y hi) ys)"

section \<open>Properties of the min-max normalisation\<close>

lemma fold_fmin_Fin: "fold fmin (map Fin xs) (Fin x) = Fin (fold min xs x)"
  by (induction xs arbitrary: x) simp_all

lemma fold_fmax_Fin: "fold fmax (map Fin xs) (Fin x) = Fin (fold max xs x)"
  by (induction xs arbitrary: x) simp_all

lemma all_equal_iff: "all_equal xs \<longleftrightarrow> (\<forall>a \<in> set xs. \<forall>b \<in> set xs. a = b)"
proof (cases xs)
  case Nil
  then show ?thesis by simp
next
  case (Cons x rest)
  show ?thesis
  proof
    assume "all_equal xs"
    then have "\<forall>y \<in> set xs. y = x" using Cons by (simp add: list_all_iff)
    then show "\<forall>a \<in> set xs. \<forall>b \<in> set xs. a = b" by metis
  next
    assume "\<forall>a \<in> set xs. \<forall>b \<in> set xs. a = b"
    then show "all_equal xs" using Cons by (simp add: list_all_iff)
  qed
qed

lemma not_all_equal_Min_less_Max:
  fixes xs :: "real list"
  assumes "\<not> all_equal xs"
  shows "xs \<noteq> []" and "Min (set xs) < Max (set xs)"
proof -
  show ne: "xs \<noteq> []" using assms by auto
  obtain a b where ab: "a \<in> set xs" "b \<in> set xs" "a \<noteq> b"
    using assms by (auto simp: all_equal_iff)
  have "Min (set xs) \<le> a" "a \<le> Max (set xs)" "Min (set xs) \<le> b" "b \<le> Max (set xs)"
    using ab by simp_all
  with ab(3) show "Min (set xs) < Max (set xs)" by linarith
qed

lemma Min_shift:
  fixes xs :: "real list"
  assumes "xs \<noteq> []"
  shows "Min (set (map (\<lambda>x. x - m) xs)) = Min (set xs) - m"
    and "Max (set (map (\<lambda>x. x - m) xs)) = Max (set xs) - m"
proof -
  have mono: "mono (\<lambda>x::real. x - m)" by (simp add: mono_def)
  show "Min (set (map (\<lambda>x. x - m) xs)) = Min (set xs) - m"
    using assms mono_Min_commute[OF mono, of "set xs"] by simp
  show "Max (set (map (\<lambda>x. x - m) xs)) = Max (set xs) - m"
    using assms mono_Max_commute[OF mono, of "set xs"] by simp
qed

lemma Min_scale:
  fixes xs :: "real list"
  assumes "xs \<noteq> []" "0 < d"
  shows "Min (set (map (\<lambda>x. x / d) xs)) = Min (set xs) / d"
    and "Max (set (map (\<lambda>x. x / d) xs)) = Max (set xs) / d"
proof -
  have mono: "mono (\<lambda>x::real. x / d)" using assms(2) by (simp add: mono_def divide_right_mono)
  show "Min (set (map (\<lambda>x. x / d) xs)) = Min (set xs) / d"
    using assms mono_Min_commute[OF mono, of "set xs"] by simp
  show "Max (set (map (\<lambda>x. x / d) xs)) = Max (set xs) / d"
    using assms mono_Max_commute[OF mono, of "set xs"] by simp
qed

lemma minmax_alt:
  "minmax xs = map (\<lambda>y. y / (Max (set xs) - Min (set xs))) (map (\<lambda>x. x - Min (set xs)) xs)"
  by (simp add: minmax_def)

lemma minmax_Min_Max:
  assumes "\<not> all_equal xs"
  shows "Min (set (minmax xs)) = 0" and "Max (set (minmax xs)) = 1"
proof -
  note ne = not_all_equal_Min_less_Max(1)[OF assms]
  note lt = not_all_equal_Min_less_Max(2)[OF assms]
  let ?m = "Min (set xs)" and ?d = "Max (set xs) - Min (set xs)"
  have d: "0 < ?d" using lt by simp
  have ne': "map (\<lambda>x. x - ?m) xs \<noteq> []" using ne by simp
  show "Min (set (minmax xs)) = 0"
    unfolding minmax_alt using Min_scale(1)[OF ne' d] Min_shift(1)[OF ne, of ?m] by simp
  show "Max (set (minmax xs)) = 1"
    unfolding minmax_alt using Min_scale(2)[OF ne' d] Min_shift(2)[OF ne, of ?m] d by simp
qed

lemma minmax_not_all_equal:
  assumes "\<not> all_equal xs"
  shows "\<not> all_equal (minmax xs)"
proof
  assume a: "all_equal (minmax xs)"
  have ne: "minmax xs \<noteq> []" using not_all_equal_Min_less_Max(1)[OF assms] by (simp add: minmax_def)
  then have "Min (set (minmax xs)) \<in> set (minmax xs)" "Max (set (minmax xs)) \<in> set (minmax xs)"
    by simp_all
  then have "Min (set (minmax xs)) = Max (set (minmax xs))"
    using a unfolding all_equal_iff by blast
  then show False using minmax_Min_Max[OF assms] by simp
qed

lemma minmax_idem:
  assumes "\<not> all_equal xs"
  shows "minmax (minmax xs) = minmax xs"
proof -
  have "minmax (minmax xs) = map (\<lambda>x. (x - 0) / (1 - 0)) (minmax xs)"
    unfolding minmax_def[of "minmax xs"] minmax_Min_Max[OF assms] ..
  then show ?thesis by simp
qed

lemma norm_in_place:
  assumes "entries t h \<noteq> []"
  shows "\<exists>lo hi. tensor_min t h = Inr lo \<and> tensor_max t (isub_scalar t lo h) = Inr hi \<and>
     idiv_scalar t hi (isub_scalar t lo h) =
       h\<lparr>cells := (cells h)(storage t := norm_entries (entries t h))\<rparr>"
proof -
  obtain x rest where e: "entries t h = x # rest" using assms by (cases "entries t h") auto
  let ?lo = "fold fmin rest x"
  let ?h1 = "isub_scalar t ?lo h"
  have lo: "tensor_min t h = Inr ?lo" by (simp add: tensor_min_def e)
  have e1: "entries t ?h1 = fsub x ?lo # map (\<lambda>x. fsub x ?lo) rest"
    using e by (simp add: isub_scalar_def entries_def)
  let ?hi = "fold fmax (map (\<lambda>x. fsub x ?lo) rest) (fsub x ?lo)"
  have hi: "tensor_max t ?h1 = Inr ?hi" by (simp add: tensor_max_def e1)
  have "idiv_scalar t ?hi ?h1 = h\<lparr>cells := (cells h)(storage t := norm_entries (entries t h))\<rparr>"
    using e1 e by (simp add: idiv_scalar_def isub_scalar_def norm_entries_def entries_def Let_def)
  with lo hi show ?thesis by blast
qed

lemma prep_fd_entries:
  assumes "entries fd h \<noteq> []"
  shows "prep_fd fd h =
    Inr (reshape_flat fd, h\<lparr>cells := (cells h)(storage fd := norm_entries (entries fd h))\<rparr>)"
proof -
  obtain lo hi where "tensor_min fd h = Inr lo" "tensor_max fd (isub_scalar fd lo h) = Inr hi"
     "idiv_scalar fd hi (isub_scalar fd lo h) =
       h\<lparr>cells := (cells h)(storage fd := norm_entries (entries fd h))\<rparr>"
    using norm_in_place[OF assms] by blast
  then show ?thesis by (simp add: prep_fd_def Let_def)
qed

lemma prep_fd_empty: "entries fd h = [] \<Longrightarrow> prep_fd fd h = Inl RuntimeError"
  by (simp add: prep_fd_def tensor_min_def)

lemma fold_hd_tl_Fin:
  assumes "xs \<noteq> []"
  shows "fold fmin (tl (map Fin xs)) (hd (map Fin xs)) = Fin (Min (set xs))"
    and "fold fmax (tl (map Fin xs)) (hd (map Fin xs)) = Fin (Max (set xs))"
proof -
  obtain x rest where xs: "xs = x # rest" using assms by (cases xs) auto
  have lo: "fold min rest x = Min (set xs)"
    unfolding xs by (rule Min.set_eq_fold[symmetric])
  have hi: "fold max rest x = Max (set xs)"
    unfolding xs by (rule Max.set_eq_fold[symmetric])
  show "fold fmin (tl (map Fin xs)) (hd (map Fin xs)) = Fin (Min (set xs))"
    using lo by (simp add: xs fold_fmin_Fin)
  show "fold fmax (tl (map Fin xs)) (hd (map Fin xs)) = Fin (Max (set xs))"
    using hi by (simp add: xs fold_fmax_Fin)
qed

lemma norm_entries_Fin:
  assumes ne: "\<not> all_equal xs"
  shows "norm_entries (map Fin xs) = map Fin (minmax xs)"
proof -
  note nn = not_all_equal_Min_less_Max(1)[OF ne]
  note lt = not_all_equal_Min_less_Max(2)[OF ne]
  let ?m = "Min (set xs)"
  have lo: "fold fmin (tl (map Fin xs)) (hd (map Fin xs)) = Fin ?m"
    by (rule fold_hd_tl_Fin(1)[OF nn])
  let ?ys = "map (\<lambda>x. x - ?m) xs"
  have ys: "map (\<lambda>x. fsub x (Fin ?m)) (map Fin xs) = map Fin ?ys" by (simp add: fsub_def)
  have nn1: "?ys \<noteq> []" using nn by simp
  have hi: "fold fmax (tl (map Fin ?ys)) (hd (map Fin ?ys)) = Fin (Max (set xs) - ?m)"
    using fold_hd_tl_Fin(2)[OF nn1] Min_shift(2)[OF nn, of ?m] by simp
  have d: "Max (set xs) - ?m \<noteq> 0" using lt by simp
  show ?thesis
    unfolding norm_entries_def Let_def lo ys hi using d by (simp add: minmax_def o_def)
qed

lemma all_equal_replicate:
  assumes "xs \<noteq> []" "all_equal xs"
  shows "xs = replicate (length xs) (hd xs)"
proof -
  have "\<forall>y \<in> set xs. y = hd xs" using assms unfolding all_equal_iff by simp
  then show ?thesis by (simp add: replicate_length_same)
qed

lemma norm_entries_replicate_Fin:
  assumes "0 < n"
  shows "norm_entries (replicate n (Fin v)) = replicate n NaN"
proof -
  obtain k where n: "n = Suc k" using assms by (cases n) auto
  have f1: "fold fmin (replicate k (Fin v)) (Fin v) = Fin v"
    by (induction k) (simp_all del: fold_replicate)
  have f2: "fold fmax (replicate k (Fin 0)) (Fin 0) = Fin 0"
    by (induction k) (simp_all del: fold_replicate)
  show ?thesis unfolding n norm_entries_def Let_def
    by (simp add: f1 f2 fsub_def del: fold_replicate)
qed

lemma norm_entries_const:
  assumes "xs \<noteq> []" "all_equal xs"
  shows "norm_entries (map Fin xs) = replicate (length xs) NaN"
proof -
  have "map Fin xs = replicate (length xs) (Fin (hd xs))"
    using all_equal_replicate[OF assms] by (metis map_replicate)
  moreover have "0 < length xs" using assms(1) by simp
  ultimately show ?thesis using norm_entries_replicate_Fin by simp
qed

lemma norm_entries_NaN:
  assumes "0 < n"
  shows "norm_entries (replicate n NaN) = replicate n NaN"
proof -
  obtain k where n: "n = Suc k" using assms by (cases n) auto
  have f1: "fold fmin (replicate k NaN) NaN = NaN"
    by (induction k) (simp_all del: fold_replicate)
  have f2: "fold fmax (replicate k NaN) NaN = NaN"
    by (induction k) (simp_all del: fold_replicate)
  show ?thesis unfolding n norm_entries_def Let_def
    by (simp add: f1 f2 fsub_def del: fold_replicate)
qed

lemma length_norm_entries: "length (norm_entries xs) = length xs"
  by (simp add: norm_entries_def Let_def)

lemma plot_pr_entries:
  assumes ne: "entries preds h \<noteq> []"
    and wp: "storage preds < next_free h" and wt: "storage targets < next_free h"
    and dis: "storage targets \<noteq> storage preds"
  shows "\<exists>h'. plot_pr sk preds targets name h =
      map_sum id (\<lambda>l. (l, h'))
        (pr_line sk (map int64_of (entries targets h)) (norm_entries (entries preds h)) name)
    \<and> cells h' (storage preds) =
        (if device preds = Cpu then norm_entries (entries preds h) else entries preds h)
    \<and> (\<forall>a. a < next_free h \<longrightarrow> a \<noteq> storage preds \<longrightarrow> cells h' a = cells h a)
    \<and> next_free h \<le> next_free h'"
proof -
  obtain p0 h0 where c0: "cpu preds h = (p0, h0)" by (cases "cpu preds h") auto
  let ?p = "reshape_flat p0"
  have e0: "entries ?p h0 = entries preds h"
    using c0 wp by (auto simp: cpu_def alloc_def entries_def reshape_flat_def Let_def split: device.splits)
  have ne0: "entries ?p h0 \<noteq> []" using ne e0 by simp
  obtain lo hi where lo: "tensor_min ?p h0 = Inr lo"
    and hi: "tensor_max ?p (isub_scalar ?p lo h0) = Inr hi"
    and h2: "idiv_scalar ?p hi (isub_scalar ?p lo h0) =
       h0\<lparr>cells := (cells h0)(storage ?p := norm_entries (entries ?p h0))\<rparr>"
    using norm_in_place[OF ne0] by blast
  let ?h2 = "h0\<lparr>cells := (cells h0)(storage ?p := norm_entries (entries preds h))\<rparr>"
  obtain t0 h3 where c3: "to_int64 targets ?h2 = (t0, h3)" by (cases "to_int64 targets ?h2") auto
  obtain t1 h4 where c4: "cpu t0 h3 = (t1, h4)" by (cases "cpu t0 h3") auto
  have sp: "storage ?p = (if device preds = Cpu then storage preds else next_free h)"
    and nf0: "next_free h0 = (if device preds = Cpu then next_free h else Suc (next_free h))"
    and cells0: "\<forall>a. a < next_free h \<longrightarrow> cells h0 a = cells h a"
    using c0 by (auto simp: cpu_def alloc_def entries_def reshape_flat_def Let_def split: device.splits)
  have et: "entries targets ?h2 = entries targets h"
    using sp wt dis cells0 by (auto simp: entries_def)
  have e4t: "entries (reshape_flat t1) h4 = map int64_of (entries targets h)"
    using c3 c4 et
    by (auto simp: to_int64_def cpu_def alloc_def entries_def reshape_flat_def Let_def
             split: device.splits prod.splits)
  have e4p: "entries ?p h4 = norm_entries (entries preds h)"
    using c3 c4 sp nf0 wp
    by (auto simp: to_int64_def cpu_def alloc_def entries_def Let_def
             split: device.splits prod.splits if_splits)
  have res: "plot_pr sk preds targets name h =
      map_sum id (\<lambda>l. (l, h4))
        (pr_line sk (map int64_of (entries targets h)) (norm_entries (entries preds h)) name)"
    unfolding plot_pr_def c0
    using lo hi h2 e0 c3 c4 e4t e4p
    by (auto simp: Let_def split: sum.splits)
  have f1: "cells h4 (storage preds) =
        (if device preds = Cpu then norm_entries (entries preds h) else entries preds h)"
    using c3 c4 sp nf0 wp cells0
    by (auto simp: to_int64_def cpu_def alloc_def entries_def Let_def
             split: device.splits prod.splits if_splits)
  have f2: "\<forall>a. a < next_free h \<longrightarrow> a \<noteq> storage preds \<longrightarrow> cells h4 a = cells h a"
    using c3 c4 sp nf0 wp cells0
    by (auto simp: to_int64_def cpu_def alloc_def entries_def Let_def
             split: device.splits prod.splits if_splits)
  have f3: "next_free h \<le> next_free h4"
    using c3 c4 sp nf0
    by (auto simp: to_int64_def cpu_def alloc_def entries_def Let_def
             split: device.splits prod.splits if_splits)
  from res f1 f2 f3 show ?thesis by blast
qed

lemma Min_times:
  fixes xs :: "real list"
  assumes "xs \<noteq> []" "0 < c"
  shows "Min (set (map ((*) c) xs)) = c * Min (set xs)"
    and "Max (set (map ((*) c) xs)) = c * Max (set xs)"
proof -
  have mono: "mono ((*) c)" using assms(2) by (simp add: mono_def)
  show "Min (set (map ((*) c) xs)) = c * Min (set xs)"
    using assms mono_Min_commute[OF mono, of "set xs"] by simp
  show "Max (set (map ((*) c) xs)) = c * Max (set xs)"
    using assms mono_Max_commute[OF mono, of "set xs"] by simp
qed

lemma minmax_scale:
  assumes "xs \<noteq> []" "0 < c"
  shows "minmax (map ((*) c) xs) = minmax xs"
proof -
  have "(c * x - c * Min (set xs)) / (c * Max (set xs) - c * Min (set xs)) =
        (x - Min (set xs)) / (Max (set xs) - Min (set xs))" for x
  proof -
    have "(c * x - c * Min (set xs)) / (c * Max (set xs) - c * Min (set xs)) =
          (c * (x - Min (set xs))) / (c * (Max (set xs) - Min (set xs)))"
      by (simp add: right_diff_distrib)
    also have "\<dots> = (x - Min (set xs)) / (Max (set xs) - Min (set xs))"
      using assms(2) by simp
    finally show ?thesis .
  qed
  then show ?thesis
    unfolding minmax_def Min_times[OF assms] by (simp add: o_def)
qed

lemma not_all_equal_scale:
  fixes xs :: "real list"
  assumes "\<not> all_equal xs" "0 < c"
  shows "\<not> all_equal (map ((*) c) xs)"
proof -
  obtain a b where ab: "a \<in> set xs" "b \<in> set xs" "a \<noteq> b"
    using assms(1) by (auto simp: all_equal_iff)
  have "c * a \<in> set (map ((*) c) xs)" "c * b \<in> set (map ((*) c) xs)" "c * a \<noteq> c * b"
    using ab assms(2) by auto
  then show ?thesis unfolding all_equal_iff by blast
qed

text \<open>
  C5. Min-max normalisation is idempotent: on a tensor of real numbers that are not
  all equal, a second \<^verbatim>\<open>prep_fd\<close> returns the same tensor and leaves the store as
  the first one left it, and the normalisation that \<^verbatim>\<open>plot_pr\<close> repeats hands
  scikit-learn the entries that \<^verbatim>\<open>prep_fd\<close> produced.
\<close>

theorem prep_fd_idempotent:
  assumes e: "entries fd h = map Fin xs" and ne: "\<not> all_equal xs"
    and wp: "storage fd < next_free h" and wt: "storage targets < next_free h"
    and dis: "storage targets \<noteq> storage fd"
  shows "\<exists>r h1. prep_fd fd h = Inr (r, h1) \<and> entries r h1 = map Fin (minmax xs) \<and>
           prep_fd r h1 = Inr (r, h1) \<and>
           (\<exists>h2. plot_pr sk r targets name h1 =
              map_sum id (\<lambda>l. (l, h2))
                (pr_line sk (map int64_of (entries targets h1)) (entries r h1) name))"
proof -
  let ?r = "reshape_flat fd"
  let ?h1 = "h\<lparr>cells := (cells h)(storage fd := map Fin (minmax xs))\<rparr>"
  have nn: "xs \<noteq> []" by (rule not_all_equal_Min_less_Max(1)[OF ne])
  have ne0: "entries fd h \<noteq> []" using e nn by simp
  have p1: "prep_fd fd h = Inr (?r, ?h1)"
    using prep_fd_entries[OF ne0] norm_entries_Fin[OF ne] e by simp
  have e1: "entries ?r ?h1 = map Fin (minmax xs)"
    by (simp add: entries_def reshape_flat_def)
  have ne1: "entries ?r ?h1 \<noteq> []" using e1 nn by (simp add: minmax_def)
  have n1: "norm_entries (entries ?r ?h1) = map Fin (minmax xs)"
    unfolding e1 using norm_entries_Fin[OF minmax_not_all_equal[OF ne]] minmax_idem[OF ne] by simp
  have "prep_fd ?r ?h1 = Inr (reshape_flat ?r, ?h1\<lparr>cells := (cells ?h1)(storage ?r := map Fin (minmax xs))\<rparr>)"
    using prep_fd_entries[OF ne1] n1 by simp
  moreover have "reshape_flat ?r = ?r" by (simp add: reshape_flat_def)
  moreover have "?h1\<lparr>cells := (cells ?h1)(storage ?r := map Fin (minmax xs))\<rparr> = ?h1"
    by (simp add: reshape_flat_def)
  ultimately have p2: "prep_fd ?r ?h1 = Inr (?r, ?h1)" by simp
  have "storage ?r < next_free ?h1" "storage targets < next_free ?h1" "storage targets \<noteq> storage ?r"
    using wp wt dis by (simp_all add: reshape_flat_def)
  from plot_pr_entries[OF ne1 this, of sk name]
  obtain h2 where "plot_pr sk ?r targets name ?h1 =
      map_sum id (\<lambda>l. (l, h2))
        (pr_line sk (map int64_of (entries targets ?h1)) (norm_entries (entries ?r ?h1)) name)"
    by blast
  then have "plot_pr sk ?r targets name ?h1 =
      map_sum id (\<lambda>l. (l, h2))
        (pr_line sk (map int64_of (entries targets ?h1)) (entries ?r ?h1) name)"
    using n1 e1 by simp
  with p1 e1 p2 show ?thesis by blast
qed

theorem prep_fd_idempotent_witness:
  "(let h = \<lparr>cells = (\<lambda>a. if a = 0 then [Fin 1, Fin 3, Fin 2] else if a = 1 then [Fin 1, Fin 0, Fin 1] else []),
              next_free = 2\<rparr>;
        fd = \<lparr>storage = 0, shape = [3], device = Cpu\<rparr>;
        targets = \<lparr>storage = 1, shape = [3], device = Cpu\<rparr>;
        sk = \<lparr>precision_recall_curve = (\<lambda>t p. Inr (p, t, [])),
              average_precision_score = (\<lambda>t p. Inr (Fin (1 / 2)))\<rparr>
    in entries fd h = map Fin [1, 3, 2] \<and> \<not> all_equal [1, 3, 2 :: real] \<and>
       storage fd < next_free h \<and> storage targets < next_free h \<and>
       storage targets \<noteq> storage fd \<and>
       (\<exists>r h1. prep_fd fd h = Inr (r, h1) \<and> entries r h1 = map Fin (minmax [1, 3, 2]) \<and>
           prep_fd r h1 = Inr (r, h1) \<and>
           (\<exists>h2. plot_pr sk r targets ''DINO'' h1 =
              map_sum id (\<lambda>l. (l, h2))
                (pr_line sk (map int64_of (entries targets h1)) (entries r h1) ''DINO''))))"
proof -
  let ?h = "\<lparr>cells = (\<lambda>a. if a = 0 then [Fin 1, Fin 3, Fin 2] else if a = (1::nat) then [Fin 1, Fin 0, Fin 1] else []),
              next_free = 2\<rparr>"
  let ?fd = "\<lparr>storage = 0, shape = [3], device = Cpu\<rparr>"
  let ?targets = "\<lparr>storage = 1, shape = [3], device = Cpu\<rparr>"
  have a: "entries ?fd ?h = map Fin [1, 3, 2]" by (simp add: entries_def)
  have b: "\<not> all_equal [1, 3, 2 :: real]" by simp
  have c: "storage ?fd < next_free ?h" "storage ?targets < next_free ?h"
    "storage ?targets \<noteq> storage ?fd" by simp_all
  show ?thesis
    unfolding Let_def using a b c prep_fd_idempotent[OF a b c] by blast
qed

text \<open>
  C7. On a tensor whose entries are all the same real number, \<^verbatim>\<open>prep_fd\<close> does not
  raise: it divides zero by zero and leaves NaN in every entry. \<^verbatim>\<open>plot_pr\<close>, after
  \<^verbatim>\<open>prep_fd\<close> or on the raw tensor, calls \<^verbatim>\<open>precision_recall_curve\<close> and
  \<^verbatim>\<open>average_precision_score\<close> with these NaN entries as the predictions: neither
  function tests for the case, and what happens then is what scikit-learn does.
\<close>

theorem constant_signal_gives_nan:
  assumes e: "entries fd h = map Fin xs" and nn: "xs \<noteq> []" and eq: "all_equal xs"
    and wp: "storage fd < next_free h" and wt: "storage targets < next_free h"
    and dis: "storage targets \<noteq> storage fd"
  shows "\<exists>r h1 h2 h3.
           prep_fd fd h = Inr (r, h1) \<and> entries r h1 = replicate (length xs) NaN \<and>
           plot_pr sk r targets name h1 =
             (case precision_recall_curve sk (map int64_of (entries targets h))
                     (replicate (length xs) NaN) of
                Inl err \<Rightarrow> Inl err
              | Inr (precisions, recalls, thresholds) \<Rightarrow>
                  (case average_precision_score sk (map int64_of (entries targets h))
                          (replicate (length xs) NaN) of
                     Inl err \<Rightarrow> Inl err
                   | Inr average_precision \<Rightarrow>
                       (case py_int (fmul average_precision (Fin 100)) of
                          Inl err \<Rightarrow> Inl err
                        | Inr pct \<Rightarrow>
                            Inr (\<lparr>line_x = recalls, line_y = precisions,
                                  line_label = ''AP='' @ str_int pct @ ''% '' @ name\<rparr>, h2)))) \<and>
           plot_pr sk fd targets name h =
             (case precision_recall_curve sk (map int64_of (entries targets h))
                     (replicate (length xs) NaN) of
                Inl err \<Rightarrow> Inl err
              | Inr (precisions, recalls, thresholds) \<Rightarrow>
                  (case average_precision_score sk (map int64_of (entries targets h))
                          (replicate (length xs) NaN) of
                     Inl err \<Rightarrow> Inl err
                   | Inr average_precision \<Rightarrow>
                       (case py_int (fmul average_precision (Fin 100)) of
                          Inl err \<Rightarrow> Inl err
                        | Inr pct \<Rightarrow>
                            Inr (\<lparr>line_x = recalls, line_y = precisions,
                                  line_label = ''AP='' @ str_int pct @ ''% '' @ name\<rparr>, h3))))"
proof -
  let ?n = "length xs"
  let ?r = "reshape_flat fd"
  let ?h1 = "h\<lparr>cells := (cells h)(storage fd := replicate ?n NaN)\<rparr>"
  let ?T = "map int64_of (entries targets h)"
  have ne0: "entries fd h \<noteq> []" using e nn by simp
  have n0: "norm_entries (entries fd h) = replicate ?n NaN"
    unfolding e by (rule norm_entries_const[OF nn eq])
  have p1: "prep_fd fd h = Inr (?r, ?h1)"
    using prep_fd_entries[OF ne0] n0 by simp
  have e1: "entries ?r ?h1 = replicate ?n NaN"
    by (simp add: entries_def reshape_flat_def)
  have pos: "0 < ?n" using nn by simp
  have ne1: "entries ?r ?h1 \<noteq> []" using e1 pos by simp
  have n1: "norm_entries (entries ?r ?h1) = replicate ?n NaN"
    unfolding e1 by (rule norm_entries_NaN[OF pos])
  have et: "entries targets ?h1 = entries targets h" using dis by (simp add: entries_def)
  have w1: "storage ?r < next_free ?h1" "storage targets < next_free ?h1" "storage targets \<noteq> storage ?r"
    using wp wt dis by (simp_all add: reshape_flat_def)
  have unf: "map_sum id (\<lambda>l. (l, hh)) (pr_line sk ?T (replicate ?n NaN) name) =
             (case precision_recall_curve sk ?T (replicate ?n NaN) of
                Inl err \<Rightarrow> Inl err
              | Inr (precisions, recalls, thresholds) \<Rightarrow>
                  (case average_precision_score sk ?T (replicate ?n NaN) of
                     Inl err \<Rightarrow> Inl err
                   | Inr average_precision \<Rightarrow>
                       (case py_int (fmul average_precision (Fin 100)) of
                          Inl err \<Rightarrow> Inl err
                        | Inr pct \<Rightarrow>
                            Inr (\<lparr>line_x = recalls, line_y = precisions,
                                  line_label = ''AP='' @ str_int pct @ ''% '' @ name\<rparr>, hh))))"
    for hh
    by (simp add: pr_line_def split: sum.splits prod.splits)
  from plot_pr_entries[OF ne1 w1, of sk name]
  obtain h2 where r2: "plot_pr sk ?r targets name ?h1 =
      map_sum id (\<lambda>l. (l, h2)) (pr_line sk ?T (replicate ?n NaN) name)"
    unfolding n1 et by blast
  from plot_pr_entries[OF ne0 wp wt dis, of sk name]
  obtain h3 where r3: "plot_pr sk fd targets name h =
      map_sum id (\<lambda>l. (l, h3)) (pr_line sk ?T (replicate ?n NaN) name)"
    unfolding n0 by blast
  from p1 e1 r2[unfolded unf] r3[unfolded unf] show ?thesis by blast
qed

theorem constant_signal_gives_nan_witness:
  "(let h = \<lparr>cells = (\<lambda>a. if a = 0 then [Fin 2, Fin 2, Fin 2] else if a = 1 then [Fin 1, Fin 0, Fin 1] else []),
              next_free = 2\<rparr>;
        fd = \<lparr>storage = 0, shape = [3], device = Cpu\<rparr>;
        targets = \<lparr>storage = 1, shape = [3], device = Cpu\<rparr>;
        sk = \<lparr>precision_recall_curve = (\<lambda>t p. Inr (p, t, [])),
              average_precision_score = (\<lambda>t p. if list_ex is_nan p then Inl ValueError else Inr (Fin (1 / 2)))\<rparr>;
        sk' = \<lparr>precision_recall_curve = (\<lambda>t p. Inr (p, t, [])),
              average_precision_score = (\<lambda>t p. Inr (Fin (1 / 2)))\<rparr>
    in entries fd h = map Fin [2, 2, 2] \<and> [2, 2, 2 :: real] \<noteq> [] \<and> all_equal [2, 2, 2 :: real] \<and>
       storage fd < next_free h \<and> storage targets < next_free h \<and>
       storage targets \<noteq> storage fd \<and>
       (\<exists>r h1 h2. prep_fd fd h = Inr (r, h1) \<and> entries r h1 = [NaN, NaN, NaN] \<and>
          plot_pr sk r targets ''DINO'' h1 = Inl ValueError \<and>
          plot_pr sk' r targets ''DINO'' h1 =
            Inr (\<lparr>line_x = [Fin 1, Fin 0, Fin 1], line_y = [NaN, NaN, NaN],
                  line_label = ''AP=50% DINO''\<rparr>, h2)))"
proof -
  let ?h = "\<lparr>cells = (\<lambda>a. if a = 0 then [Fin 2, Fin 2, Fin 2] else if a = (1::nat) then [Fin 1, Fin 0, Fin 1] else []),
              next_free = 2\<rparr>"
  let ?fd = "\<lparr>storage = 0, shape = [3], device = Cpu\<rparr>"
  let ?targets = "\<lparr>storage = 1, shape = [3], device = Cpu\<rparr>"
  let ?sk = "\<lparr>precision_recall_curve = (\<lambda>t p. Inr (p, t, [])),
              average_precision_score = (\<lambda>t p. if list_ex is_nan p then Inl ValueError else Inr (Fin (1 / 2)))\<rparr>"
  let ?sk' = "\<lparr>precision_recall_curve = (\<lambda>t p. Inr (p, t, [])),
              average_precision_score = (\<lambda>t p. Inr (Fin (1 / 2)))\<rparr>"
  have a: "entries ?fd ?h = map Fin [2, 2, 2]" by (simp add: entries_def)
  have b: "[2, 2, 2 :: real] \<noteq> []" "all_equal [2, 2, 2 :: real]" by simp_all
  have d: "storage ?fd < next_free ?h" "storage ?targets < next_free ?h"
    "storage ?targets \<noteq> storage ?fd" by simp_all
  have rep: "replicate (length [2, 2, 2 :: real]) NaN = [NaN, NaN, NaN]"
    by (simp add: numeral_3_eq_3)
  have T: "map int64_of (entries ?targets ?h) = [Fin 1, Fin 0, Fin 1]"
    by (simp add: entries_def int64_of_def trunc_def)
  have pi: "py_int (Fin 50) = Inr 50" by (simp add: py_int_def trunc_def)
  have st: "str_int 50 = ''50''" by code_simp
  from constant_signal_gives_nan[OF a b d, where sk = ?sk and name = "''DINO''"]
  obtain r h1 where p: "prep_fd ?fd ?h = Inr (r, h1)" "entries r h1 = [NaN, NaN, NaN]"
    and q: "plot_pr ?sk r ?targets ''DINO'' h1 = Inl ValueError"
    unfolding rep T by auto
  from constant_signal_gives_nan[OF a b d, where sk = ?sk' and name = "''DINO''"]
  obtain r' h1' h2 where p': "prep_fd ?fd ?h = Inr (r', h1')"
    and q': "plot_pr ?sk' r' ?targets ''DINO'' h1' =
            Inr (\<lparr>line_x = [Fin 1, Fin 0, Fin 1], line_y = [NaN, NaN, NaN],
                  line_label = ''AP=50% DINO''\<rparr>, h2)"
    unfolding rep T by (auto simp: pi st)
  have "r' = r" "h1' = h1" using p(1) p' by simp_all
  with p q q' a b d show ?thesis unfolding Let_def by blast
qed

section \<open>Properties of the normalisation in float32\<close>

lemma round32_pow2:
  fixes k :: int
  shows "round32 (2 powr of_int k * x) = 2 powr of_int k * round32 x"
proof (cases "x = 0")
  case True
  then show ?thesis by (simp add: round32_def)
next
  case False
  let ?c = "2 powr (of_int k :: real)"
  have c: "0 < ?c" by simp
  have "log 2 \<bar>?c * x\<bar> = log 2 ?c + log 2 \<bar>x\<bar>"
    using False c by (subst abs_mult, subst log_mult) auto
  then have "log 2 \<bar>?c * x\<bar> = log 2 \<bar>x\<bar> + of_int k" by simp
  then have fl: "\<lfloor>log 2 \<bar>?c * x\<bar>\<rfloor> = \<lfloor>log 2 \<bar>x\<bar>\<rfloor> + k"
    by (simp only: floor_add_int)
  let ?u = "2 powr (of_int \<lfloor>log 2 \<bar>x\<bar>\<rfloor> - 23 :: real)"
  have "(of_int (\<lfloor>log 2 \<bar>x\<bar>\<rfloor> + k) - 23 :: real) = of_int k + (of_int \<lfloor>log 2 \<bar>x\<bar>\<rfloor> - 23)"
    by simp
  then have u: "2 powr (of_int (\<lfloor>log 2 \<bar>x\<bar>\<rfloor> + k) - 23 :: real) = ?c * ?u"
    by (simp only: powr_add)
  have q: "(?c * x) / (?c * ?u) = x / ?u" using c by simp
  have nz: "?c * x \<noteq> 0" using False c by simp
  have "round32 (?c * x) = of_int (rne ((?c * x) / (?c * ?u))) * (?c * ?u)"
    unfolding round32_def fl u Let_def using nz by (simp only: if_False)
  also have "\<dots> = ?c * (of_int (rne (x / ?u)) * ?u)" unfolding q by simp
  also have "\<dots> = ?c * round32 x" unfolding round32_def Let_def using False by (simp only: if_False)
  finally show ?thesis .
qed


lemma pow2_powr: "(2::real) powr (of_int (23 - int n)) = 2 ^ 23 / 2 ^ n"
proof -
  have "(2::real) powr (of_int (23 - int n)) = 2 powr (23 - real n)" by simp
  also have "\<dots> = 2 powr 23 / 2 powr (real n)" by (rule powr_diff)
  also have "\<dots> = 2 ^ 23 / 2 ^ n" by (simp add: powr_realpow)
  finally show ?thesis .
qed

lemma round32_at:
  fixes n :: nat
  assumes "2 ^ 23 \<le> \<bar>x\<bar> * 2 ^ n" "\<bar>x\<bar> * 2 ^ n < 2 ^ 24"
  shows "round32 x = of_int (rne (x * 2 ^ n)) / 2 ^ n"
proof -
  have x0: "x \<noteq> 0" using assms(1) by auto
  have pn: "(0::real) < 2 ^ n" by simp
  have lo: "2 powr (of_int (23 - int n)) \<le> \<bar>x\<bar>"
    unfolding pow2_powr using assms(1) pn by (simp add: pos_divide_le_eq)
  have "(of_int (23 - int n + 1) :: real) = of_int (23 - int n) + 1" by simp
  then have "(2::real) powr (of_int (23 - int n + 1)) = 2 powr (of_int (23 - int n)) * 2 powr 1"
    by (simp only: powr_add)
  then have "(2::real) powr (of_int (23 - int n + 1)) = 2 powr (of_int (23 - int n)) * 2"
    by simp
  then have p1: "(2::real) powr (of_int (23 - int n + 1)) = 2 ^ 24 / 2 ^ n"
    unfolding pow2_powr by simp
  have hi: "\<bar>x\<bar> < 2 powr (of_int (23 - int n + 1))"
    unfolding p1 using assms(2) pn by (simp add: pos_less_divide_eq)
  have fl: "\<lfloor>log 2 \<bar>x\<bar>\<rfloor> = 23 - int n"
    using x0 lo hi floor_log_eq_powr_iff[of "\<bar>x\<bar>" 2 "23 - int n"] by simp
  have "(of_int (23 - int n) - 23 :: real) = - real n" by simp
  then have "(2::real) powr (of_int (23 - int n) - 23) = 2 powr (- real n)" by simp
  also have "\<dots> = 1 / 2 ^ n" by (simp add: powr_minus powr_realpow inverse_eq_divide)
  finally have u: "(2::real) powr (of_int (23 - int n) - 23) = 1 / 2 ^ n" .
  show ?thesis
    unfolding round32_def fl u Let_def using x0 by simp
qed


lemma norm_in_place32:
  assumes "entries t h \<noteq> []"
  shows "\<exists>lo hi. tensor_min t h = Inr lo \<and> tensor_max t (isub_scalar32 t lo h) = Inr hi \<and>
     idiv_scalar32 t hi (isub_scalar32 t lo h) =
       h\<lparr>cells := (cells h)(storage t := norm_entries32 (entries t h))\<rparr>"
proof -
  obtain x rest where e: "entries t h = x # rest" using assms by (cases "entries t h") auto
  let ?lo = "fold fmin rest x"
  let ?h1 = "isub_scalar32 t ?lo h"
  have lo: "tensor_min t h = Inr ?lo" by (simp add: tensor_min_def e)
  have e1: "entries t ?h1 = fsub32 x ?lo # map (\<lambda>x. fsub32 x ?lo) rest"
    using e by (simp add: isub_scalar32_def entries_def)
  let ?hi = "fold fmax (map (\<lambda>x. fsub32 x ?lo) rest) (fsub32 x ?lo)"
  have hi: "tensor_max t ?h1 = Inr ?hi" by (simp add: tensor_max_def e1)
  have "idiv_scalar32 t ?hi ?h1 = h\<lparr>cells := (cells h)(storage t := norm_entries32 (entries t h))\<rparr>"
    using e1 e by (simp add: idiv_scalar32_def isub_scalar32_def norm_entries32_def entries_def Let_def)
  with lo hi show ?thesis by blast
qed

lemma plot_pr32_entries:
  assumes ne: "entries preds h \<noteq> []"
    and wp: "storage preds < next_free h" and wt: "storage targets < next_free h"
    and dis: "storage targets \<noteq> storage preds"
  shows "\<exists>h'. plot_pr32 sk preds targets name h =
      map_sum id (\<lambda>l. (l, h'))
        (pr_line sk (map int64_of (entries targets h)) (norm_entries32 (entries preds h)) name)"
proof -
  obtain p0 h0 where c0: "cpu preds h = (p0, h0)" by (cases "cpu preds h") auto
  let ?p = "reshape_flat p0"
  have e0: "entries ?p h0 = entries preds h"
    using c0 wp by (auto simp: cpu_def alloc_def entries_def reshape_flat_def Let_def split: device.splits)
  have ne0: "entries ?p h0 \<noteq> []" using ne e0 by simp
  obtain lo hi where lo: "tensor_min ?p h0 = Inr lo"
    and hi: "tensor_max ?p (isub_scalar32 ?p lo h0) = Inr hi"
    and h2: "idiv_scalar32 ?p hi (isub_scalar32 ?p lo h0) =
       h0\<lparr>cells := (cells h0)(storage ?p := norm_entries32 (entries ?p h0))\<rparr>"
    using norm_in_place32[OF ne0] by blast
  let ?h2 = "h0\<lparr>cells := (cells h0)(storage ?p := norm_entries32 (entries preds h))\<rparr>"
  obtain t0 h3 where c3: "to_int64 targets ?h2 = (t0, h3)" by (cases "to_int64 targets ?h2") auto
  obtain t1 h4 where c4: "cpu t0 h3 = (t1, h4)" by (cases "cpu t0 h3") auto
  have sp: "storage ?p = (if device preds = Cpu then storage preds else next_free h)"
    and nf0: "next_free h0 = (if device preds = Cpu then next_free h else Suc (next_free h))"
    and cells0: "\<forall>a. a < next_free h \<longrightarrow> cells h0 a = cells h a"
    using c0 by (auto simp: cpu_def alloc_def entries_def reshape_flat_def Let_def split: device.splits)
  have et: "entries targets ?h2 = entries targets h"
    using sp wt dis cells0 by (auto simp: entries_def)
  have e4t: "entries (reshape_flat t1) h4 = map int64_of (entries targets h)"
    using c3 c4 et
    by (auto simp: to_int64_def cpu_def alloc_def entries_def reshape_flat_def Let_def
             split: device.splits prod.splits)
  have e4p: "entries ?p h4 = norm_entries32 (entries preds h)"
    using c3 c4 sp nf0 wp
    by (auto simp: to_int64_def cpu_def alloc_def entries_def Let_def
             split: device.splits prod.splits if_splits)
  have res: "plot_pr32 sk preds targets name h =
      map_sum id (\<lambda>l. (l, h4))
        (pr_line sk (map int64_of (entries targets h)) (norm_entries32 (entries preds h)) name)"
    unfolding plot_pr32_def c0
    using lo hi h2 e0 c3 c4 e4t e4p
    by (auto simp: Let_def split: sum.splits)
  then show ?thesis by blast
qed

lemma fdiv32_scale:
  assumes "0 < c"
  shows "fdiv32 (Fin (c * y)) (Fin (c * m)) = fdiv32 (Fin y) (Fin m)"
proof (cases "m = 0")
  case True
  then show ?thesis using assms by (simp add: fdiv32_def zero_less_mult_iff)
next
  case False
  then show ?thesis using assms by (simp add: fdiv32_def)
qed

lemma norm_entries32_Fin:
  assumes "xs \<noteq> []"
  shows "norm_entries32 (map Fin xs) =
     map (\<lambda>y. fdiv32 (Fin y) (Fin (Max (set (map (\<lambda>x. round32 (x - Min (set xs))) xs)))))
         (map (\<lambda>x. round32 (x - Min (set xs))) xs)"
proof -
  let ?m = "Min (set xs)"
  let ?ys = "map (\<lambda>x. round32 (x - ?m)) xs"
  have lo: "fold fmin (tl (map Fin xs)) (hd (map Fin xs)) = Fin ?m"
    by (rule fold_hd_tl_Fin(1)[OF assms])
  have ys: "map (\<lambda>x. fsub32 x (Fin ?m)) (map Fin xs) = map Fin ?ys"
    by (simp add: fsub32_def fsub_def)
  have nn1: "?ys \<noteq> []" using assms by simp
  have hi: "fold fmax (tl (map Fin ?ys)) (hd (map Fin ?ys)) = Fin (Max (set ?ys))"
    by (rule fold_hd_tl_Fin(2)[OF nn1])
  show ?thesis
    unfolding norm_entries32_def Let_def lo ys hi by (simp add: o_def)
qed

lemma norm_entries32_scale:
  fixes k :: int
  assumes nn: "xs \<noteq> []" and c: "c = 2 powr of_int k"
  shows "norm_entries32 (map Fin (map ((*) c) xs)) = norm_entries32 (map Fin xs)"
proof -
  have cpos: "0 < c" using c by simp
  let ?m = "Min (set xs)"
  let ?ys = "map (\<lambda>x. round32 (x - ?m)) xs"
  let ?cx = "map ((*) c) xs"
  have nnc: "?cx \<noteq> []" using nn by simp
  have m: "Min (set ?cx) = c * ?m" by (rule Min_times(1)[OF nn cpos])
  have r: "round32 (c * x - c * ?m) = c * round32 (x - ?m)" for x
    using round32_pow2[of k "x - ?m"] unfolding c by (simp add: right_diff_distrib)
  have ys: "map (\<lambda>x. round32 (x - Min (set ?cx))) ?cx = map ((*) c) ?ys"
    unfolding m by (simp add: r o_def)
  have nny: "?ys \<noteq> []" using nn by simp
  have mx: "Max (set (map ((*) c) ?ys)) = c * Max (set ?ys)"
    by (rule Min_times(2)[OF nny cpos])
  show ?thesis
    unfolding norm_entries32_Fin[OF nnc] norm_entries32_Fin[OF nn] ys mx
    by (simp add: o_def fdiv32_scale[OF cpos])
qed

lemma fmul32_pow2:
  fixes k :: int
  assumes "list_all (\<lambda>x. round32 x = x) xs" "c = 2 powr of_int k"
  shows "map (fmul32 (Fin c)) (map Fin xs) = map Fin (map ((*) c) xs)"
  using assms(1) round32_pow2[of k] unfolding assms(2)
  by (induction xs) (simp_all add: fmul32_def)


lemma r32_1: "round32 1 = 1"
  by (subst round32_at[of _ 23]) (simp_all add: rne_def Let_def)

lemma r32_2: "round32 2 = 2"
  by (subst round32_at[of _ 22]) (simp_all add: rne_def Let_def)

lemma r32_3: "round32 3 = 3"
  by (subst round32_at[of _ 22]) (simp_all add: rne_def Let_def)

lemma r32_8: "round32 8 = 8"
  by (subst round32_at[of _ 20]) (simp_all add: rne_def Let_def)

lemma r32_eighth: "round32 (1 / 8) = 1 / 8"
  by (subst round32_at[of _ 26]) (simp_all add: rne_def Let_def)

lemma r32_half: "round32 (1 / 2) = 1 / 2"
  by (subst round32_at[of _ 24]) (simp_all add: rne_def Let_def)

lemma r32_0: "round32 0 = 0"
  by (simp add: round32_def)

lemma r32_10a: "round32 (67108865 / 67108864) = 1"
  by (subst round32_at[of _ 23]) (simp_all add: rne_def Let_def)

lemma r32_10b: "round32 (67108865 / 33554432) = 2"
  by (subst round32_at[of _ 22]) (simp_all add: rne_def Let_def)

lemma r32_10d: "round32 (37748735 / 4194304) = 9"
  by (subst round32_at[of _ 20]) (simp_all add: rne_def Let_def)

lemma r32_ba: "round32 (13421773 / 134217728) = 13421773 / 134217728"
  by (subst round32_at[of _ 27]) (simp_all add: rne_def Let_def)

lemma r32_da: "round32 (107374179 / 134217728) = 3355443 / 4194304"
  by (subst round32_at[of _ 24]) (simp_all add: rne_def Let_def)

lemma r32_q: "round32 (13421773 / 107374176) = 8388609 / 67108864"
  by (subst round32_at[of _ 26]) (simp_all add: rne_def Let_def)

lemma ex_scaled:
  "map (fmul32 (Fin 10)) [Fin (13421773 / 134217728), Fin (13421773 / 67108864), Fin (7549747 / 8388608)]
     = [Fin 1, Fin 2, Fin 9]"
  by (simp add: fmul32_def r32_10a r32_10b r32_10d)

lemma ex_norm_x:
  "norm_entries32 [Fin (13421773 / 134217728), Fin (13421773 / 67108864), Fin (7549747 / 8388608)]
     = [Fin 0, Fin (8388609 / 67108864), Fin 1]"
  using norm_entries32_Fin[of "[13421773 / 134217728, 13421773 / 67108864, 7549747 / 8388608]"]
  by (simp add: fdiv32_def r32_0 r32_ba r32_da r32_q r32_1)

lemma ex_norm_10x:
  "norm_entries32 [Fin 1, Fin 2, Fin 9] = [Fin 0, Fin (1 / 8), Fin 1]"
  using norm_entries32_Fin[of "[1, 2, 9]"]
  by (simp add: fdiv32_def r32_0 r32_1 r32_8 r32_eighth)


lemma pr_line_unfold:
  "map_sum id (\<lambda>l. (l, hh)) (pr_line sk ts ps name) =
     (case precision_recall_curve sk ts ps of
        Inl err \<Rightarrow> Inl err
      | Inr (precisions, recalls, thresholds) \<Rightarrow>
          (case average_precision_score sk ts ps of
             Inl err \<Rightarrow> Inl err
           | Inr average_precision \<Rightarrow>
               (case py_int (fmul average_precision (Fin 100)) of
                  Inl err \<Rightarrow> Inl err
                | Inr pct \<Rightarrow>
                    Inr (\<lparr>line_x = recalls, line_y = precisions,
                          line_label = ''AP='' @ str_int pct @ ''% '' @ name\<rparr>, hh))))"
  by (simp add: pr_line_def split: sum.splits prod.splits)

text \<open>
  A scale that is not a power of two can change the last bits. The tensor \<open>x\<close> holds
  the float32 numbers nearest to 0.1, 0.2 and 0.9, and \<open>c\<close> is 10, so that \<open>c * x\<close> is
  1, 2 and 9 after rounding. The second normalised prediction that \<^verbatim>\<open>plot_pr\<close> hands
  to \<^verbatim>\<open>precision_recall_curve\<close> (here a stand-in that returns its arguments) is
  \<open>1/8 + 2^-26\<close> for \<open>x\<close> and \<open>1/8\<close> for \<open>c * x\<close>.
\<close>

lemma plot_pr32_last_bits_example:
  "(let x = [Fin (13421773 / 134217728), Fin (13421773 / 67108864), Fin (7549747 / 8388608)];
        h = \<lparr>cells = (\<lambda>a. if a = 0 then x else if a = 1 then [Fin 0, Fin 1, Fin 1] else []),
             next_free = 2\<rparr>;
        hc = h\<lparr>cells := (cells h)(0 := map (fmul32 (Fin 10)) x)\<rparr>;
        preds = \<lparr>storage = 0, shape = [3], device = Cpu\<rparr>;
        targets = \<lparr>storage = 1, shape = [3], device = Cpu\<rparr>;
        sk = \<lparr>precision_recall_curve = (\<lambda>t p. Inr (p, t, [])),
              average_precision_score = (\<lambda>t p. Inr (Fin (1 / 2)))\<rparr>
    in cells hc 0 = [Fin 1, Fin 2, Fin 9] \<and>
       map_sum id fst (plot_pr32 sk preds targets ''CRF'' h) =
         Inr \<lparr>line_x = [Fin 0, Fin 1, Fin 1],
              line_y = [Fin 0, Fin (8388609 / 67108864), Fin 1],
              line_label = ''AP=50% CRF''\<rparr> \<and>
       map_sum id fst (plot_pr32 sk preds targets ''CRF'' hc) =
         Inr \<lparr>line_x = [Fin 0, Fin 1, Fin 1],
              line_y = [Fin 0, Fin (1 / 8), Fin 1],
              line_label = ''AP=50% CRF''\<rparr> \<and>
       map_sum id fst (plot_pr32 sk preds targets ''CRF'' hc) \<noteq>
         map_sum id fst (plot_pr32 sk preds targets ''CRF'' h))"
proof -
  let ?x = "[Fin (13421773 / 134217728), Fin (13421773 / 67108864), Fin (7549747 / 8388608)]"
  let ?h = "\<lparr>cells = (\<lambda>a. if a = 0 then ?x else if a = (1::nat) then [Fin 0, Fin 1, Fin 1] else []),
             next_free = 2\<rparr>"
  let ?hc = "?h\<lparr>cells := (cells ?h)(0 := map (fmul32 (Fin 10)) ?x)\<rparr>"
  let ?preds = "\<lparr>storage = 0, shape = [3], device = Cpu\<rparr>"
  let ?targets = "\<lparr>storage = 1, shape = [3], device = Cpu\<rparr>"
  let ?sk = "\<lparr>precision_recall_curve = (\<lambda>t p. Inr (p, t, [])),
              average_precision_score = (\<lambda>t p. Inr (Fin (1 / 2)))\<rparr>"
  have pi: "py_int (Fin 50) = Inr 50" by (simp add: py_int_def trunc_def)
  have st: "str_int 50 = ''50''" by code_simp
  have T: "map int64_of [Fin 0, Fin 1, Fin 1] = [Fin 0, Fin 1, Fin 1]"
    by (simp add: int64_of_def trunc_def)
  have line: "pr_line ?sk [Fin 0, Fin 1, Fin 1] ps ''CRF'' =
      Inr \<lparr>line_x = [Fin 0, Fin 1, Fin 1], line_y = ps, line_label = ''AP=50% CRF''\<rparr>" for ps
    by (simp add: pr_line_def pi st)
  have c: "cells ?hc 0 = [Fin 1, Fin 2, Fin 9]" using ex_scaled by simp
  have eh: "entries ?preds ?h = ?x" "entries ?targets ?h = [Fin 0, Fin 1, Fin 1]"
    by (simp_all add: entries_def)
  have ec: "entries ?preds ?hc = [Fin 1, Fin 2, Fin 9]" "entries ?targets ?hc = [Fin 0, Fin 1, Fin 1]"
    using ex_scaled by (simp_all add: entries_def)
  have w: "storage ?preds < next_free ?h" "storage ?targets < next_free ?h"
    "storage ?targets \<noteq> storage ?preds" by simp_all
  have wc: "storage ?preds < next_free ?hc" "storage ?targets < next_free ?hc" by simp_all
  have ne: "entries ?preds ?h \<noteq> []" unfolding eh by simp
  have nec: "entries ?preds ?hc \<noteq> []" unfolding ec by simp
  from plot_pr32_entries[OF ne w, of ?sk "''CRF''"]
  have a: "map_sum id fst (plot_pr32 ?sk ?preds ?targets ''CRF'' ?h) =
      Inr \<lparr>line_x = [Fin 0, Fin 1, Fin 1], line_y = [Fin 0, Fin (8388609 / 67108864), Fin 1],
           line_label = ''AP=50% CRF''\<rparr>"
    unfolding eh ex_norm_x T line by auto
  from plot_pr32_entries[OF nec wc w(3), of ?sk "''CRF''"]
  have b: "map_sum id fst (plot_pr32 ?sk ?preds ?targets ''CRF'' ?hc) =
      Inr \<lparr>line_x = [Fin 0, Fin 1, Fin 1], line_y = [Fin 0, Fin (1 / 8), Fin 1],
           line_label = ''AP=50% CRF''\<rparr>"
    unfolding ec ex_norm_10x T line by auto
  have d: "map_sum id fst (plot_pr32 ?sk ?preds ?targets ''CRF'' ?hc) \<noteq>
           map_sum id fst (plot_pr32 ?sk ?preds ?targets ''CRF'' ?h)"
    unfolding a b by simp
  from c a b d show ?thesis unfolding Let_def by blast
qed


lemma r32_34: "round32 (3 / 4) = 3 / 4"
  by (subst round32_at[of _ 24]) (simp_all add: rne_def Let_def)

lemma r32_ta: "round32 (11744053 / 16777216) = 11744053 / 16777216"
  by (subst round32_at[of _ 24]) (simp_all add: rne_def Let_def)

lemma r32_tb: "round32 (5872027 / 8388608) = 5872027 / 8388608"
  by (subst round32_at[of _ 24]) (simp_all add: rne_def Let_def)

lemma r32_tca: "round32 (35232159 / 67108864) = 1101005 / 2097152"
  by (subst round32_at[of _ 24]) (simp_all add: rne_def Let_def)

lemma r32_tcb: "round32 (17616081 / 33554432) = 1101005 / 2097152"
  by (subst round32_at[of _ 24]) (simp_all add: rne_def Let_def)

lemma r32_tc: "round32 (1101005 / 2097152) = 1101005 / 2097152"
  by (subst round32_at[of _ 24]) (simp_all add: rne_def Let_def)

lemma r32_tq: "round32 (1101005 / 1572864) = 11744053 / 16777216"
  by (subst round32_at[of _ 24]) (simp_all add: rne_def Let_def)

lemma ex_tie_scaled:
  "map (fmul32 (Fin (3 / 4))) [Fin 0, Fin (11744053 / 16777216), Fin (5872027 / 8388608), Fin 1]
     = [Fin 0, Fin (1101005 / 2097152), Fin (1101005 / 2097152), Fin (3 / 4)]"
  by (simp add: fmul32_def r32_0 r32_tca r32_tcb r32_34)

lemma ex_tie_norm_x:
  "norm_entries32 [Fin 0, Fin (11744053 / 16777216), Fin (5872027 / 8388608), Fin 1]
     = [Fin 0, Fin (11744053 / 16777216), Fin (5872027 / 8388608), Fin 1]"
  using norm_entries32_Fin[of "[0, 11744053 / 16777216, 5872027 / 8388608, 1]"]
  by (simp add: fdiv32_def r32_0 r32_ta r32_tb r32_1)

lemma ex_tie_norm_cx:
  "norm_entries32 [Fin 0, Fin (1101005 / 2097152), Fin (1101005 / 2097152), Fin (3 / 4)]
     = [Fin 0, Fin (11744053 / 16777216), Fin (11744053 / 16777216), Fin 1]"
  using norm_entries32_Fin[of "[0, 1101005 / 2097152, 1101005 / 2097152, 3 / 4]"]
  by (simp add: fdiv32_def r32_0 r32_tc r32_34 r32_tq r32_1)

text \<open>
  C6, as stated, fails in float32. The tensor \<open>x\<close> holds 0, the float32 numbers
  \<open>11744053 / 2^24\<close> and \<open>11744054 / 2^24\<close> (0.70000011 and 0.70000017) and 1, the targets
  are 0, 0, 1, 1 and \<open>c\<close> is 3/4. The product \<open>c * x\<close>, rounded, holds one number twice.
  The normalised predictions that \<^verbatim>\<open>plot_pr\<close> hands to \<^verbatim>\<open>precision_recall_curve\<close>
  (here a stand-in that returns its arguments) are \<open>x\<close> itself for \<open>x\<close>, with the second
  below the third, and have the second equal to the third for \<open>c * x\<close>: the two
  tensors are not equal entry by entry, and they do not rank a negative and a
  positive sample the same way.
\<close>

theorem plot_pr_scale_counterexample:
  "(let x = [Fin 0, Fin (11744053 / 16777216), Fin (5872027 / 8388608), Fin 1];
        h = \<lparr>cells = (\<lambda>a. if a = 0 then x else if a = 1 then [Fin 0, Fin 0, Fin 1, Fin 1] else []),
             next_free = 2\<rparr>;
        hc = h\<lparr>cells := (cells h)(0 := map (fmul32 (Fin (3 / 4))) x)\<rparr>;
        preds = \<lparr>storage = 0, shape = [4], device = Cpu\<rparr>;
        targets = \<lparr>storage = 1, shape = [4], device = Cpu\<rparr>;
        sk = \<lparr>precision_recall_curve = (\<lambda>t p. Inr (p, t, [])),
              average_precision_score = (\<lambda>t p. Inr (Fin (1 / 2)))\<rparr>
    in cells hc 0 = [Fin 0, Fin (1101005 / 2097152), Fin (1101005 / 2097152), Fin (3 / 4)] \<and>
       map_sum id fst (plot_pr32 sk preds targets ''CRF'' h) =
         Inr \<lparr>line_x = [Fin 0, Fin 0, Fin 1, Fin 1],
              line_y = [Fin 0, Fin (11744053 / 16777216), Fin (5872027 / 8388608), Fin 1],
              line_label = ''AP=50% CRF''\<rparr> \<and>
       map_sum id fst (plot_pr32 sk preds targets ''CRF'' hc) =
         Inr \<lparr>line_x = [Fin 0, Fin 0, Fin 1, Fin 1],
              line_y = [Fin 0, Fin (11744053 / 16777216), Fin (11744053 / 16777216), Fin 1],
              line_label = ''AP=50% CRF''\<rparr> \<and>
       map_sum id fst (plot_pr32 sk preds targets ''CRF'' hc) \<noteq>
         map_sum id fst (plot_pr32 sk preds targets ''CRF'' h))"
proof -
  let ?x = "[Fin 0, Fin (11744053 / 16777216), Fin (5872027 / 8388608), Fin 1]"
  let ?cx = "[Fin 0, Fin (1101005 / 2097152), Fin (1101005 / 2097152), Fin (3 / 4)]"
  let ?t = "[Fin 0, Fin 0, Fin 1, Fin 1]"
  let ?h = "\<lparr>cells = (\<lambda>a. if a = 0 then ?x else if a = (1::nat) then ?t else []),
             next_free = 2\<rparr>"
  let ?hc = "?h\<lparr>cells := (cells ?h)(0 := map (fmul32 (Fin (3 / 4))) ?x)\<rparr>"
  let ?preds = "\<lparr>storage = 0, shape = [4], device = Cpu\<rparr>"
  let ?targets = "\<lparr>storage = 1, shape = [4], device = Cpu\<rparr>"
  let ?sk = "\<lparr>precision_recall_curve = (\<lambda>t p. Inr (p, t, [])),
              average_precision_score = (\<lambda>t p. Inr (Fin (1 / 2)))\<rparr>"
  have pi: "py_int (Fin 50) = Inr 50" by (simp add: py_int_def trunc_def)
  have st: "str_int 50 = ''50''" by code_simp
  have T: "map int64_of ?t = ?t"
    by (simp add: int64_of_def trunc_def)
  have line: "pr_line ?sk ?t ps ''CRF'' =
      Inr \<lparr>line_x = ?t, line_y = ps, line_label = ''AP=50% CRF''\<rparr>" for ps
    by (simp add: pr_line_def pi st)
  have c: "cells ?hc 0 = ?cx" using ex_tie_scaled by simp
  have eh: "entries ?preds ?h = ?x" "entries ?targets ?h = ?t"
    by (simp_all add: entries_def)
  have ec: "entries ?preds ?hc = ?cx" "entries ?targets ?hc = ?t"
    using ex_tie_scaled by (simp_all add: entries_def)
  have w: "storage ?preds < next_free ?h" "storage ?targets < next_free ?h"
    "storage ?targets \<noteq> storage ?preds" by simp_all
  have wc: "storage ?preds < next_free ?hc" "storage ?targets < next_free ?hc" by simp_all
  have ne: "entries ?preds ?h \<noteq> []" unfolding eh by simp
  have nec: "entries ?preds ?hc \<noteq> []" unfolding ec by simp
  from plot_pr32_entries[OF ne w, of ?sk "''CRF''"]
  have a: "map_sum id fst (plot_pr32 ?sk ?preds ?targets ''CRF'' ?h) =
      Inr \<lparr>line_x = ?t, line_y = ?x, line_label = ''AP=50% CRF''\<rparr>"
    unfolding eh ex_tie_norm_x T line by auto
  from plot_pr32_entries[OF nec wc w(3), of ?sk "''CRF''"]
  have b: "map_sum id fst (plot_pr32 ?sk ?preds ?targets ''CRF'' ?hc) =
      Inr \<lparr>line_x = ?t,
           line_y = [Fin 0, Fin (11744053 / 16777216), Fin (11744053 / 16777216), Fin 1],
           line_label = ''AP=50% CRF''\<rparr>"
    unfolding ec ex_tie_norm_cx T line by auto
  have d: "map_sum id fst (plot_pr32 ?sk ?preds ?targets ''CRF'' ?hc) \<noteq>
           map_sum id fst (plot_pr32 ?sk ?preds ?targets ''CRF'' ?h)"
    unfolding a b by simp
  from c a b d show ?thesis unfolding Let_def by blast
qed

text \<open>
  C6, amended. In float32, scaling by a power of two changes nothing, as long as no
  operation overflows or underflows: for a tensor \<open>x\<close> of float32 numbers that are
  not all equal and \<open>c = 2^k\<close>, \<^verbatim>\<open>plot_pr\<close> calls \<^verbatim>\<open>precision_recall_curve\<close> and
  \<^verbatim>\<open>average_precision_score\<close> with the same targets and the same normalised
  predictions for \<open>c * x\<close> as for \<open>x\<close>, so the curve it draws and the average
  precision in its label are the same.
\<close>

theorem plot_pr32_power_of_two_invariant:
  fixes k :: int
  assumes e: "entries preds h = map Fin xs" and ne: "\<not> all_equal xs"
    and f32: "list_all (\<lambda>x. round32 x = x) xs"
    and c: "c = 2 powr of_int k"
    and wp: "storage preds < next_free h" and wt: "storage targets < next_free h"
    and dis: "storage targets \<noteq> storage preds"
    and hc: "hc = h\<lparr>cells := (cells h)(storage preds := map (fmul32 (Fin c)) (map Fin xs))\<rparr>"
  shows "\<exists>h' hc'.
      plot_pr32 sk preds targets name h =
        (case precision_recall_curve sk (map int64_of (entries targets h))
                (norm_entries32 (map Fin xs)) of
           Inl err \<Rightarrow> Inl err
         | Inr (precisions, recalls, thresholds) \<Rightarrow>
             (case average_precision_score sk (map int64_of (entries targets h))
                     (norm_entries32 (map Fin xs)) of
                Inl err \<Rightarrow> Inl err
              | Inr average_precision \<Rightarrow>
                  (case py_int (fmul average_precision (Fin 100)) of
                     Inl err \<Rightarrow> Inl err
                   | Inr pct \<Rightarrow>
                       Inr (\<lparr>line_x = recalls, line_y = precisions,
                             line_label = ''AP='' @ str_int pct @ ''% '' @ name\<rparr>, h')))) \<and>
      plot_pr32 sk preds targets name hc =
        (case precision_recall_curve sk (map int64_of (entries targets h))
                (norm_entries32 (map Fin xs)) of
           Inl err \<Rightarrow> Inl err
         | Inr (precisions, recalls, thresholds) \<Rightarrow>
             (case average_precision_score sk (map int64_of (entries targets h))
                     (norm_entries32 (map Fin xs)) of
                Inl err \<Rightarrow> Inl err
              | Inr average_precision \<Rightarrow>
                  (case py_int (fmul average_precision (Fin 100)) of
                     Inl err \<Rightarrow> Inl err
                   | Inr pct \<Rightarrow>
                       Inr (\<lparr>line_x = recalls, line_y = precisions,
                             line_label = ''AP='' @ str_int pct @ ''% '' @ name\<rparr>, hc')))) \<and>
      map_sum id fst (plot_pr32 sk preds targets name hc) =
        map_sum id fst (plot_pr32 sk preds targets name h)"
proof -
  have nn: "xs \<noteq> []" by (rule not_all_equal_Min_less_Max(1)[OF ne])
  let ?T = "map int64_of (entries targets h)"
  let ?N = "norm_entries32 (map Fin xs)"
  have ne0: "entries preds h \<noteq> []" using e nn by simp
  from plot_pr32_entries[OF ne0 wp wt dis, of sk name]
  obtain h' where r1: "plot_pr32 sk preds targets name h =
      map_sum id (\<lambda>l. (l, h')) (pr_line sk ?T ?N name)"
    unfolding e by blast
  have ec: "entries preds hc = map Fin (map ((*) c) xs)"
    unfolding hc fmul32_pow2[OF f32 c] by (simp add: entries_def)
  have nec: "entries preds hc \<noteq> []" using ec nn by simp
  have et: "entries targets hc = entries targets h" using dis by (simp add: hc entries_def)
  have wc: "storage preds < next_free hc" "storage targets < next_free hc"
    using wp wt by (simp_all add: hc)
  from plot_pr32_entries[OF nec wc dis, of sk name]
  obtain hc' where r2: "plot_pr32 sk preds targets name hc =
      map_sum id (\<lambda>l. (l, hc')) (pr_line sk ?T ?N name)"
    unfolding ec et norm_entries32_scale[OF nn c] by blast
  have eq: "map_sum id fst (plot_pr32 sk preds targets name hc) =
        map_sum id fst (plot_pr32 sk preds targets name h)"
    unfolding r1 r2 by (cases "pr_line sk ?T ?N name") simp_all
  from r1[unfolded pr_line_unfold] r2[unfolded pr_line_unfold] eq show ?thesis by blast
qed

theorem plot_pr32_power_of_two_invariant_witness:
  "(let h = \<lparr>cells = (\<lambda>a. if a = 0 then [Fin 1, Fin 3, Fin 2] else if a = 1 then [Fin 1, Fin 0, Fin 1] else []),
              next_free = 2\<rparr>;
        hc = h\<lparr>cells := (cells h)(0 := map (fmul32 (Fin 2)) (map Fin [1, 3, 2]))\<rparr>;
        preds = \<lparr>storage = 0, shape = [3], device = Cpu\<rparr>;
        targets = \<lparr>storage = 1, shape = [3], device = Cpu\<rparr>;
        sk = \<lparr>precision_recall_curve = (\<lambda>t p. Inr (p, t, [])),
              average_precision_score = (\<lambda>t p. Inr (Fin (1 / 2)))\<rparr>
    in entries preds h = map Fin [1, 3, 2] \<and> \<not> all_equal [1, 3, 2 :: real] \<and>
       list_all (\<lambda>x. round32 x = x) [1, 3, 2] \<and> (2::real) = 2 powr of_int 1 \<and>
       storage preds < next_free h \<and> storage targets < next_free h \<and>
       storage targets \<noteq> storage preds \<and>
       cells hc 0 = [Fin 2, Fin 6, Fin 4] \<and>
       map_sum id fst (plot_pr32 sk preds targets ''DINO'' h) =
         Inr \<lparr>line_x = [Fin 1, Fin 0, Fin 1], line_y = [Fin 0, Fin 1, Fin (1 / 2)],
              line_label = ''AP=50% DINO''\<rparr> \<and>
       map_sum id fst (plot_pr32 sk preds targets ''DINO'' hc) =
         Inr \<lparr>line_x = [Fin 1, Fin 0, Fin 1], line_y = [Fin 0, Fin 1, Fin (1 / 2)],
              line_label = ''AP=50% DINO''\<rparr>)"
proof -
  let ?h = "\<lparr>cells = (\<lambda>a. if a = 0 then [Fin 1, Fin 3, Fin 2] else if a = (1::nat) then [Fin 1, Fin 0, Fin 1] else []),
              next_free = 2\<rparr>"
  let ?preds = "\<lparr>storage = 0, shape = [3], device = Cpu\<rparr>"
  let ?targets = "\<lparr>storage = 1, shape = [3], device = Cpu\<rparr>"
  let ?hc = "?h\<lparr>cells := (cells ?h)(storage ?preds := map (fmul32 (Fin 2)) (map Fin [1, 3, 2]))\<rparr>"
  let ?sk = "\<lparr>precision_recall_curve = (\<lambda>t p. Inr (p, t, [])),
              average_precision_score = (\<lambda>t p. Inr (Fin (1 / 2)))\<rparr>"
  have a: "entries ?preds ?h = map Fin [1, 3, 2]" by (simp add: entries_def)
  have b: "\<not> all_equal [1, 3, 2 :: real]" by simp
  have f: "list_all (\<lambda>x. round32 x = x) [1, 3, 2]" by (simp add: r32_1 r32_2 r32_3)
  have c: "(2::real) = 2 powr of_int 1" by simp
  have d: "storage ?preds < next_free ?h" "storage ?targets < next_free ?h"
    "storage ?targets \<noteq> storage ?preds" by simp_all
  have hc: "?hc = ?h\<lparr>cells := (cells ?h)(storage ?preds := map (fmul32 (Fin 2)) (map Fin [1, 3, 2]))\<rparr>" ..
  have m: "map (fmul32 (Fin 2)) (map Fin [1, 3, 2]) = [Fin 2, Fin 6, Fin 4]"
    using fmul32_pow2[OF f c] by simp
  have v: "cells ?hc 0 = [Fin 2, Fin 6, Fin 4]" using m by simp
  have pi: "py_int (Fin 50) = Inr 50" by (simp add: py_int_def trunc_def)
  have st: "str_int 50 = ''50''" by code_simp
  have T: "map int64_of (entries ?targets ?h) = [Fin 1, Fin 0, Fin 1]"
    by (simp add: entries_def int64_of_def trunc_def)
  have N: "norm_entries32 (map Fin [1, 3, 2]) = [Fin 0, Fin 1, Fin (1 / 2)]"
    using norm_entries32_Fin[of "[1, 3, 2]"]
    by (simp add: fdiv32_def r32_0 r32_1 r32_2 r32_half)
  from plot_pr32_power_of_two_invariant[OF a b f c d hc, of ?sk "''DINO''"]
  obtain h' hc' where
    r1: "plot_pr32 ?sk ?preds ?targets ''DINO'' ?h =
           Inr (\<lparr>line_x = [Fin 1, Fin 0, Fin 1], line_y = [Fin 0, Fin 1, Fin (1 / 2)],
                 line_label = ''AP=50% DINO''\<rparr>, h')"
    and r2: "plot_pr32 ?sk ?preds ?targets ''DINO'' ?hc =
           Inr (\<lparr>line_x = [Fin 1, Fin 0, Fin 1], line_y = [Fin 0, Fin 1, Fin (1 / 2)],
                 line_label = ''AP=50% DINO''\<rparr>, hc')"
    unfolding T N by (auto simp: pi st)
  have r1': "map_sum id fst (plot_pr32 ?sk ?preds ?targets ''DINO'' ?h) =
         Inr \<lparr>line_x = [Fin 1, Fin 0, Fin 1], line_y = [Fin 0, Fin 1, Fin (1 / 2)],
              line_label = ''AP=50% DINO''\<rparr>"
    unfolding r1 by simp
  have r2': "map_sum id fst (plot_pr32 ?sk ?preds ?targets ''DINO'' ?hc) =
         Inr \<lparr>line_x = [Fin 1, Fin 0, Fin 1], line_y = [Fin 0, Fin 1, Fin (1 / 2)],
              line_label = ''AP=50% DINO''\<rparr>"
    unfolding r2 by simp
  have hc0: "?h\<lparr>cells := (cells ?h)(0 := map (fmul32 (Fin 2)) (map Fin [1, 3, 2]))\<rparr> = ?hc"
    by simp
  from a b f c d v r1' r2' show ?thesis unfolding Let_def hc0 by simp
qed

section \<open>Properties of the pairwise potential\<close>

lemma concat_chunks: "length xs = d * m \<Longrightarrow> concat (chunks d m xs) = xs"
proof (induction d arbitrary: xs)
  case 0
  then show ?case by simp
next
  case (Suc d)
  have "length (drop m xs) = d * m" using Suc.prems by simp
  then have "concat (chunks d m (drop m xs)) = drop m xs" by (rule Suc.IH)
  then show ?case by simp
qed

lemma length_in_chunks:
  "length xs = d * m \<Longrightarrow> c \<in> set (chunks d m xs) \<Longrightarrow> length c = m"
proof (induction d arbitrary: xs)
  case 0
  then show ?case by simp
next
  case (Suc d)
  have l: "length (drop m xs) = d * m" using Suc.prems(1) by simp
  from Suc.prems(2) have "c = take m xs \<or> c \<in> set (chunks d m (drop m xs))" by simp
  then show ?case
  proof
    assume "c = take m xs"
    then show ?thesis using Suc.prems(1) by simp
  next
    assume "c \<in> set (chunks d m (drop m xs))"
    then show ?thesis using Suc.IH[OF l] by simp
  qed
qed

lemma expand_same: "length xs = prod_list s \<Longrightarrow> expand s s xs = xs"
proof (induction s arbitrary: xs)
  case Nil
  then show ?case by simp
next
  case (Cons d ds)
  have l: "length xs = d * prod_list ds" using Cons.prems by simp
  have "map (expand ds ds) (chunks d (prod_list ds) xs) = chunks d (prod_list ds) xs"
    using length_in_chunks[OF l] Cons.IH by (simp add: map_idI)
  then show ?case using concat_chunks[OF l] by simp
qed

lemma broadcast_shape_same: "broadcast_shape s s = Some s"
  by (induction s) simp_all

lemma left_pad_same: "left_pad s s = s"
  by (simp add: left_pad_def)

lemma broadcast_op_same:
  assumes "dims a = dims b" "wf_tval a" "wf_tval b"
  shows "broadcast_op f a b = Inr \<lparr>dims = dims a, vals = map2 f (vals a) (vals b)\<rparr>"
  using assms
  by (simp add: broadcast_op_def broadcast_shape_same left_pad_same expand_same wf_tval_def)

lemma wf_map_tval: "wf_tval (map_tval f t) = wf_tval t"
  by (simp add: wf_tval_def map_tval_def)

lemma dims_map_tval: "dims (map_tval f t) = dims t"
  by (simp add: map_tval_def)

lemma vals_map_tval: "vals (map_tval f t) = map f (vals t)"
  by (simp add: map_tval_def)

lemma potential_lists:
  assumes "length xs = length ys"
  shows "map (\<lambda>x. fsub x (shift m))
           (map2 fadd
              (map (fmul (fabs (w1 m)))
                 (map fexp
                    (map2 fsub
                       (map (\<lambda>x. fdiv x (fmul (Fin 2) (fexp (alpha m)))) (map fneg xs))
                       (map (\<lambda>x. fdiv x (fmul (Fin 2) (fexp (beta m)))) ys))))
              (map (fmul (fabs (w2 m)))
                 (map fexp (map (\<lambda>x. fdiv x (fmul (Fin 2) (fexp (gamma m)))) (map fneg xs))))) =
         map2 (spec_potential m) xs ys"
  using assms by (induction xs ys rule: list_induct2) (simp_all add: spec_potential_def)

lemma forward_same_shape:
  assumes d: "dims coord_diff = dims img_diff" and wc: "wf_tval coord_diff" and wi: "wf_tval img_diff"
  shows "forward m coord_diff img_diff =
     Inr \<lparr>dims = dims coord_diff,
          vals = map2 (spec_potential m) (vals coord_diff) (vals img_diff)\<rparr>"
proof -
  let ?A = "map_tval (\<lambda>x. fdiv x (fmul (Fin 2) (fexp (alpha m)))) (map_tval fneg coord_diff)"
  let ?B = "map_tval (\<lambda>x. fdiv x (fmul (Fin 2) (fexp (beta m)))) img_diff"
  have len: "length (vals coord_diff) = length (vals img_diff)"
    using d wc wi by (simp add: wf_tval_def)
  have s1: "broadcast_op fsub ?A ?B =
     Inr \<lparr>dims = dims coord_diff, vals = map2 fsub (vals ?A) (vals ?B)\<rparr>"
    using broadcast_op_same[of ?A ?B fsub] d wc wi
    by (simp add: wf_map_tval dims_map_tval)
  let ?a = "\<lparr>dims = dims coord_diff, vals = map2 fsub (vals ?A) (vals ?B)\<rparr>"
  let ?C = "map_tval (fmul (fabs (w1 m))) (map_tval fexp ?a)"
  let ?D = "map_tval (fmul (fabs (w2 m)))
                     (map_tval fexp
                        (map_tval (\<lambda>x. fdiv x (fmul (Fin 2) (fexp (gamma m))))
                           (map_tval fneg coord_diff)))"
  have wa: "wf_tval ?a" using wc len by (simp add: wf_tval_def vals_map_tval)
  have s2: "broadcast_op fadd ?C ?D =
     Inr \<lparr>dims = dims coord_diff, vals = map2 fadd (vals ?C) (vals ?D)\<rparr>"
    using broadcast_op_same[of ?C ?D fadd] wa wc
    by (simp add: wf_map_tval dims_map_tval)
  have v: "map (\<lambda>x. fsub x (shift m)) (map2 fadd (vals ?C) (vals ?D)) =
        map2 (spec_potential m) (vals coord_diff) (vals img_diff)"
    using potential_lists[OF len, of m] by (simp add: vals_map_tval)
  show ?thesis
    unfolding forward_def s1 using s2 v by (simp add: map_tval_def)
qed

lemma spec_potential_real:
  "spec_potential \<lparr>w1 = Fin a, w2 = Fin b, shift = Fin s, alpha = Fin al, beta = Fin be,
                   gamma = Fin ga\<rparr> (Fin c) (Fin i) =
   Fin (\<bar>a\<bar> * exp (- c / (2 * exp al) - i / (2 * exp be)) + \<bar>b\<bar> * exp (- c / (2 * exp ga)) - s)"
  by (simp add: spec_potential_def fsub_def)

text \<open>
  C2. On two tensors of the same shape \<^verbatim>\<open>CRFModule.forward\<close> returns a tensor of that
  shape whose entry at each position is the potential of the specification, computed
  from the entries of \<open>coord_diff\<close> and \<open>img_diff\<close> at that position and the six
  parameters; on real numbers the potential is
  \<open>|w1| * exp (- c / (2 * exp alpha) - i / (2 * exp beta)) + |w2| * exp (- c / (2 * exp gamma)) - shift\<close>.
\<close>

theorem forward_is_potential:
  assumes "dims coord_diff = dims img_diff" and "wf_tval coord_diff" and "wf_tval img_diff"
  shows "forward m coord_diff img_diff =
     Inr \<lparr>dims = dims coord_diff,
          vals = map2 (spec_potential m) (vals coord_diff) (vals img_diff)\<rparr> \<and>
   spec_potential \<lparr>w1 = Fin a, w2 = Fin b, shift = Fin s, alpha = Fin al, beta = Fin be,
                   gamma = Fin ga\<rparr> (Fin c) (Fin i) =
     Fin (\<bar>a\<bar> * exp (- c / (2 * exp al) - i / (2 * exp be)) + \<bar>b\<bar> * exp (- c / (2 * exp ga)) - s)"
  using forward_same_shape[OF assms] spec_potential_real by simp

lemma spec_potential_default_zero: "spec_potential CRFModule_init (Fin 0) (Fin 0) = Fin (133 / 10)"
  by (simp add: spec_potential_def CRFModule_init_def fsub_def)

lemma wf_zeros: "wf_tval (zeros s)"
  by (simp add: wf_tval_def zeros_def)

text \<open>
  C3. With the parameters of a new \<^verbatim>\<open>CRFModule\<close> and inputs of any shape that are
  zero everywhere, every entry of the output of \<^verbatim>\<open>forward\<close> is 13.3.
\<close>

theorem forward_default_zero:
  "forward CRFModule_init (zeros s) (zeros s) =
     Inr \<lparr>dims = s, vals = replicate (prod_list s) (Fin (133 / 10))\<rparr>"
proof -
  have "map2 (spec_potential CRFModule_init) (replicate n (Fin 0)) (replicate n (Fin 0)) =
        replicate n (Fin (133 / 10))" for n
    by (induction n) (simp_all add: spec_potential_default_zero)
  then show ?thesis
    using forward_same_shape[OF refl wf_zeros wf_zeros, of CRFModule_init s]
    by (simp add: zeros_def)
qed

theorem forward_is_potential_witness:
  "(let cd = \<lparr>dims = [1, 2], vals = [Fin 0, Fin 1]\<rparr>;
        idf = \<lparr>dims = [1, 2], vals = [Fin 0, Fin 2]\<rparr>
    in dims cd = dims idf \<and> wf_tval cd \<and> wf_tval idf \<and>
       forward CRFModule_init cd idf =
         Inr \<lparr>dims = [1, 2],
              vals = [spec_potential CRFModule_init (Fin 0) (Fin 0),
                      spec_potential CRFModule_init (Fin 1) (Fin 2)]\<rparr>)"
proof -
  let ?cd = "\<lparr>dims = [1, 2], vals = [Fin 0, Fin 1]\<rparr>"
  let ?idf = "\<lparr>dims = [1, 2], vals = [Fin 0, Fin 2]\<rparr>"
  have a: "dims ?cd = dims ?idf" by simp
  have b: "wf_tval ?cd" "wf_tval ?idf" by (simp_all add: wf_tval_def)
  show ?thesis
    unfolding Let_def using a b forward_is_potential[OF a b, of CRFModule_init] by simp
qed

section \<open>Properties of the confusion matrix\<close>

lemma fsum_Fin: "fsum (map Fin rs) = Fin (sum_list rs)"
  by (induction rs) (simp_all add: fsum_def)

lemma ncols_to_float32: "ncols (to_float32 counts) = ncols counts"
  by (cases counts) (simp_all add: ncols_def to_float32_def)

lemma column_to_float32:
  assumes "rectangular counts" "j < ncols counts"
  shows "column (to_float32 counts) j = map Fin (map real (column counts j))"
  using assms by (simp add: column_def to_float32_def rectangular_def list_all_iff)

lemma sum_list_real: "sum_list (map real ks) = real (sum_list ks)"
  by (induction ks) simp_all

lemma cm_divisor_nth:
  assumes "rectangular counts" "j < ncols counts"
  shows "cm_divisor (to_float32 counts) ! j =
         Fin (max (real (sum_list (column counts j))) 1)"
proof -
  have "fsum (column (to_float32 counts) j) = Fin (real (sum_list (column counts j)))"
    unfolding column_to_float32[OF assms] fsum_Fin sum_list_real ..
  then show ?thesis
    using assms(2) by (simp add: cm_divisor_def ncols_to_float32)
qed

lemma length_cm_divisor: "length (cm_divisor (to_float32 counts)) = ncols counts"
  by (simp add: cm_divisor_def ncols_to_float32)

lemma cm_normalize_nth:
  assumes r: "rectangular counts" and i: "i < length counts" and j: "j < ncols counts"
  shows "cm_normalize counts ! i ! j =
         Fin (real (counts ! i ! j) / max (real (sum_list (column counts j))) 1)"
proof -
  have li: "length (counts ! i) = ncols counts"
    using r i by (simp add: rectangular_def list_all_length)
  have "cm_normalize counts ! i ! j =
        fdiv (Fin (real (counts ! i ! j))) (cm_divisor (to_float32 counts) ! j)"
    using i j li by (simp add: cm_normalize_def Let_def to_float32_def length_cm_divisor[unfolded to_float32_def])
  also have "\<dots> = Fin (real (counts ! i ! j) / max (real (sum_list (column counts j))) 1)"
  proof -
    have "max (real (sum_list (column counts j))) 1 \<noteq> 0" by linarith
    then show ?thesis unfolding cm_divisor_nth[OF r j] by simp
  qed
  finally show ?thesis .
qed

lemma length_cm_normalize_row:
  assumes r: "rectangular counts" and i: "i < length counts"
  shows "length (cm_normalize counts ! i) = ncols counts"
proof -
  have li: "length (counts ! i) = ncols counts"
    using r i by (simp add: rectangular_def list_all_length)
  show ?thesis
    using i li by (simp add: cm_normalize_def Let_def to_float32_def length_cm_divisor[unfolded to_float32_def])
qed

lemma column_zero:
  assumes "sum_list (column counts j) = (0::nat)" "i < length counts"
  shows "counts ! i ! j = 0"
proof -
  have "counts ! i ! j \<in> set (column counts j)"
    using assms(2) by (auto simp: column_def)
  then show ?thesis using assms(1) by simp
qed

lemma length_cm_normalize: "length (cm_normalize counts) = length counts"
  by (simp add: cm_normalize_def Let_def to_float32_def)

lemma ncols_cm_normalize:
  assumes r: "rectangular counts"
  shows "ncols (cm_normalize counts) = ncols counts"
proof (cases counts)
  case Nil
  then show ?thesis by (simp add: cm_normalize_def to_float32_def ncols_def)
next
  case (Cons row rest)
  then have i: "0 < length counts" by simp
  have ne: "cm_normalize counts \<noteq> []" using length_cm_normalize[of counts] i by auto
  then have "ncols (cm_normalize counts) = length (cm_normalize counts ! 0)"
    by (cases "cm_normalize counts") (simp_all add: ncols_def)
  then show ?thesis using length_cm_normalize_row[OF r i] by simp
qed

lemma plot_cm_nth:
  assumes "rectangular counts" "j < ncols counts"
  shows "plot_cm counts ! j = column (cm_normalize counts) j"
  using assms by (simp add: plot_cm_def Let_def ncols_cm_normalize)

text \<open>
  C8. The divisors of the confusion matrix are the column sums clamped below at 1:
  each is a number that is at least 1, so no entry is divided by zero and no entry of
  the normalised matrix, or of its transpose that is drawn, is NaN or infinite; a
  column of counts that sums to zero is a column of zeros in the normalised matrix.
\<close>

theorem plot_cm_no_nan:
  assumes r: "rectangular counts"
  shows "list_all (\<lambda>d. \<exists>x. d = Fin x \<and> 1 \<le> x) (cm_divisor (to_float32 counts)) \<and>
         list_all (list_all is_finite) (cm_normalize counts) \<and>
         list_all (list_all is_finite) (plot_cm counts) \<and>
         (\<forall>j < ncols counts. sum_list (column counts j) = 0 \<longrightarrow>
            list_all (\<lambda>x. x = Fin 0) (column (cm_normalize counts) j) \<and>
            list_all (\<lambda>x. x = Fin 0) (plot_cm counts ! j))"
proof -
  have d: "list_all (\<lambda>d. \<exists>x. d = Fin x \<and> 1 \<le> x) (cm_divisor (to_float32 counts))"
    unfolding list_all_length using cm_divisor_nth[OF r] by (simp add: length_cm_divisor)
  note len = length_cm_normalize
  have f: "list_all (list_all is_finite) (cm_normalize counts)"
    unfolding list_all_length
    using cm_normalize_nth[OF r] length_cm_normalize_row[OF r] by (simp add: len)
  have g: "list_all (list_all is_finite) (plot_cm counts)"
    unfolding list_all_length plot_cm_def Let_def ncols_cm_normalize[OF r] column_def
    using cm_normalize_nth[OF r] by (simp add: len)
  have z: "list_all (\<lambda>x. x = Fin 0) (column (cm_normalize counts) j)"
    if j: "j < ncols counts" and z: "sum_list (column counts j) = 0" for j
    unfolding list_all_length column_def
    using cm_normalize_nth[OF r _ j] column_zero[OF z] by (simp add: len)
  from d f g z plot_cm_nth[OF r] show ?thesis by simp
qed

theorem plot_cm_no_nan_witness:
  "rectangular [[1, 0], [2, 0 :: nat]] \<and> (1::nat) < ncols [[1, 0], [2, 0 :: nat]] \<and>
   sum_list (column [[1, 0], [2, 0 :: nat]] 1) = 0 \<and>
   plot_cm [[1, 0], [2, 0]] = [[Fin (1 / 3), Fin (2 / 3)], [Fin 0, Fin 0]] \<and>
   list_all (\<lambda>x. x = Fin 0) (plot_cm [[1, 0], [2, 0]] ! 1)"
proof -
  have r: "rectangular [[1, 0], [2, 0 :: nat]]" by (simp add: rectangular_def ncols_def)
  have j: "(1::nat) < ncols [[1, 0], [2, 0 :: nat]]" by (simp add: ncols_def)
  have z: "sum_list (column [[1, 0], [2, 0 :: nat]] 1) = 0" by (simp add: column_def)
  have v: "plot_cm [[1, 0], [2, 0]] = [[Fin (1 / 3), Fin (2 / 3)], [Fin 0, Fin 0]]"
    by (simp add: plot_cm_def cm_normalize_def cm_divisor_def to_float32_def column_def
                  ncols_def fsum_def Let_def upt_rec)
  from r j z v plot_cm_no_nan[OF r] show ?thesis by simp
qed

section \<open>Properties of the dataset split\<close>

lemma slice_ends: "train_end = 15000" "val_end = 22500" "test_end = 30000"
proof -
  show a: "train_end = 15000"
    by (simp add: train_end_def train_percent_def dataset_size_def)
  show b: "val_end = 22500"
    unfolding val_end_def a by (simp add: val_percent_def dataset_size_def)
  show "test_end = 30000"
    unfolding test_end_def b by (simp add: test_percent_def dataset_size_def)
qed

lemma sort_listing:
  fixes l1 l2 :: "string list"
  assumes "set l1 = set l2" "distinct l1" "distinct l2"
  shows "sort l1 = sort l2"
proof (rule sorted_distinct_set_unique)
  show "sorted (sort l1)" "sorted (sort l2)" by simp_all
  show "distinct (sort l1)" "distinct (sort l2)" using assms by simp_all
  show "set (sort l1) = set (sort l2)" using assms by simp
qed

lemma fst_make_link: "fst (make_link env dir file) = file"
  by (simp add: make_link_def Let_def)

lemma drop_last_one:
  assumes "length xs = Suc n"
  shows "drop n xs = [xs ! n]"
proof -
  have "xs ! n # drop (Suc n) xs = drop n xs"
    using assms by (intro Cons_nth_drop_Suc) simp
  then show ?thesis using assms by simp
qed

lemma val_files:
  "map fst (val_links (create_dataset env files)) =
     take 7500 (drop 15000 (random_shuffle env (date_seed_timestamp env) (sort files)))"
  unfolding create_dataset_def Let_def slice_ends
  by (simp add: fst_make_link slice_def o_def)

lemma val_files_differ:
  fixes files :: "string list"
  assumes d: "distinct files" and l: "length files = Suc 15000"
    and a: "random_shuffle envA (date_seed_timestamp envA) (sort files) = sort files"
    and b: "random_shuffle envB (date_seed_timestamp envB) (sort files) = rev (sort files)"
  shows "map fst (val_links (create_dataset envA files)) \<noteq>
         map fst (val_links (create_dataset envB files))"
proof -
  let ?S = "sort files"
  have dist: "distinct ?S" using d by simp
  have len: "length ?S = Suc 15000" using l by simp
  have lenr: "length (rev ?S) = Suc 15000" using len by simp
  have v0: "take 7500 (drop 15000 ?S) = [?S ! 15000]"
    unfolding drop_last_one[OF len] by simp
  have "rev ?S ! 15000 = ?S ! 0" using rev_nth[of 15000 ?S] len by simp
  then have v1: "take 7500 (drop 15000 (rev ?S)) = [?S ! 0]"
    unfolding drop_last_one[OF lenr] by simp
  have "(?S ! 15000 = ?S ! 0) = ((15000::nat) = 0)"
    by (rule nth_eq_iff_index_eq[OF dist]) (use l in auto)
  then have "?S ! 15000 \<noteq> ?S ! 0" by simp
  then show ?thesis unfolding val_files a b v0 v1 by simp
qed

text \<open>
  C9, as stated, fails: the seed is the local time 2022-12-18 18:00 as seconds after
  the epoch, so a run in UTC and a run one hour east of UTC seed the generator with
  different numbers. With a stand-in for the shuffle that depends on its seed (it
  reverses the list for some seeds), 15001 files and the same listing, the file that
  the first run links into \<^verbatim>\<open>val\<close> is not the one that the second run links there.
\<close>

theorem create_dataset_time_zone_counterexample:
  "(let sh = (\<lambda>seed xs. if even (seed div 3600) then xs else rev xs);
        env_utc = \<lparr>utc_offset = 0, random_shuffle = sh, sha256_hexdigest = (\<lambda>s. s)\<rparr>;
        env_cet = \<lparr>utc_offset = 3600, random_shuffle = sh, sha256_hexdigest = (\<lambda>s. s)\<rparr>;
        files = map (\<lambda>i. ''/datadrive/true_color/imgs/'' @ replicate (Suc i) CHR ''a'' @ ''.png'')
                    [0..<15001]
    in date_seed_timestamp env_utc = 1671386400 \<and>
       date_seed_timestamp env_cet = 1671382800 \<and>
       map fst (val_links (create_dataset env_utc files)) \<noteq>
       map fst (val_links (create_dataset env_cet files)))"
proof -
  let ?sh = "\<lambda>(seed::int) (xs::string list). if even (seed div 3600) then xs else rev xs"
  let ?A = "\<lparr>utc_offset = 0, random_shuffle = ?sh, sha256_hexdigest = (\<lambda>s. s)\<rparr>"
  let ?B = "\<lparr>utc_offset = 3600, random_shuffle = ?sh, sha256_hexdigest = (\<lambda>s. s)\<rparr>"
  let ?f = "\<lambda>i. ''/datadrive/true_color/imgs/'' @ replicate (Suc i) CHR ''a'' @ ''.png''"
  let ?files = "map ?f [0..<15001]"
  have inj: "inj_on ?f A" for A
  proof (rule inj_onI)
    fix i j assume "?f i = ?f j"
    then have "length (?f i) = length (?f j)" by (rule arg_cong)
    then show "i = j" by simp
  qed
  have d: "distinct ?files" unfolding distinct_map using inj by (simp only: distinct_upt simp_thms)
  have l: "length ?files = Suc 15000" by (simp only: length_map length_upt)
  have a: "date_seed_timestamp ?A = 1671386400" and b: "date_seed_timestamp ?B = 1671382800"
    by (simp_all add: date_seed_timestamp_def)
  have sa: "random_shuffle ?A (date_seed_timestamp ?A) (sort ?files) = sort ?files"
    unfolding a by (simp only: py_env.simps) simp
  have sb: "random_shuffle ?B (date_seed_timestamp ?B) (sort ?files) = rev (sort ?files)"
    unfolding b by (simp only: py_env.simps) simp
  from a b val_files_differ[OF d l sa sb] show ?thesis unfolding Let_def by blast
qed


text \<open>
  C9, amended. Two runs in the same local time zone, with the same shuffle of the
  random generator and the same hash function, whose \<^verbatim>\<open>glob\<close> lists the same files
  in any order, seed the generator with the same number, 1671386400 minus the offset
  of the time zone from UTC, shuffle the same sorted list and create the same links,
  under the same hash-prefixed names, in the train, val and test directories.
\<close>

theorem create_dataset_same_time_zone:
  assumes "utc_offset env1 = utc_offset env2"
    and "random_shuffle env1 = random_shuffle env2"
    and "sha256_hexdigest env1 = sha256_hexdigest env2"
    and "set l1 = set l2" "distinct l1" "distinct l2"
  shows "create_dataset env1 l1 = create_dataset env2 l2 \<and>
         date_seed_timestamp env1 = date_seed_timestamp env2 \<and>
         map fst (train_links (create_dataset env1 l1)) =
           take 15000 (random_shuffle env2 (1671386400 - utc_offset env2) (sort l2)) \<and>
         map fst (val_links (create_dataset env1 l1)) =
           take 7500 (drop 15000 (random_shuffle env2 (1671386400 - utc_offset env2) (sort l2))) \<and>
         map fst (test_links (create_dataset env1 l1)) =
           take 7500 (drop 22500 (random_shuffle env2 (1671386400 - utc_offset env2) (sort l2))) \<and>
         (\<forall>f \<in> set (train_links (create_dataset env1 l1)).
            snd f = train_path @ ''/'' @ sha256_hexdigest env2 (path_stem (fst f)) @ ''-'' @ path_name (fst f))"
  unfolding create_dataset_def sort_listing[OF assms(4-6)] slice_ends
  using assms(1-3)
  by (auto simp: Let_def slice_def make_link_def date_seed_timestamp_def o_def)

theorem create_dataset_same_time_zone_witness:
  "(let env1 = \<lparr>utc_offset = 3600, random_shuffle = (\<lambda>seed xs. rev xs),
                 sha256_hexdigest = (\<lambda>s. ''h'' @ s)\<rparr>;
        env2 = \<lparr>utc_offset = 3600, random_shuffle = (\<lambda>seed xs. rev xs),
                 sha256_hexdigest = (\<lambda>s. ''h'' @ s)\<rparr>;
        l1 = [''/d/b.png'', ''/d/a.png'']; l2 = [''/d/a.png'', ''/d/b.png'']
    in utc_offset env1 = utc_offset env2 \<and> random_shuffle env1 = random_shuffle env2 \<and>
       sha256_hexdigest env1 = sha256_hexdigest env2 \<and>
       set l1 = set l2 \<and> distinct l1 \<and> distinct l2 \<and>
       create_dataset env1 l1 = create_dataset env2 l2 \<and>
       map fst (train_links (create_dataset env1 l1)) = [''/d/b.png'', ''/d/a.png''])"
proof -
  let ?env = "\<lparr>utc_offset = 3600, random_shuffle = (\<lambda>seed xs. rev xs),
                sha256_hexdigest = (\<lambda>s. ''h'' @ s)\<rparr>"
  let ?l1 = "[''/d/b.png'', ''/d/a.png'']" and ?l2 = "[''/d/a.png'', ''/d/b.png'']"
  have a: "set ?l1 = set ?l2" by auto
  have b: "distinct ?l1" "distinct ?l2" by simp_all
  have s: "sort ?l2 = ?l2" by code_simp
  note t = create_dataset_same_time_zone[OF refl refl refl a b, of ?env]
  have c: "create_dataset ?env ?l1 = create_dataset ?env ?l2" using t by blast
  have "map fst (train_links (create_dataset ?env ?l1)) =
        take 15000 (random_shuffle ?env (1671386400 - utc_offset ?env) (sort ?l2))"
    using t by blast
  then have d: "map fst (train_links (create_dataset ?env ?l1)) = ?l1"
    unfolding s by simp
  show ?thesis
    unfolding Let_def using a b c d by blast
qed

section \<open>Properties of the correlations and of the validation step\<close>

lemma length_concat_upt:
  "(\<And>i. i < n \<Longrightarrow> length (f i) = m) \<Longrightarrow> length (concat (map f [0..<n])) = n * m"
  by (induction n) simp_all

lemma nth_concat_upt:
  assumes "\<And>i. i < n \<Longrightarrow> length (f i) = m" "i < n" "j < m"
  shows "concat (map f [0..<n]) ! (i * m + j) = f i ! j"
  using assms
proof (induction n)
  case 0
  then show ?case by simp
next
  case (Suc n)
  have len: "length (concat (map f [0..<n])) = n * m"
    using Suc.prems(1) by (simp add: length_concat_upt)
  show ?case
  proof (cases "i < n")
    case True
    have "i * m + j < n * m"
    proof -
      have "Suc i * m \<le> n * m" using True by (intro mult_le_mono1) simp
      then show ?thesis using Suc.prems(3) by simp
    qed
    then show ?thesis using Suc.IH[OF _ True Suc.prems(3)] Suc.prems(1) len
      by (simp add: nth_append)
  next
    case False
    then have "i = n" using Suc.prems(2) by simp
    then show ?thesis using len by (simp add: nth_append)
  qed
qed

lemma nth_concat_concat_upt:
  assumes "i < n" "a < c" "p < k"
  shows "concat (map (\<lambda>i. concat (map (\<lambda>a. map (g i a) [0..<k]) [0..<c])) [0..<n]) !
           ((i * c + a) * k + p) = g i a p"
proof -
  let ?F = "\<lambda>i. concat (map (\<lambda>a. map (g i a) [0..<k]) [0..<c])"
  have lenF: "length (?F i) = c * k" for i by (simp add: length_concat_upt)
  have idx: "(i * c + a) * k + p = i * (c * k) + (a * k + p)" by (simp add: algebra_simps)
  have "a * k + p < c * k"
  proof -
    have "Suc a * k \<le> c * k" using assms(2) by (intro mult_le_mono1) simp
    then show ?thesis using assms(3) by simp
  qed
  then have "concat (map ?F [0..<n]) ! (i * (c * k) + (a * k + p)) = ?F i ! (a * k + p)"
    using nth_concat_upt[of n ?F "c * k" i "a * k + p"] lenF assms(1) by simp
  also have "\<dots> = map (g i a) [0..<k] ! p"
    using nth_concat_upt[of c "\<lambda>a. map (g i a) [0..<k]" k a p] assms(2,3) by simp
  also have "\<dots> = g i a p" using assms(3) by simp
  finally show ?thesis unfolding idx .
qed

lemma vectors_norm_t:
  assumes "norm_t t = Inr nf"
  shows "vectors nf = map (map unit_vector) (vectors t)"
proof -
  obtain n c h w where d: "dims t = [n, c, h, w]"
    using assms by (auto simp: norm_t_def split: list.splits)
  let ?g = "\<lambda>i a p. unit_vector (vectors t ! i ! p) ! a"
  let ?V = "concat (map (\<lambda>i. concat (map (\<lambda>a. map (?g i a) [0..<h * w]) [0..<c])) [0..<n])"
  have nf: "nf = t\<lparr>vals := ?V\<rparr>" using assms d by (simp add: norm_t_def)
  have vt: "vectors t ! i ! p = map (\<lambda>a. vals t ! ((i * c + a) * (h * w) + p)) [0..<c]"
    if "i < n" "p < h * w" for i p
    using that by (simp add: vectors_def d)
  have "vectors nf =
        map (\<lambda>i. map (\<lambda>p. map (\<lambda>a. ?V ! ((i * c + a) * (h * w) + p)) [0..<c]) [0..<h * w]) [0..<n]"
    by (simp add: vectors_def nf d)
  also have "\<dots> = map (\<lambda>i. map (\<lambda>p. map (\<lambda>a. ?g i a p) [0..<c]) [0..<h * w]) [0..<n]"
    by (intro map_cong refl) (simp add: nth_concat_concat_upt)
  also have "\<dots> = map (\<lambda>i. map (\<lambda>p. unit_vector (vectors t ! i ! p)) [0..<h * w]) [0..<n]"
  proof (intro map_cong refl)
    fix i p assume "i \<in> set [0..<n]" "p \<in> set [0..<h * w]"
    then have "length (unit_vector (vectors t ! i ! p)) = c"
      using vt by (simp add: unit_vector_def)
    then show "map (\<lambda>a. ?g i a p) [0..<c] = unit_vector (vectors t ! i ! p)"
      by (metis map_nth)
  qed
  also have "\<dots> = map (map unit_vector) (vectors t)"
    by (simp add: vectors_def d map_nth o_def)
  finally show ?thesis .
qed

lemma dot_Fin: "dot (map Fin u) (map Fin v) = Fin (sum_list (map2 (*) u v))"
  unfolding dot_def
proof (induction u arbitrary: v)
  case Nil
  then show ?case by (simp add: fsum_def)
next
  case (Cons x u)
  then show ?case by (cases v) (simp_all add: fsum_def)
qed

lemma sum_squares_scaled:
  fixes v :: "real list"
  shows "sum_list (map2 (*) (map (\<lambda>x. x / r) v) (map (\<lambda>x. x / r) v)) =
         sum_list (map2 (*) v v) / (r * r)"
  by (induction v) (simp_all add: add_divide_distrib)

lemma sum_squares_nonneg: "0 \<le> sum_list (map2 (*) v v)" for v :: "real list"
  by (induction v) simp_all

lemma unit_vector_Fin:
  fixes v :: "real list"
  assumes "sum_list (map2 (*) v v) \<noteq> 0"
  shows "unit_vector (map Fin v) = map Fin (map (\<lambda>x. x / sqrt (sum_list (map2 (*) v v))) v)"
    and "l2_norm (unit_vector (map Fin v)) = Fin 1"
proof -
  let ?S = "sum_list (map2 (*) v v)"
  have pos: "0 < ?S" using assms sum_squares_nonneg[of v] by linarith
  have l: "l2_norm (map Fin v) = Fin (sqrt ?S)"
    using pos by (simp add: l2_norm_def dot_Fin)
  have r: "sqrt ?S \<noteq> 0" using pos by simp
  show u: "unit_vector (map Fin v) = map Fin (map (\<lambda>x. x / sqrt ?S) v)"
    unfolding unit_vector_def l using r by simp
  have "sum_list (map2 (*) (map (\<lambda>x. x / sqrt ?S) v) (map (\<lambda>x. x / sqrt ?S) v)) = 1"
    unfolding sum_squares_scaled using pos by simp
  then have "dot (map Fin (map (\<lambda>x. x / sqrt ?S) v)) (map Fin (map (\<lambda>x. x / sqrt ?S) v)) = Fin 1"
    unfolding dot_Fin by simp
  then show "l2_norm (unit_vector (map Fin v)) = Fin 1"
    unfolding u l2_norm_def by simp
qed

lemma and_then_Inr: "and_then m f = Inr y \<Longrightarrow> \<exists>x. m = Inr x \<and> f x = Inr y"
  by (cases m) (simp_all add: and_then_def)

lemma vals_tensor_correlation:
  "tensor_correlation a b = Inr r \<Longrightarrow> vals r = concat (map2 pairwise_dots (vectors a) (vectors b))"
  by (auto simp: tensor_correlation_def split: list.splits if_splits)

text \<open>
  C4. When \<^verbatim>\<open>get_net_fd\<close> returns, the feature correlation \<open>fd\<close> holds the dot
  products of the sampled feature vectors after each has been divided by its L2 norm,
  which makes a vector of real numbers that is not zero a vector of norm 1, and the
  label correlation \<open>ld\<close> holds the dot products of the sampled one-hot label
  vectors as \<^verbatim>\<open>sample\<close> returned them, not normalised.
\<close>

theorem get_net_fd_normalizes_features_only:
  assumes "get_net_fd ext self feats1 feats2 label1 label2 coords1 coords2 = Inr (ld, fd, l1, l2)"
  shows "\<exists>fs1 fs2 oh1 oh2 lp1 lp2 ls1 ls2.
     sample ext feats1 coords1 = Inr fs1 \<and> sample ext feats2 coords2 = Inr fs2 \<and>
     one_hot (shift_labels label1) (n_classes self + 1) = Inr oh1 \<and>
     permute oh1 [0, 3, 1, 2] = Inr lp1 \<and> sample ext lp1 coords1 = Inr ls1 \<and>
     one_hot (shift_labels label2) (n_classes self + 1) = Inr oh2 \<and>
     permute oh2 [0, 3, 1, 2] = Inr lp2 \<and> sample ext lp2 coords2 = Inr ls2 \<and>
     vals fd = concat (map2 pairwise_dots (map (map unit_vector) (vectors fs1))
                                          (map (map unit_vector) (vectors fs2))) \<and>
     vals ld = concat (map2 pairwise_dots (vectors ls1) (vectors ls2)) \<and>
     (\<forall>v :: real list. sum_list (map2 (*) v v) \<noteq> 0 \<longrightarrow>
        l2_norm (unit_vector (map Fin v)) = Fin 1)"
proof -
  from assms obtain fs1 fs2 oh1 lp1 ls1 oh2 lp2 ls2 nf1 nf2 fd' ld' where
    s: "sample ext feats1 coords1 = Inr fs1" "sample ext feats2 coords2 = Inr fs2"
       "one_hot (shift_labels label1) (n_classes self + 1) = Inr oh1"
       "permute oh1 [0, 3, 1, 2] = Inr lp1" "sample ext lp1 coords1 = Inr ls1"
       "one_hot (shift_labels label2) (n_classes self + 1) = Inr oh2"
       "permute oh2 [0, 3, 1, 2] = Inr lp2" "sample ext lp2 coords2 = Inr ls2"
    and n: "norm_t fs1 = Inr nf1" "norm_t fs2 = Inr nf2"
    and c: "tensor_correlation nf1 nf2 = Inr fd'" "tensor_correlation ls1 ls2 = Inr ld'"
    and e: "fd' = fd" "ld' = ld"
    unfolding get_net_fd_def
    by (auto dest!: and_then_Inr)
  have "vals fd = concat (map2 pairwise_dots (map (map unit_vector) (vectors fs1))
                                          (map (map unit_vector) (vectors fs2)))"
    using vals_tensor_correlation[OF c(1)] vectors_norm_t[OF n(1)] vectors_norm_t[OF n(2)] e
    by simp
  moreover have "vals ld = concat (map2 pairwise_dots (vectors ls1) (vectors ls2))"
    using vals_tensor_correlation[OF c(2)] e by simp
  ultimately show ?thesis using s unit_vector_Fin(2) by blast
qed

lemma ex_one_hot:
  "one_hot (shift_labels \<lparr>idims = [1, 1, 1], ivals = [0]\<rparr>) (1 + 1) =
     Inr \<lparr>dims = [1, 1, 1, 2], vals = [Fin 0, Fin 1]\<rparr>"
  by (simp add: one_hot_def shift_labels_def upt_rec)

lemma ex_permute:
  "permute \<lparr>dims = [1, 1, 1, 2], vals = [Fin 0, Fin 1]\<rparr> [0, 3, 1, 2] =
     Inr \<lparr>dims = [1, 2, 1, 1], vals = [Fin 0, Fin 1]\<rparr>"
  by code_simp

lemma ex_vectors:
  "vectors \<lparr>dims = [Suc 0, 2, Suc 0, Suc 0], vals = [x, y]\<rparr> = [[[x, y]]]"
  by (simp add: vectors_def upt_rec)

lemma ex_corr:
  "tensor_correlation \<lparr>dims = [1, 2, 1, 1], vals = [Fin a, Fin b]\<rparr>
                      \<lparr>dims = [1, 2, 1, 1], vals = [Fin a, Fin b]\<rparr> =
     Inr \<lparr>dims = [1, 1, 1, 1, 1], vals = [Fin (a * a + b * b)]\<rparr>"
  by (simp add: tensor_correlation_def ex_vectors pairwise_dots_def dot_def fsum_def)

lemma ex_argmax:
  "argmax1 \<lparr>dims = [1, 2, 1, 1], vals = [Fin 0, Fin 1]\<rparr> = Inr \<lparr>idims = [1, 1, 1], ivals = [1]\<rparr>"
  by code_simp

lemma ex_unit2: "unit_vector [Fin 2, Fin 0] = [Fin 1, Fin 0]"
  by (simp add: unit_vector_def l2_norm_def dot_def fsum_def)

lemma ex_norm2:
  "norm_t \<lparr>dims = [1, 2, 1, 1], vals = [Fin 2, Fin 0]\<rparr> =
     Inr \<lparr>dims = [1, 2, 1, 1], vals = [Fin 1, Fin 0]\<rparr>"
  by (simp add: norm_t_def ex_vectors ex_unit2 upt_rec)

theorem get_net_fd_normalizes_features_only_witness:
  "(let ext = \<lparr>sample = (\<lambda>t c. Inr (map_tval (\<lambda>x. fdiv x (Fin 2)) t)),
                FeaturePyramidNet = (\<lambda>g u d c t. Inr (t, t)),
                create_cityscapes_colormap = [], create_pascal_label_colormap = []\<rparr>;
        self = LitRecalibrator_init ext (\<lambda>n. \<lparr>histogram = []\<rparr>) 1
                 \<lparr>use_cuda = False, continuous = False, train_dim = 2, granularity = 1,
                  feature_samples = 1, train_dataset_name = ''directory'',
                  extra_clusters = False\<rparr>;
        feats = \<lparr>dims = [1, 2, 1, 1], vals = [Fin 4, Fin 0]\<rparr>;
        lab = \<lparr>idims = [1, 1, 1], ivals = [0]\<rparr>;
        coords = zeros [1, 1, 1, 2];
        fd = \<lparr>dims = [1, 1, 1, 1, 1], vals = [Fin 1]\<rparr>;
        ld = \<lparr>dims = [1, 1, 1, 1, 1], vals = [Fin (1 / 4)]\<rparr>;
        am = \<lparr>idims = [1, 1, 1], ivals = [1]\<rparr>
    in get_net_fd ext self feats feats lab lab coords coords = Inr (ld, fd, am, am) \<and>
       sample ext feats coords = Inr \<lparr>dims = [1, 2, 1, 1], vals = [Fin 2, Fin 0]\<rparr> \<and>
       vectors \<lparr>dims = [1, 2, 1, 1], vals = [Fin 2, Fin 0]\<rparr> = [[[Fin 2, Fin 0]]] \<and>
       unit_vector [Fin 2, Fin 0] = [Fin 1, Fin 0] \<and>
       (\<exists>ls. sample ext \<lparr>dims = [1, 2, 1, 1], vals = [Fin 0, Fin 1]\<rparr> coords = Inr ls \<and>
             vectors ls = [[[Fin 0, Fin (1 / 2)]]] \<and>
             vals ld = concat (map2 pairwise_dots (vectors ls) (vectors ls))) \<and>
       vals fd = concat (map2 pairwise_dots
                   (map (map unit_vector) (vectors \<lparr>dims = [1, 2, 1, 1], vals = [Fin 2, Fin 0]\<rparr>))
                   (map (map unit_vector) (vectors \<lparr>dims = [1, 2, 1, 1], vals = [Fin 2, Fin 0]\<rparr>))))"
proof -
  let ?ext = "\<lparr>sample = (\<lambda>t c. Inr (map_tval (\<lambda>x. fdiv x (Fin 2)) t)),
                FeaturePyramidNet = (\<lambda>g u d c t. Inr (t, t)),
                create_cityscapes_colormap = [], create_pascal_label_colormap = []\<rparr>"
  let ?self = "LitRecalibrator_init ?ext (\<lambda>n. \<lparr>histogram = []\<rparr>) 1
                 \<lparr>use_cuda = False, continuous = False, train_dim = 2, granularity = 1,
                  feature_samples = 1, train_dataset_name = ''directory'',
                  extra_clusters = False\<rparr>"
  let ?feats = "\<lparr>dims = [1, 2, 1, 1], vals = [Fin 4, Fin 0]\<rparr>"
  let ?fs = "\<lparr>dims = [1, 2, 1, 1], vals = [Fin 2, Fin 0]\<rparr>"
  let ?lp = "\<lparr>dims = [1, 2, 1, 1], vals = [Fin 0, Fin 1]\<rparr>"
  let ?ls = "\<lparr>dims = [1, 2, 1, 1], vals = [Fin 0, Fin (1 / 2)]\<rparr>"
  let ?lab = "\<lparr>idims = [1, 1, 1], ivals = [0]\<rparr>"
  let ?coords = "zeros [1, 1, 1, 2]"
  let ?fd = "\<lparr>dims = [1, 1, 1, 1, 1], vals = [Fin 1]\<rparr>"
  let ?ld = "\<lparr>dims = [1, 1, 1, 1, 1], vals = [Fin (1 / 4)]\<rparr>"
  let ?am = "\<lparr>idims = [1, 1, 1], ivals = [1]\<rparr>"
  have n: "n_classes ?self = 1" by (simp add: LitRecalibrator_init_def)
  have sf: "sample ?ext ?feats ?coords = Inr ?fs" by (simp add: map_tval_def)
  have sl: "sample ?ext ?lp ?coords = Inr ?ls" by (simp add: map_tval_def)
  have am: "argmax1 ?ls = Inr ?am" by code_simp
  have cl: "tensor_correlation ?ls ?ls = Inr ?ld"
    using ex_corr[of 0 "1 / 2"] by (simp add: power2_eq_square)
  have cf: "tensor_correlation \<lparr>dims = [1, 2, 1, 1], vals = [Fin 1, Fin 0]\<rparr>
              \<lparr>dims = [1, 2, 1, 1], vals = [Fin 1, Fin 0]\<rparr> = Inr ?fd"
    using ex_corr[of 1 0] by simp
  have g: "get_net_fd ?ext ?self ?feats ?feats ?lab ?lab ?coords ?coords = Inr (?ld, ?fd, ?am, ?am)"
    unfolding get_net_fd_def n
    by (simp add: and_then_def sf[simplified] sl[simplified] ex_one_hot[simplified]
                  ex_permute[simplified] ex_norm2[simplified] cf[simplified] cl[simplified]
                  am[simplified])
  have vs: "vectors ?fs = [[[Fin 2, Fin 0]]]" "vectors ?ls = [[[Fin 0, Fin (1 / 2)]]]"
    using ex_vectors by simp_all
  from get_net_fd_normalizes_features_only[OF g] obtain fs1 ls1 oh1 lp1 where
    a: "sample ?ext ?feats ?coords = Inr fs1"
    and b: "one_hot (shift_labels ?lab) (n_classes ?self + 1) = Inr oh1"
      "permute oh1 [0, 3, 1, 2] = Inr lp1" "sample ?ext lp1 ?coords = Inr ls1"
    and c: "vals ?fd = concat (map2 pairwise_dots (map (map unit_vector) (vectors fs1))
                                          (map (map unit_vector) (vectors fs1)))"
      "vals ?ld = concat (map2 pairwise_dots (vectors ls1) (vectors ls1))"
    by auto
  have fs1: "fs1 = ?fs" using a sf by simp
  have "oh1 = \<lparr>dims = [1, 1, 1, 2], vals = [Fin 0, Fin 1]\<rparr>"
    using b(1) ex_one_hot unfolding n by simp
  then have "lp1 = ?lp" using b(2) ex_permute by simp
  then have ls1: "ls1 = ?ls" using b(3) sl by simp
  show ?thesis
    unfolding Let_def using g sf sl vs ex_unit2 c unfolding fs1 ls1 by blast
qed

text \<open>
  C1. \<^verbatim>\<open>validation_step\<close> reads \<^verbatim>\<open>self.dino\<close> first, and \<^verbatim>\<open>self.crf\<close> in
  \<^verbatim>\<open>get_crf_fd\<close>, but \<^verbatim>\<open>__init__\<close> assigns neither: on the module that \<^verbatim>\<open>__init__\<close>
  builds, the step raises AttributeError for every batch and returns no mapping.
\<close>

theorem validation_step_raises_attribute_error:
  "validation_step ext (LitRecalibrator_init ext new_metrics n cf) b rand1 rand2 =
     Inl (AttributeError ''dino'')"
  by (simp add: validation_step_def LitRecalibrator_init_def getattr_def and_then_def Let_def)

lemma validation_step_keys:
  assumes "validation_step ext self b rand1 rand2 = Inr d"
  shows "map fst d = [''dino_fd'', ''stego_fd'', ''moco_fd'', ''crf_fd'', ''ld'']"
  using assms unfolding validation_step_def Let_def
  by (auto dest!: and_then_Inr)

section \<open>Properties of the end of the validation epoch\<close>

lemma torch_cat_spec:
  assumes "torch_cat dev ts h = Inr (t, h')"
  shows "storage t = next_free h" "device t = dev"
    "h' = h\<lparr>cells := (cells h)(next_free h := cat_vals ts), next_free := Suc (next_free h)\<rparr>"
  using assms
  by (auto simp: torch_cat_def alloc_def Let_def split: list.splits if_splits)

lemma cat_all_spec:
  assumes "cat_all dev ks outputs h = Inr (d, h')"
  shows "map fst d = ks \<and> next_free h' = next_free h + length ks \<and>
         (\<forall>a < next_free h. cells h' a = cells h a) \<and>
         (\<forall>i < length ks. storage (snd (d ! i)) = next_free h + i \<and>
            device (snd (d ! i)) = dev \<and>
            cells h' (next_free h + i) = cat_entries (ks ! i) outputs)"
  using assms
proof (induction ks arbitrary: h d h')
  case Nil
  then show ?case by simp
next
  case (Cons k ks)
  from Cons.prems obtain ts t h1 d1 where
    c: "collect k outputs = Inr ts" and tc: "torch_cat dev ts h = Inr (t, h1)"
    and r: "cat_all dev ks outputs h1 = Inr (d1, h')" and d: "d = (k, t) # d1"
    by (auto dest!: and_then_Inr)
  note t1 = torch_cat_spec[OF tc]
  note ih = Cons.IH[OF r]
  have nf1: "next_free h1 = Suc (next_free h)" using t1(3) by simp
  have c1: "cells h1 (next_free h) = cat_entries k outputs"
    using t1(3) c by (simp add: cat_entries_def)
  have old: "\<forall>a < next_free h. cells h1 a = cells h a" using t1(3) by simp
  have a: "map fst d = k # ks" using ih d by simp
  have b: "next_free h' = next_free h + length (k # ks)" using ih nf1 by simp
  have f: "\<forall>a < next_free h. cells h' a = cells h a" using ih old nf1 by simp
  have g: "storage (snd (d ! i)) = next_free h + i \<and> device (snd (d ! i)) = dev \<and>
           cells h' (next_free h + i) = cat_entries ((k # ks) ! i) outputs"
    if i: "i < length (k # ks)" for i
  proof (cases i)
    case 0
    have "cells h' (next_free h) = cells h1 (next_free h)" using ih nf1 by simp
    then show ?thesis using 0 d t1(1,2) c1 by simp
  next
    case (Suc j)
    then have j: "j < length ks" using i by simp
    from ih j have "storage (snd (d1 ! j)) = next_free h1 + j \<and> device (snd (d1 ! j)) = dev \<and>
           cells h' (next_free h1 + j) = cat_entries (ks ! j) outputs" by blast
    then show ?thesis using Suc d nf1 by simp
  qed
  from a b f g show ?case by blast
qed

lemma plot_signal_frame:
  assumes r: "plot_signal sk d ld k name h = Inr (c, h')"
    and t: "map_of d k = Some t"
    and wp: "storage t < next_free h" and wl: "storage ld < next_free h"
    and dis: "storage ld \<noteq> storage t"
  shows "cells h' (storage t) = plotted_entries (device t) (entries t h)"
    and "\<forall>a. a < next_free h \<longrightarrow> a \<noteq> storage t \<longrightarrow> cells h' a = cells h a"
    and "next_free h \<le> next_free h'"
proof -
  from r t obtain p h1 where pf: "prep_fd t h = Inr (p, h1)"
    and pp: "plot_pr sk p ld name h1 = Inr (c, h')"
    unfolding plot_signal_def dict_get_def by (auto dest!: and_then_Inr)
  have ne: "entries t h \<noteq> []" using pf prep_fd_empty[of t h] by auto
  let ?N = "norm_entries (entries t h)"
  have p: "p = reshape_flat t" and h1: "h1 = h\<lparr>cells := (cells h)(storage t := ?N)\<rparr>"
    using pf prep_fd_entries[OF ne] by simp_all
  have e1: "entries p h1 = ?N" by (simp add: p h1 entries_def reshape_flat_def)
  have ne1: "entries p h1 \<noteq> []"
    using ne length_norm_entries[of "entries t h"] unfolding e1 by auto
  have w: "storage p < next_free h1" "storage ld < next_free h1" "storage ld \<noteq> storage p"
    using wp wl dis by (simp_all add: p h1 reshape_flat_def)
  from plot_pr_entries[OF ne1 w, of sk name] pp
  obtain h'' where q: "Inr (c, h') = map_sum id (\<lambda>l. (l, h''))
        (pr_line sk (map int64_of (entries ld h1)) (norm_entries (entries p h1)) name)"
    and c1: "cells h'' (storage p) =
        (if device p = Cpu then norm_entries (entries p h1) else entries p h1)"
    and fr: "\<forall>a. a < next_free h1 \<longrightarrow> a \<noteq> storage p \<longrightarrow> cells h'' a = cells h1 a"
    and nf: "next_free h1 \<le> next_free h''"
    by metis
  have hh: "h'' = h'"
    using q by (cases "pr_line sk (map int64_of (entries ld h1)) (norm_entries (entries p h1)) name") auto
  have sp: "storage p = storage t" "device p = device t" by (simp_all add: p reshape_flat_def)
  show "cells h' (storage t) = plotted_entries (device t) (entries t h)"
    using c1 unfolding hh sp e1 by (cases "device t") (simp_all add: plotted_entries_def)
  show "\<forall>a. a < next_free h \<longrightarrow> a \<noteq> storage t \<longrightarrow> cells h' a = cells h a"
    using fr unfolding hh sp by (simp add: h1)
  show "next_free h \<le> next_free h'" using nf unfolding hh by (simp add: h1)
qed

lemma plot_signals_frame:
  assumes "plot_signals sk d ld kns h = Inr (cs, h')"
    and "distinct (map fst kns)"
    and "\<forall>k \<in> fst ` set kns. \<exists>t. map_of d k = Some t \<and> storage t < next_free h \<and>
           storage t \<noteq> storage ld"
    and "storage ld < next_free h"
    and "\<forall>k \<in> fst ` set kns. \<forall>k' \<in> fst ` set kns. k \<noteq> k' \<longrightarrow>
           storage (the (map_of d k)) \<noteq> storage (the (map_of d k'))"
  shows "(\<forall>k \<in> fst ` set kns. cells h' (storage (the (map_of d k))) =
            plotted_entries (device (the (map_of d k))) (cells h (storage (the (map_of d k))))) \<and>
         (\<forall>a < next_free h. a \<notin> (\<lambda>k. storage (the (map_of d k))) ` fst ` set kns \<longrightarrow>
            cells h' a = cells h a) \<and>
         next_free h \<le> next_free h'"
  using assms
proof (induction kns arbitrary: h cs)
  case Nil
  then show ?case by simp
next
  case (Cons kn rest)
  obtain k name where kn: "kn = (k, name)" by (cases kn) auto
  let ?s = "\<lambda>k. storage (the (map_of d k))"
  from Cons.prems(1) obtain c h1 cs1 where
    st: "plot_signal sk d ld k name h = Inr (c, h1)"
    and rs: "plot_signals sk d ld rest h1 = Inr (cs1, h')"
    unfolding kn by (auto dest!: and_then_Inr)
  from Cons.prems(3) obtain t where t: "map_of d k = Some t" "storage t < next_free h"
    "storage t \<noteq> storage ld" unfolding kn by auto
  note sf = plot_signal_frame[OF st t(1,2) Cons.prems(4) t(3)[symmetric]]
  have d1: "distinct (map fst rest)" using Cons.prems(2) by simp
  have knotin: "k \<notin> fst ` set rest" using Cons.prems(2) unfolding kn by auto
  have sk_ne: "?s k' \<noteq> ?s k" if "k' \<in> fst ` set rest" for k'
  proof -
    have "k' \<noteq> k" using that knotin by auto
    moreover have "k \<in> fst ` set (kn # rest)" "k' \<in> fst ` set (kn # rest)"
      using that unfolding kn by auto
    ultimately show ?thesis using Cons.prems(5) by blast
  qed
  have p3: "\<forall>k \<in> fst ` set rest. \<exists>t. map_of d k = Some t \<and> storage t < next_free h1 \<and>
           storage t \<noteq> storage ld"
    using Cons.prems(3) sf(3) by fastforce
  have p4: "storage ld < next_free h1" using Cons.prems(4) sf(3) by simp
  have p5: "\<forall>k \<in> fst ` set rest. \<forall>k' \<in> fst ` set rest. k \<noteq> k' \<longrightarrow> ?s k \<noteq> ?s k'"
    using Cons.prems(5) by simp
  note ih = Cons.IH[OF rs d1 p3 p4 p5]
  have st_lt: "?s k' < next_free h" if "k' \<in> fst ` set (kn # rest)" for k'
    using Cons.prems(3) that by fastforce
  have a: "cells h' (?s k') = plotted_entries (device (the (map_of d k'))) (cells h (?s k'))"
    if kin: "k' \<in> fst ` set (kn # rest)" for k'
  proof (cases "k' = k")
    case True
    have "?s k \<notin> ?s ` fst ` set rest"
    proof
      assume "?s k \<in> ?s ` fst ` set rest"
      then obtain k2 where "k2 \<in> fst ` set rest" "?s k = ?s k2" by blast
      then show False using sk_ne[of k2] by simp
    qed
    moreover have "?s k < next_free h1" using t sf(3) by simp
    ultimately have "cells h' (?s k) = cells h1 (?s k)" using ih by blast
    then show ?thesis using sf(1) t(1) True by (simp add: entries_def)
  next
    case False
    then have kr: "k' \<in> fst ` set rest" using kin unfolding kn by auto
    have "cells h1 (?s k') = cells h (?s k')"
      using sf(2) st_lt[OF kin] sk_ne[OF kr] t(1) by simp
    moreover have "cells h' (?s k') =
        plotted_entries (device (the (map_of d k'))) (cells h1 (?s k'))"
      using ih kr by blast
    ultimately show ?thesis by simp
  qed
  have b: "cells h' a = cells h a"
    if "a < next_free h" "a \<notin> ?s ` fst ` set (kn # rest)" for a
  proof -
    have "a \<noteq> ?s k" using that(2) unfolding kn by auto
    then have "cells h1 a = cells h a" using sf(2) that(1) t(1) by simp
    moreover have "a < next_free h1" using that(1) sf(3) by simp
    moreover have "a \<notin> ?s ` fst ` set rest" using that(2) by auto
    ultimately show ?thesis using ih by simp
  qed
  have c: "next_free h \<le> next_free h'" using sf(3) ih by simp
  from a b c show ?case by blast
qed

lemma cat_all_lookup:
  assumes c: "cat_all dev ks outputs h = Inr (d, h0)" and m: "map_of d k = Some t"
  shows "\<exists>i < length ks. storage t = next_free h + i \<and> ks ! i = k" (is ?A)
    and "device t = dev" (is ?B)
    and "cells h0 (storage t) = cat_entries k outputs" (is ?C)
    and "storage t < next_free h0" (is ?D)
proof -
  note sp = cat_all_spec[OF c]
  have len: "length d = length ks" using sp by (metis length_map)
  from m have "(k, t) \<in> set d" by (rule map_of_SomeD)
  then obtain i where i: "i < length d" "d ! i = (k, t)" by (auto simp: in_set_conv_nth)
  have ki: "ks ! i = k" using sp i by (metis fst_conv nth_map)
  have il: "i < length ks" using i len by simp
  from sp il have f: "storage (snd (d ! i)) = next_free h + i" "device (snd (d ! i)) = dev"
    "cells h0 (next_free h + i) = cat_entries (ks ! i) outputs" by blast+
  show ?A using il f(1) ki i(2) by auto
  show ?B using f(2) i(2) by simp
  show ?C using f(1,3) ki i(2) by simp
  show ?D using sp f(1) il i(2) by simp
qed

lemma plot_signals_keys:
  assumes "plot_signals sk d ld kns h = Inr (cs, h')" "k \<in> fst ` set kns"
  shows "\<exists>t. map_of d k = Some t"
  using assms
proof (induction kns arbitrary: h cs)
  case Nil
  then show ?case by simp
next
  case (Cons kn rest)
  obtain k1 name where kn: "kn = (k1, name)" by (cases kn) auto
  from Cons.prems(1) obtain c h1 cs1 where
    st: "plot_signal sk d ld k1 name h = Inr (c, h1)"
    and rs: "plot_signals sk d ld rest h1 = Inr (cs1, h')"
    unfolding kn by (auto dest!: and_then_Inr)
  show ?case
  proof (cases "k = k1")
    case True
    from st obtain t where "dict_get k1 d = Inr t"
      unfolding plot_signal_def by (auto dest!: and_then_Inr)
    then show ?thesis using True by (auto simp: dict_get_def split: option.splits)
  next
    case False
    then have "k \<in> fst ` set rest" using Cons.prems(2) unfolding kn by auto
    then show ?thesis using Cons.IH[OF rs] by simp
  qed
qed

lemma plotted_entries_Fin:
  assumes "\<not> all_equal xs"
  shows "plotted_entries dev (map Fin xs) = map Fin (minmax xs)"
  using norm_entries_Fin[OF assms] norm_entries_Fin[OF minmax_not_all_equal[OF assms]]
    minmax_idem[OF assms]
  by (cases dev) (simp_all add: plotted_entries_def)

lemma plotted_entries_const:
  assumes "xs \<noteq> []" "all_equal xs"
  shows "plotted_entries dev (map Fin xs) = replicate (length xs) NaN"
proof -
  have "0 < length xs" using assms(1) by simp
  then show ?thesis
    using norm_entries_const[OF assms] norm_entries_NaN[of "length xs"]
    by (cases dev) (simp_all add: plotted_entries_def)
qed

text \<open>
  C10. \<^verbatim>\<open>prep_fd\<close> writes into its argument. When \<^verbatim>\<open>validation_epoch_end\<close> has
  plotted, the tensor of each of the four signals in \<open>all_outputs\<close> no longer holds
  the concatenated correlations: it holds their min-max normalisation (every entry
  NaN when they were all equal), which is what a reader of \<open>all_outputs\<close> then sees.
  The label agreement \<open>ld\<close>, which does not go through \<^verbatim>\<open>prep_fd\<close>, is unchanged.
\<close>

theorem validation_epoch_end_normalizes_in_place:
  assumes r: "validation_epoch_end sk tr self outputs h = Inr (res, h')"
    and gz: "is_global_zero tr"
    and k: "k \<in> fst ` set signals"
  shows "\<exists>t ld. map_of (all_outputs res) k = Some t \<and>
           entries t h' = plotted_entries (root_device tr) (cat_entries k outputs) \<and>
           (\<forall>xs. cat_entries k outputs = map Fin xs \<longrightarrow> \<not> all_equal xs \<longrightarrow>
                 entries t h' = map Fin (minmax xs)) \<and>
           (\<forall>xs. cat_entries k outputs = map Fin xs \<longrightarrow> xs \<noteq> [] \<longrightarrow> all_equal xs \<longrightarrow>
                 entries t h' = replicate (length xs) NaN) \<and>
           map_of (all_outputs res) ''ld'' = Some ld \<and>
           entries ld h' = cat_entries ''ld'' outputs"
proof -
  from r obtain o0 os where o: "outputs = o0 # os"
    unfolding validation_epoch_end_def by (cases outputs) auto
  let ?dev = "root_device tr"
  from r gz obtain d h0 ld cs where
    c: "cat_all ?dev (map fst o0) outputs h = Inr (d, h0)"
    and l: "dict_get ''ld'' d = Inr ld"
    and ps: "plot_signals sk d ld signals h0 = Inr (cs, h')"
    and res: "all_outputs res = d"
    unfolding validation_epoch_end_def o
    by (auto simp: Let_def dest!: and_then_Inr)
  let ?s = "\<lambda>k. storage (the (map_of d k))"
  have ml: "map_of d ''ld'' = Some ld"
    using l by (auto simp: dict_get_def split: option.splits)
  note ldl = cat_all_lookup[OF c ml]
  have ldk: "''ld'' \<notin> fst ` set signals" by (simp add: signals_def)
  have look: "\<exists>t. map_of d k' = Some t \<and> storage t < next_free h0 \<and> storage t \<noteq> storage ld"
    if "k' \<in> fst ` set signals" for k'
  proof -
    from plot_signals_keys[OF ps that] obtain t where t: "map_of d k' = Some t" by blast
    note tl = cat_all_lookup[OF c t]
    have "k' \<noteq> ''ld''" using that ldk by metis
    then have "storage t \<noteq> storage ld" using tl(1) ldl(1) by auto
    then show ?thesis using t tl(4) by blast
  qed
  have inj: "?s k1 \<noteq> ?s k2" if "k1 \<in> fst ` set signals" "k2 \<in> fst ` set signals" "k1 \<noteq> k2"
    for k1 k2
  proof -
    from plot_signals_keys[OF ps that(1)] obtain t1 where t1: "map_of d k1 = Some t1" by blast
    from plot_signals_keys[OF ps that(2)] obtain t2 where t2: "map_of d k2 = Some t2" by blast
    show ?thesis
      using cat_all_lookup(1)[OF c t1] cat_all_lookup(1)[OF c t2] that(3) t1 t2 by auto
  qed
  have dist: "distinct (map fst signals)" by (simp add: signals_def)
  have fr: "(\<forall>k \<in> fst ` set signals. cells h' (?s k) =
            plotted_entries (device (the (map_of d k))) (cells h0 (?s k))) \<and>
         (\<forall>a < next_free h0. a \<notin> ?s ` fst ` set signals \<longrightarrow> cells h' a = cells h0 a) \<and>
         next_free h0 \<le> next_free h'"
    by (rule plot_signals_frame[OF ps dist _ ldl(4)]) (use look inj in blast)+
  from plot_signals_keys[OF ps k] obtain t where t: "map_of d k = Some t" by blast
  note tl = cat_all_lookup[OF c t]
  have e: "entries t h' = plotted_entries ?dev (cat_entries k outputs)"
    using fr k t tl(2,3) by (auto simp: entries_def)
  have "storage ld \<notin> ?s ` fst ` set signals"
  proof
    assume "storage ld \<in> ?s ` fst ` set signals"
    then obtain k2 where k2: "k2 \<in> fst ` set signals" "storage ld = ?s k2" by blast
    from look[OF k2(1)] show False using k2(2) by auto
  qed
  then have el: "entries ld h' = cat_entries ''ld'' outputs"
    using fr ldl(3,4) by (simp add: entries_def)
  show ?thesis
    using t e el ml plotted_entries_Fin plotted_entries_const unfolding res by auto
qed

theorem validation_epoch_end_normalizes_in_place_witness:
  "(let sk = \<lparr>precision_recall_curve = (\<lambda>t p. Inr (p, t, [])),
               average_precision_score = (\<lambda>t p. Inr (Fin (1 / 2)))\<rparr>;
        tr = \<lparr>is_global_zero = True, root_device = Cpu\<rparr>;
        ext = \<lparr>sample = (\<lambda>t c. Inr t), FeaturePyramidNet = (\<lambda>g u d c t. Inr (t, t)),
                create_cityscapes_colormap = [], create_pascal_label_colormap = []\<rparr>;
        self = LitRecalibrator_init ext (\<lambda>n. \<lparr>histogram = []\<rparr>) 1
                 \<lparr>use_cuda = False, continuous = False, train_dim = 2, granularity = 1,
                  feature_samples = 1, train_dataset_name = ''directory'',
                  extra_clusters = False\<rparr>;
        tv = (\<lambda>a b. \<lparr>dims = [1, 1, 1, 1, 2], vals = [Fin a, Fin b]\<rparr>);
        outputs = [[(''dino_fd'', tv 1 3), (''stego_fd'', tv 2 1), (''moco_fd'', tv 0 5),
                    (''crf_fd'', tv 4 2), (''ld'', tv 1 0)]];
        h = \<lparr>cells = (\<lambda>a. []), next_free = 0\<rparr>
    in is_global_zero tr \<and> ''dino_fd'' \<in> fst ` set signals \<and>
       (\<exists>res h' t ld. validation_epoch_end sk tr self outputs h = Inr (res, h') \<and>
          map_of (all_outputs res) ''dino_fd'' = Some t \<and> entries t h' = [Fin 0, Fin 1] \<and>
          map_of (all_outputs res) ''ld'' = Some ld \<and> entries ld h' = [Fin 1, Fin 0]))"
proof -
  let ?sk = "\<lparr>precision_recall_curve = (\<lambda>t p. Inr (p, t, [])),
               average_precision_score = (\<lambda>t p. Inr (Fin (1 / 2)))\<rparr>"
  let ?tr = "\<lparr>is_global_zero = True, root_device = Cpu\<rparr>"
  let ?ext = "\<lparr>sample = (\<lambda>t c. Inr t), FeaturePyramidNet = (\<lambda>g u d c t. Inr (t, t)),
                create_cityscapes_colormap = [], create_pascal_label_colormap = []\<rparr>"
  let ?self = "LitRecalibrator_init ?ext (\<lambda>n. \<lparr>histogram = []\<rparr>) 1
                 \<lparr>use_cuda = False, continuous = False, train_dim = 2, granularity = 1,
                  feature_samples = 1, train_dataset_name = ''directory'',
                  extra_clusters = False\<rparr>"
  let ?tv = "\<lambda>a b. \<lparr>dims = [1, 1, 1, 1, 2 :: nat], vals = [Fin a, Fin b]\<rparr>"
  let ?outputs = "[[(''dino_fd'', ?tv 1 3), (''stego_fd'', ?tv 2 1), (''moco_fd'', ?tv 0 5),
                    (''crf_fd'', ?tv 4 2), (''ld'', ?tv 1 0)]]"
  let ?h = "\<lparr>cells = (\<lambda>a. []), next_free = 0\<rparr>"
  have gz: "is_global_zero ?tr" by simp
  have k: "''dino_fd'' \<in> fst ` set signals" by (simp add: signals_def)
  have pi: "py_int (Fin 50) = Inr 50" by (simp add: py_int_def trunc_def)
  have "\<exists>res h'. validation_epoch_end ?sk ?tr ?self ?outputs ?h = Inr (res, h')"
    by (simp add: validation_epoch_end_def and_then_def dict_get_def torch_cat_def alloc_def
          cat_vals_def signals_def plot_signal_def prep_fd_def tensor_min_def tensor_max_def
          entries_def isub_scalar_def idiv_scalar_def plot_pr_def cpu_def reshape_flat_def
          to_int64_def pr_line_def pi fsub_def Let_def)
  then obtain res h' where r: "validation_epoch_end ?sk ?tr ?self ?outputs ?h = Inr (res, h')"
    by blast
  have ce: "cat_entries ''dino_fd'' ?outputs = map Fin [1, 3]"
    "cat_entries ''ld'' ?outputs = [Fin 1, Fin 0]"
    by (simp_all add: cat_entries_def and_then_def dict_get_def cat_vals_def)
  have ne: "\<not> all_equal [1, 3 :: real]" by simp
  have mm: "minmax [1, 3] = [0, 1]" by (simp add: minmax_def)
  from validation_epoch_end_normalizes_in_place[OF r gz k] obtain t ld where
    f1: "map_of (all_outputs res) ''dino_fd'' = Some t"
    and f2: "\<forall>xs. cat_entries ''dino_fd'' ?outputs = map Fin xs \<longrightarrow> \<not> all_equal xs \<longrightarrow>
                 entries t h' = map Fin (minmax xs)"
    and f3: "map_of (all_outputs res) ''ld'' = Some ld"
    and f4: "entries ld h' = cat_entries ''ld'' ?outputs"
    by blast
  have "entries t h' = map Fin (minmax [1, 3])"
    using f2[rule_format, OF ce(1) ne] .
  then have f5: "entries t h' = [Fin 0, Fin 1]" unfolding mm by simp
  have f6: "entries ld h' = [Fin 1, Fin 0]" using f4 unfolding ce(2) .
  have "map_of (all_outputs res) ''dino_fd'' = Some t \<and> entries t h' = [Fin 0, Fin 1] \<and>
          map_of (all_outputs res) ''ld'' = Some ld \<and> entries ld h' = [Fin 1, Fin 0]"
    using f1 f5 f3 f6 by blast
  with r gz k show ?thesis unfolding Let_def by blast
qed

end
